theory Spec2Isabelle
  imports Complex_Main "HOL-Library.Log_Nat"
begin

section \<open>JavaScript Numbers\<close>

text \<open>
  \<^verbatim>\<open>app.js\<close> is a browser script. A JavaScript Number is an IEEE-754 binary64 value: a
  finite one is a rational number, and there are the negative zero, \<^verbatim>\<open>NaN\<close> and the two
  infinities. \<open>Finite 0\<close> is the positive zero. \<open>Finite x\<close> is admitted for every
  rational \<open>x\<close>, so that what is proved of every \<open>number\<close> holds of the Numbers;
  \<open>round64\<close> gives the Number that a numeral of the document denotes.
\<close>

datatype number = Finite rat | NegZero | NaN | Infinity | NegInfinity

text \<open>
  Powers of an integer base with an integer exponent, and the integer logarithm of a
  positive rational: \<open>ilog b x\<close> is the \<open>e\<close> with \<open>b^e \<le> x < b^(e+1)\<close>.
\<close>

definition ipow :: "int \<Rightarrow> int \<Rightarrow> rat" where
  "ipow b e = (if 0 \<le> e then of_int (b ^ nat e) else 1 / of_int (b ^ nat (- e)))"

definition ilog :: "nat \<Rightarrow> rat \<Rightarrow> int" where
  "ilog b x =
     (if 1 \<le> x then int (floorlog b (nat \<lfloor>x\<rfloor>)) - 1
      else - int (floorlog b (nat (\<lceil>1 / x\<rceil> - 1))))"

text \<open>
  Rounding to binary64, to nearest with ties to even (IEEE 754; ECMA-262, 6.1.6.1). A
  positive \<open>a\<close> lies in the binade \<open>2^e \<le> a < 2^(e+1)\<close>, where the Numbers are the
  multiples of \<open>2^(e-52)\<close>, and of \<open>2^(-1074)\<close> in the subnormal range; a result of
  \<open>2^1024\<close> or more is an infinity, and a result of zero keeps the sign.
\<close>

definition round_half_even :: "rat \<Rightarrow> int" where
  "round_half_even y =
     (let f = \<lfloor>y\<rfloor>; d = y - of_int f
      in if d < 1 / 2 then f else if 1 / 2 < d then f + 1 else if even f then f else f + 1)"

definition quantum :: "rat \<Rightarrow> int" where
  "quantum a = max (ilog 2 a - 52) (- 1074)"

definition round64_magnitude :: "rat \<Rightarrow> rat" where
  "round64_magnitude a =
     (if a = 0 then 0
      else of_int (round_half_even (a / ipow 2 (quantum a))) * ipow 2 (quantum a))"

definition round64_signed :: "bool \<Rightarrow> rat \<Rightarrow> number" where
  "round64_signed neg a =
     (let v = round64_magnitude a
      in if 2 ^ 1024 \<le> v then (if neg then NegInfinity else Infinity)
         else if v = 0 then (if neg then NegZero else Finite 0)
         else Finite (if neg then - v else v))"

definition round64 :: "rat \<Rightarrow> number" where
  "round64 x = round64_signed (x < 0) \<bar>x\<bar>"

text \<open>\<^verbatim>\<open>x * y\<close> on Numbers (ECMA-262, 6.1.6.1.4): the exact product, rounded.\<close>

fun is_negative :: "number \<Rightarrow> bool" where
  "is_negative (Finite x) = (x < 0)"
| "is_negative NegZero = True"
| "is_negative NegInfinity = True"
| "is_negative NaN = False"
| "is_negative Infinity = False"

fun magnitude :: "number \<Rightarrow> rat option" where
  "magnitude (Finite x) = Some \<bar>x\<bar>"
| "magnitude NegZero = Some 0"
| "magnitude NaN = None"
| "magnitude Infinity = None"
| "magnitude NegInfinity = None"

definition times64 :: "number \<Rightarrow> number \<Rightarrow> number" where
  "times64 x y =
     (if x = NaN \<or> y = NaN then NaN
      else case (magnitude x, magnitude y) of
          (Some a, Some b) \<Rightarrow> round64_signed (is_negative x \<noteq> is_negative y) (a * b)
        | (Some a, None) \<Rightarrow>
            if a = 0 then NaN
            else if is_negative x \<noteq> is_negative y then NegInfinity else Infinity
        | (None, Some b) \<Rightarrow>
            if b = 0 then NaN
            else if is_negative x \<noteq> is_negative y then NegInfinity else Infinity
        | (None, None) \<Rightarrow> if is_negative x \<noteq> is_negative y then NegInfinity else Infinity)"

subsection \<open>Numbers as strings\<close>

definition digit_char :: "nat \<Rightarrow> char" where
  "digit_char d = ''0123456789'' ! d"

text \<open>The decimal digits of a natural number, most significant first.\<close>

fun digits_of :: "nat \<Rightarrow> string" where
  "digits_of n =
     (if n < 10 then [digit_char n] else digits_of (n div 10) @ [digit_char (n mod 10)])"

declare digits_of.simps [simp del]

definition zeros :: "nat \<Rightarrow> string" where
  "zeros n = replicate n (CHR ''0'')"

text \<open>
  \<^verbatim>\<open>Number::toString\<close> (ECMA-262, 6.1.6.1.20) on a positive \<open>a\<close> takes integers \<open>n\<close>, \<open>k\<close>
  and \<open>s\<close> with \<open>k\<close> as small as possible such that \<open>10^(k-1) \<le> s < 10^k\<close> and
  \<open>s * 10^(n-k)\<close> rounds to \<open>a\<close>; among several \<open>s\<close> the one nearest to \<open>a\<close>, the even one on
  a tie. With \<open>10^(n-1) \<le> a < 10^n\<close>, the \<open>k\<close>-digit decimals next to \<open>a\<close> are
  \<open>lo * 10^(n-k)\<close> and \<open>(lo + 1) * 10^(n-k)\<close> for \<open>lo = \<lfloor>a / 10^(n-k)\<rfloor>\<close>; 17 digits always
  round back. \<open>lo + 1 = 10^k\<close> is the one digit 1 with the exponent \<open>n + 1\<close>.
\<close>

definition candidates :: "rat \<Rightarrow> int \<Rightarrow> nat \<Rightarrow> int list" where
  "candidates a n k =
     (let u = ipow 10 (n - int k); lo = \<lfloor>a / u\<rfloor>
      in filter (\<lambda>c. round64 (of_int c * u) = Finite a) [lo, lo + 1])"

definition closest :: "rat \<Rightarrow> int \<Rightarrow> nat \<Rightarrow> int list \<Rightarrow> int" where
  "closest a n k cs =
     (let u = ipow 10 (n - int k); lo = \<lfloor>a / u\<rfloor>
      in if cs = [lo] then lo
         else if cs = [lo + 1] then lo + 1
         else if a - of_int lo * u < of_int (lo + 1) * u - a then lo
         else if of_int (lo + 1) * u - a < a - of_int lo * u then lo + 1
         else if even lo then lo else lo + 1)"

definition shortest_from :: "rat \<Rightarrow> int \<Rightarrow> int \<times> nat" where
  "shortest_from a n =
     (case List.find (\<lambda>k. candidates a n k \<noteq> [])
             [1, 2, 3, 4, 5, 6, 7, 8, 9, 10, 11, 12, 13, 14, 15, 16] of
        None \<Rightarrow> (round_half_even (a / ipow 10 (n - 17)), 17)
      | Some k \<Rightarrow> (closest a n k (candidates a n k), k))"

definition strip_zeros :: "string \<Rightarrow> string" where
  "strip_zeros s = rev (dropWhile (\<lambda>c. c = CHR ''0'') (rev s))"

text \<open>The digits without trailing zeros, and the \<open>n\<close> with value \<open>0.digits * 10^n\<close>.\<close>

definition shortest_digits :: "rat \<Rightarrow> string \<times> int" where
  "shortest_digits a =
     (let n = ilog 10 a + 1;
          (c, k) = shortest_from a n
      in (strip_zeros (digits_of (nat c)), if c = 10 ^ k then n + 1 else n))"

text \<open>The decimal that these digits denote.\<close>

definition shortest_decimal :: "rat \<Rightarrow> rat" where
  "shortest_decimal a =
     (let n = ilog 10 a + 1;
          (c, k) = shortest_from a n
      in of_int c * ipow 10 (n - int k))"

definition exponent_part :: "int \<Rightarrow> string" where
  "exponent_part e = (if e < 0 then ''-'' else ''+'') @ digits_of (nat \<bar>e\<bar>)"

definition positive_toString :: "rat \<Rightarrow> string" where
  "positive_toString a =
     (let (ds, n) = shortest_digits a; k = int (length ds)
      in if - 5 \<le> n \<and> n \<le> 21 then
           (if k \<le> n then ds @ zeros (nat (n - k))
            else if 0 < n then take (nat n) ds @ ''.'' @ drop (nat n) ds
            else ''0.'' @ zeros (nat (- n)) @ ds)
         else if k = 1 then ds @ ''e'' @ exponent_part (n - 1)
         else take 1 ds @ ''.'' @ drop 1 ds @ ''e'' @ exponent_part (n - 1))"

fun numberToString :: "number \<Rightarrow> string" where
  "numberToString NaN = ''NaN''"
| "numberToString Infinity = ''Infinity''"
| "numberToString NegInfinity = ''-Infinity''"
| "numberToString NegZero = ''0''"
| "numberToString (Finite x) =
     (if x = 0 then ''0''
      else if x < 0 then ''-'' @ positive_toString (- x)
      else positive_toString x)"

declare numberToString.simps [simp del]

text \<open>
  \<^verbatim>\<open>Number.prototype.toFixed(f)\<close> (ECMA-262, 21.1.3.3): a Number that is not finite prints
  as \<^verbatim>\<open>ToString\<close> does; of a finite one the sign is split off; from \<open>10^21\<close> on the rest is
  \<^verbatim>\<open>ToString\<close>; below, \<open>n\<close> is the integer nearest to \<open>a * 10^f\<close> (the larger one on a tie),
  printed with at least \<open>f + 1\<close> digits and a point before the last \<open>f\<close>.
\<close>

definition fixed_digits :: "nat \<Rightarrow> rat \<Rightarrow> string" where
  "fixed_digits f a =
     (let n = nat \<lfloor>a * 10 ^ f + 1 / 2\<rfloor>;
          m = digits_of n
      in if f \<noteq> 0
         then (let m = zeros (f + 1 - length m) @ m;
                   k = length m
               in take (k - f) m @ ''.'' @ drop (k - f) m)
         else m)"

fun toFixed :: "nat \<Rightarrow> number \<Rightarrow> string" where
  "toFixed f (Finite x) =
     (let s = (if x < 0 then ''-'' else '''');
          a = \<bar>x\<bar>
      in if 10 ^ 21 \<le> a then s @ numberToString (Finite a) else s @ fixed_digits f a)"
| "toFixed f NegZero = fixed_digits f 0"
| "toFixed f NaN = ''NaN''"
| "toFixed f Infinity = ''Infinity''"
| "toFixed f NegInfinity = ''-Infinity''"

declare toFixed.simps [simp del]

subsection \<open>Strings as Numbers\<close>

text \<open>
  Strings are kept as their UTF-8 bytes. A JavaScript string is a sequence of UTF-16
  code units: a character below U+10000 is one code unit, a character from U+10000 on
  (four bytes, the first from \<open>0xF0\<close> on) is a pair of surrogates. \<open>characters\<close> cuts a
  string before every byte that is not a continuation byte \<open>10xxxxxx\<close>.
\<close>

definition continuation :: "char \<Rightarrow> bool" where
  "continuation c = (128 \<le> (of_char c :: nat) \<and> (of_char c :: nat) < 192)"

fun characters :: "string \<Rightarrow> string list" where
  "characters [] = []"
| "characters (c # cs) =
     (case characters cs of
        [] \<Rightarrow> [[c]]
      | ch # chs \<Rightarrow> if continuation (hd ch) then (c # ch) # chs else [c] # ch # chs)"

text \<open>
  \<^verbatim>\<open>StringToNumber\<close> (ECMA-262, 7.1.4.1.1): white space and line terminators are
  trimmed; the empty string is 0; a decimal literal may have a sign, a fraction and an
  exponent, or be \<^verbatim>\<open>Infinity\<close>; a hexadecimal, octal or binary integer has a prefix and
  no sign; anything else is \<^verbatim>\<open>NaN\<close>.
\<close>

definition white_space :: "string list" where
  "white_space =
     [[CHR 0x09], [CHR 0x0A], [CHR 0x0B], [CHR 0x0C], [CHR 0x0D], [CHR 0x20],
      [CHR 0xC2, CHR 0xA0], [CHR 0xE1, CHR 0x9A, CHR 0x80],
      [CHR 0xE2, CHR 0x80, CHR 0x80], [CHR 0xE2, CHR 0x80, CHR 0x81],
      [CHR 0xE2, CHR 0x80, CHR 0x82], [CHR 0xE2, CHR 0x80, CHR 0x83],
      [CHR 0xE2, CHR 0x80, CHR 0x84], [CHR 0xE2, CHR 0x80, CHR 0x85],
      [CHR 0xE2, CHR 0x80, CHR 0x86], [CHR 0xE2, CHR 0x80, CHR 0x87],
      [CHR 0xE2, CHR 0x80, CHR 0x88], [CHR 0xE2, CHR 0x80, CHR 0x89],
      [CHR 0xE2, CHR 0x80, CHR 0x8A], [CHR 0xE2, CHR 0x80, CHR 0xA8],
      [CHR 0xE2, CHR 0x80, CHR 0xA9], [CHR 0xE2, CHR 0x80, CHR 0xAF],
      [CHR 0xE2, CHR 0x81, CHR 0x9F], [CHR 0xE3, CHR 0x80, CHR 0x80],
      [CHR 0xEF, CHR 0xBB, CHR 0xBF]]"

definition trim :: "string \<Rightarrow> string" where
  "trim s =
     concat (rev (dropWhile (\<lambda>ch. ch \<in> set white_space)
       (rev (dropWhile (\<lambda>ch. ch \<in> set white_space) (characters s)))))"

definition digit_value :: "char \<Rightarrow> nat option" where
  "digit_value c =
     (let n = (of_char c :: nat)
      in if 48 \<le> n \<and> n \<le> 57 then Some (n - 48)
         else if 65 \<le> n \<and> n \<le> 70 then Some (n - 55)
         else if 97 \<le> n \<and> n \<le> 102 then Some (n - 87)
         else None)"

definition is_digit :: "nat \<Rightarrow> char \<Rightarrow> bool" where
  "is_digit base c = (case digit_value c of None \<Rightarrow> False | Some d \<Rightarrow> d < base)"

definition digits_value :: "nat \<Rightarrow> string \<Rightarrow> nat" where
  "digits_value base ds =
     foldl (\<lambda>n c. base * n + (case digit_value c of None \<Rightarrow> 0 | Some d \<Rightarrow> d)) 0 ds"

definition integer_literal :: "nat \<Rightarrow> string \<Rightarrow> number" where
  "integer_literal base ds =
     (if ds \<noteq> [] \<and> list_all (is_digit base) ds
      then round64 (of_nat (digits_value base ds)) else NaN)"

text \<open>The exponent part of a decimal literal: absent, or \<^verbatim>\<open>e\<close> with a signed integer.\<close>

definition exponent_literal :: "string \<Rightarrow> int option" where
  "exponent_literal s =
     (if s = [] then Some 0
      else if hd s = CHR ''e'' \<or> hd s = CHR ''E'' then
        (let t = tl s;
             neg = (t \<noteq> [] \<and> hd t = CHR ''-'');
             ds = (if t \<noteq> [] \<and> (hd t = CHR ''-'' \<or> hd t = CHR ''+'') then tl t else t)
         in if ds \<noteq> [] \<and> list_all (is_digit 10) ds
            then Some (if neg then - int (digits_value 10 ds) else int (digits_value 10 ds))
            else None)
      else None)"

definition decimal_literal :: "bool \<Rightarrow> string \<Rightarrow> number" where
  "decimal_literal neg s =
     (if s = ''Infinity'' then (if neg then NegInfinity else Infinity)
      else
        let whole = takeWhile (is_digit 10) s;
            s1 = dropWhile (is_digit 10) s;
            point = (s1 \<noteq> [] \<and> hd s1 = CHR ''.'');
            frac = (if point then takeWhile (is_digit 10) (tl s1) else []);
            s2 = (if point then dropWhile (is_digit 10) (tl s1) else s1)
        in if whole = [] \<and> frac = [] then NaN
           else case exponent_literal s2 of
                  None \<Rightarrow> NaN
                | Some e \<Rightarrow>
                    round64_signed neg
                      (of_nat (digits_value 10 (whole @ frac)) * ipow 10 (e - int (length frac))))"

definition stringToNumber :: "string \<Rightarrow> number" where
  "stringToNumber s =
     (let t = trim s
      in if t = [] then Finite 0
         else if take 2 t = ''0x'' \<or> take 2 t = ''0X'' then integer_literal 16 (drop 2 t)
         else if take 2 t = ''0o'' \<or> take 2 t = ''0O'' then integer_literal 8 (drop 2 t)
         else if take 2 t = ''0b'' \<or> take 2 t = ''0B'' then integer_literal 2 (drop 2 t)
         else if hd t = CHR ''-'' then decimal_literal True (tl t)
         else if hd t = CHR ''+'' then decimal_literal False (tl t)
         else decimal_literal False t)"

subsection \<open>The host\<close>

text \<open>
  What the language leaves to the host: \<^verbatim>\<open>Number.prototype.toLocaleString()\<close> in the
  host's locale, and the separator of \<^verbatim>\<open>Array.prototype.toLocaleString()\<close>. Every theorem
  holds for every host.
\<close>

record host =
  toLocaleString :: "number \<Rightarrow> string"
  listSeparator :: string

text \<open>
  The \<^verbatim>\<open>en-US\<close> host, for evaluating the model on concrete inputs: at most three fraction
  digits, rounded half away from zero from the shortest decimal that denotes the Number
  (as ICU formats a double), and groups of three integer digits separated by commas.
\<close>

fun group_thousands :: "nat \<Rightarrow> string" where
  "group_thousands n =
     (if n < 1000 then digits_of n
      else group_thousands (n div 1000) @ '','' @
           [digit_char (n mod 1000 div 100), digit_char (n mod 100 div 10), digit_char (n mod 10)])"

declare group_thousands.simps [simp del]

definition en_US_decimal :: "rat \<Rightarrow> string" where
  "en_US_decimal d =
     (let n = nat \<lfloor>d * 1000 + 1 / 2\<rfloor>;
          frac = strip_zeros
            [digit_char (n mod 1000 div 100), digit_char (n mod 100 div 10), digit_char (n mod 10)]
      in group_thousands (n div 1000) @ (if frac = [] then [] else ''.'' @ frac))"

text \<open>The sign of infinity, U+221E, in UTF-8.\<close>

definition infinity_sign :: string where
  "infinity_sign = [CHR 0xE2, CHR 0x88, CHR 0x9E]"

fun en_US_toLocaleString :: "number \<Rightarrow> string" where
  "en_US_toLocaleString NaN = ''NaN''"
| "en_US_toLocaleString Infinity = infinity_sign"
| "en_US_toLocaleString NegInfinity = ''-'' @ infinity_sign"
| "en_US_toLocaleString NegZero = ''-0''"
| "en_US_toLocaleString (Finite x) =
     (if x = 0 then ''0''
      else if x < 0 then ''-'' @ en_US_decimal (shortest_decimal (- x))
      else en_US_decimal (shortest_decimal x))"

declare en_US_toLocaleString.simps [simp del]

definition en_US_host :: host where
  "en_US_host = \<lparr> toLocaleString = en_US_toLocaleString, listSeparator = '','' \<rparr>"

section \<open>The values of the analysis document\<close>

text \<open>
  \<^verbatim>\<open>response.json()\<close> gives any JSON value, and the script never checks its shape. An
  object keeps its members in the order of the text; of two members with one name,
  \<^verbatim>\<open>JSON.parse\<close> keeps the last. A value that the script handles is a JSON value or
  \<^verbatim>\<open>undefined\<close>, here \<open>None\<close>.
\<close>

datatype json =
  JNull
| JBool bool
| JNumber number
| JString string
| JArray "json list"
| JObject "(string \<times> json) list"

type_synonym js_value = "json option"

datatype js_error = NetworkError | SyntaxError | TypeError

text \<open>Evaluating an expression gives a value or throws. \<open>chain\<close> evaluates one step after another.\<close>

type_synonym 'a completion = "js_error + 'a"

fun chain :: "'a completion \<Rightarrow> ('a \<Rightarrow> 'b completion) \<Rightarrow> 'b completion" where
  "chain (Inl e) f = Inl e"
| "chain (Inr v) f = f v"

definition own_property :: "(string \<times> json) list \<Rightarrow> string \<Rightarrow> js_value" where
  "own_property members k = map_of (rev members) k"

text \<open>\<^verbatim>\<open>xs[i]\<close> is \<^verbatim>\<open>undefined\<close> out of range; \<^verbatim>\<open>xs.slice(b, e)\<close> for \<open>0 \<le> b \<le> e\<close>.\<close>

definition nth_opt :: "'a list \<Rightarrow> nat \<Rightarrow> 'a option" where
  "nth_opt xs i = (if i < length xs then Some (xs ! i) else None)"

definition slice :: "nat \<Rightarrow> nat \<Rightarrow> 'a list \<Rightarrow> 'a list" where
  "slice b e xs = drop b (take e xs)"

text \<open>
  \<^verbatim>\<open>v.k\<close> for the data properties that the script reads (\<^verbatim>\<open>texts\<close>, \<^verbatim>\<open>sentiment\<close>,
  \<^verbatim>\<open>word\<close>, ...), none of which is a property of a prototype, of an array or of a
  string: a \<^verbatim>\<open>TypeError\<close> on \<^verbatim>\<open>undefined\<close> and \<^verbatim>\<open>null\<close>, the member of an object, and
  \<^verbatim>\<open>undefined\<close> otherwise.
\<close>

fun member :: "string \<Rightarrow> js_value \<Rightarrow> js_value completion" where
  "member k None = Inl TypeError"
| "member k (Some JNull) = Inl TypeError"
| "member k (Some (JObject members)) = Inr (own_property members k)"
| "member k (Some (JBool b)) = Inr None"
| "member k (Some (JNumber n)) = Inr None"
| "member k (Some (JString s)) = Inr None"
| "member k (Some (JArray xs)) = Inr None"

text \<open>
  \<^verbatim>\<open>v[i]\<close>: the element of an array, the code unit of a string (a surrogate is kept in
  the three-byte form of UTF-8), the member named by the numeral \<open>i\<close> of an object.
\<close>

definition utf8 :: "nat \<Rightarrow> string" where
  "utf8 u = [char_of (224 + u div 4096), char_of (128 + u div 64 mod 64), char_of (128 + u mod 64)]"

definition code_units_of :: "string \<Rightarrow> string list" where
  "code_units_of ch =
     (if length ch = 4 \<and> 240 \<le> (of_char (hd ch) :: nat) then
        (let cp = (of_char (ch ! 0) :: nat) mod 8 * 262144 + (of_char (ch ! 1) :: nat) mod 64 * 4096 +
                  (of_char (ch ! 2) :: nat) mod 64 * 64 + (of_char (ch ! 3) :: nat) mod 64 - 65536
         in [utf8 (55296 + cp div 1024), utf8 (56320 + cp mod 1024)])
      else [ch])"

definition code_units :: "string \<Rightarrow> string list" where
  "code_units s = concat (map code_units_of (characters s))"

fun subscript :: "nat \<Rightarrow> js_value \<Rightarrow> js_value completion" where
  "subscript i None = Inl TypeError"
| "subscript i (Some JNull) = Inl TypeError"
| "subscript i (Some (JArray xs)) = Inr (nth_opt xs i)"
| "subscript i (Some (JString s)) = Inr (map_option JString (nth_opt (code_units s) i))"
| "subscript i (Some (JObject members)) = Inr (own_property members (digits_of i))"
| "subscript i (Some (JBool b)) = Inr None"
| "subscript i (Some (JNumber n)) = Inr None"

text \<open>
  \<^verbatim>\<open>Array.prototype.join\<close>: the strings of the elements in order, the first error if
  one throws.
\<close>

fun join_strings :: "string \<Rightarrow> string completion list \<Rightarrow> string completion" where
  "join_strings sep [] = Inr []"
| "join_strings sep [x] = x"
| "join_strings sep (x # y # ys) =
     chain x (\<lambda>s. chain (join_strings sep (y # ys)) (\<lambda>t. Inr (s @ sep @ t)))"

text \<open>
  \<^verbatim>\<open>ToString\<close> (ECMA-262, 7.1.17). An array is joined with commas, \<^verbatim>\<open>null\<close> elements as
  empty strings. An object of the document has no callable property of its own: with a
  member named \<^verbatim>\<open>toString\<close> the conversion to a primitive finds no method and throws a
  \<^verbatim>\<open>TypeError\<close>, without one it is \<^verbatim>\<open>Object.prototype.toString\<close>.
\<close>

fun toString :: "json \<Rightarrow> string completion" where
  "toString JNull = Inr ''null''"
| "toString (JBool b) = Inr (if b then ''true'' else ''false'')"
| "toString (JNumber n) = Inr (numberToString n)"
| "toString (JString s) = Inr s"
| "toString (JArray xs) =
     join_strings '','' (map (\<lambda>x. if x = JNull then Inr [] else toString x) xs)"
| "toString (JObject members) =
     (if own_property members ''toString'' \<noteq> None then Inl TypeError
      else Inr ''[object Object]'')"

text \<open>A substitution \<^verbatim>\<open>${v}\<close> of a template literal.\<close>

fun substitution :: "js_value \<Rightarrow> string completion" where
  "substitution None = Inr ''undefined''"
| "substitution (Some v) = toString v"

text \<open>
  \<^verbatim>\<open>ToNumber\<close> (ECMA-262, 7.1.4). An array or an object is converted to a primitive with
  the hint \<^verbatim>\<open>number\<close>: \<^verbatim>\<open>valueOf\<close> gives no primitive, so it is the string of \<^verbatim>\<open>toString\<close>
  that is converted.
\<close>

fun toNumber :: "js_value \<Rightarrow> number completion" where
  "toNumber None = Inr NaN"
| "toNumber (Some JNull) = Inr (Finite 0)"
| "toNumber (Some (JBool b)) = Inr (Finite (if b then 1 else 0))"
| "toNumber (Some (JNumber n)) = Inr n"
| "toNumber (Some (JString s)) = Inr (stringToNumber s)"
| "toNumber (Some (JArray xs)) = chain (toString (JArray xs)) (\<lambda>s. Inr (stringToNumber s))"
| "toNumber (Some (JObject members)) =
     chain (toString (JObject members)) (\<lambda>s. Inr (stringToNumber s))"

text \<open>\<^verbatim>\<open>v * 100\<close>.\<close>

definition times_100 :: "js_value \<Rightarrow> number completion" where
  "times_100 v = chain (toNumber v) (\<lambda>n. Inr (times64 n (Finite 100)))"

text \<open>
  \<^verbatim>\<open>v.toLocaleString()\<close>. A Number has its own method; a boolean and a string inherit
  \<^verbatim>\<open>Object.prototype.toLocaleString\<close>, which calls \<^verbatim>\<open>toString\<close>; an array joins what the
  method gives for its elements; an object inherits the method too, unless a member
  named \<^verbatim>\<open>toLocaleString\<close> or \<^verbatim>\<open>toString\<close>, not callable, is in the way.
\<close>

fun toLocaleString_of :: "host \<Rightarrow> json \<Rightarrow> string completion" where
  "toLocaleString_of h JNull = Inl TypeError"
| "toLocaleString_of h (JBool b) = Inr (if b then ''true'' else ''false'')"
| "toLocaleString_of h (JNumber n) = Inr (toLocaleString h n)"
| "toLocaleString_of h (JString s) = Inr s"
| "toLocaleString_of h (JArray xs) =
     join_strings (listSeparator h)
       (map (\<lambda>x. if x = JNull then Inr [] else toLocaleString_of h x) xs)"
| "toLocaleString_of h (JObject members) =
     (if own_property members ''toLocaleString'' \<noteq> None \<or>
         own_property members ''toString'' \<noteq> None
      then Inl TypeError
      else Inr ''[object Object]'')"

fun call_toLocaleString :: "host \<Rightarrow> js_value \<Rightarrow> string completion" where
  "call_toLocaleString h None = Inl TypeError"
| "call_toLocaleString h (Some v) = toLocaleString_of h v"

text \<open>\<^verbatim>\<open>v.toFixed(f)\<close>: only a Number has the method.\<close>

fun call_toFixed :: "nat \<Rightarrow> js_value \<Rightarrow> string completion" where
  "call_toFixed f (Some (JNumber n)) = Inr (toFixed f n)"
| "call_toFixed f v = Inl TypeError"

text \<open>
  The items that \<^verbatim>\<open>v.slice(0, 30).forEach(...)\<close> visits: only an array has both methods
  (a string has \<^verbatim>\<open>slice\<close> and no \<^verbatim>\<open>forEach\<close>).
\<close>

fun slice_0_30 :: "js_value \<Rightarrow> json list completion" where
  "slice_0_30 (Some (JArray xs)) = Inr (slice 0 30 xs)"
| "slice_0_30 v = Inl TypeError"

section \<open>The page\<close>

text \<open>
  Nodes the script creates: the \<^verbatim>\<open>div\<close> of a word item (its class name and the markup
  assigned to \<^verbatim>\<open>innerHTML\<close>) and the SVG tree that d3 builds. d3 hands the value of
  \<^verbatim>\<open>attr\<close> to \<^verbatim>\<open>setAttribute\<close>; the model keeps a number as a number. The numbers of the
  chart are small integers, on which binary64 arithmetic is exact.
\<close>

datatype attr_value = Num rat | Str string

datatype svg =
  Svg_element (tag: string) (attrs: "(string \<times> attr_value) list")
    (styles: "(string \<times> string) list") (inner_text: string) (kids: "svg list")

datatype node = Html_div (className: string) (innerHTML: string) | Svg_tree svg

text \<open>
  An element of the host page, with the properties the script reads or writes. The
  page is the list of its elements in document order; an element reference is its
  position, which never changes since the script adds children only.
\<close>

record element =
  elem_id :: "string option"
  classList :: "string list"
  dataset_view :: "string option"
  textContent :: string
  style_width :: string
  style_display :: string
  childNodes :: "node list"

type_synonym page = "element list"

text \<open>A statement either completes or throws; the page as it is then is kept either way.\<close>

datatype 's result = Done 's | Threw js_error 's

fun state_of :: "'s result \<Rightarrow> 's" where
  "state_of (Done s) = s"
| "state_of (Threw e s) = s"

fun andThen :: "'s result \<Rightarrow> ('s \<Rightarrow> 's result) \<Rightarrow> 's result" where
  "andThen (Done s) f = f s"
| "andThen (Threw e s) f = Threw e s"

text \<open>A block of statements, run in order until one throws.\<close>

fun run :: "('s \<Rightarrow> 's result) list \<Rightarrow> 's \<Rightarrow> 's result" where
  "run [] s = Done s"
| "run (f # fs) s = andThen (f s) (run fs)"

fun forEach :: "('a \<Rightarrow> 's \<Rightarrow> 's result) \<Rightarrow> 'a list \<Rightarrow> 's \<Rightarrow> 's result" where
  "forEach body [] s = Done s"
| "forEach body (x # xs) s = andThen (body x s) (forEach body xs)"

text \<open>
  \<^verbatim>\<open>const x = e;\<close> followed by the statements that use \<open>x\<close>, and a statement that
  evaluates \<open>e\<close> first and goes on with its value.
\<close>

fun with_value :: "'a completion \<Rightarrow> ('a \<Rightarrow> 's \<Rightarrow> 's result) \<Rightarrow> 's \<Rightarrow> 's result" where
  "with_value (Inl e) rest s = Threw e s"
| "with_value (Inr x) rest s = rest x s"

text \<open>\<^verbatim>\<open>document.getElementById\<close>: the first element with the id, or \<^verbatim>\<open>null\<close>.\<close>

fun getElementById :: "string \<Rightarrow> page \<Rightarrow> nat option" where
  "getElementById i [] = None"
| "getElementById i (e # es) =
     (if elem_id e = Some i then Some 0 else map_option Suc (getElementById i es))"

text \<open>\<^verbatim>\<open>document.querySelectorAll('.c')\<close>: the elements of class \<open>c\<close>, in document order.\<close>

definition querySelectorAll_class :: "string \<Rightarrow> page \<Rightarrow> nat list" where
  "querySelectorAll_class c p = filter (\<lambda>k. c \<in> set (classList (p ! k))) [0..<length p]"

text \<open>
  \<^verbatim>\<open>document.getElementById(i).prop = v\<close>: a \<^verbatim>\<open>TypeError\<close> on \<^verbatim>\<open>null\<close>, as when \<open>v\<close>
  throws. Assigning \<^verbatim>\<open>textContent\<close> or \<^verbatim>\<open>innerHTML\<close> replaces the children of the
  element.
\<close>

definition assign :: "string \<Rightarrow> (element \<Rightarrow> element) \<Rightarrow> page \<Rightarrow> page result" where
  "assign i f p =
     (case getElementById i p of
        None \<Rightarrow> Threw TypeError p
      | Some k \<Rightarrow> Done (p[k := f (p ! k)]))"

definition setTextContent :: "string \<Rightarrow> string completion \<Rightarrow> page \<Rightarrow> page result" where
  "setTextContent i v p =
     (case v of
        Inl e \<Rightarrow> Threw e p
      | Inr s \<Rightarrow> assign i (\<lambda>e. e\<lparr>textContent := s, childNodes := []\<rparr>) p)"

text \<open>
  \<^verbatim>\<open>document.getElementById(i).style.width = n + '%'\<close> for a Number \<open>n\<close>. The style
  declaration takes a value only if it parses as a width: a percentage that is not
  negative. \<^verbatim>\<open>NaN%\<close>, \<^verbatim>\<open>Infinity%\<close> and a negative percentage leave the width as it is.
\<close>

fun width_percentage :: "number \<Rightarrow> bool" where
  "width_percentage (Finite x) = (0 \<le> x)"
| "width_percentage NegZero = True"
| "width_percentage NaN = False"
| "width_percentage Infinity = False"
| "width_percentage NegInfinity = False"

definition setStyleWidth :: "string \<Rightarrow> number completion \<Rightarrow> page \<Rightarrow> page result" where
  "setStyleWidth i v p =
     (case v of
        Inl e \<Rightarrow> Threw e p
      | Inr n \<Rightarrow>
          assign i
            (\<lambda>e. if width_percentage n then e\<lparr>style_width := numberToString n @ ''%''\<rparr> else e) p)"

definition clearInnerHTML :: "string \<Rightarrow> page \<Rightarrow> page result" where
  "clearInnerHTML i = assign i (\<lambda>e. e\<lparr>textContent := [], childNodes := []\<rparr>)"

text \<open>\<^verbatim>\<open>parent.appendChild(child)\<close> on a reference obtained earlier, possibly \<^verbatim>\<open>null\<close>.\<close>

definition appendChild :: "nat option \<Rightarrow> node \<Rightarrow> page \<Rightarrow> page result" where
  "appendChild parent child p =
     (case parent of
        None \<Rightarrow> Threw TypeError p
      | Some k \<Rightarrow> Done (p[k := (p ! k)\<lparr>childNodes := childNodes (p ! k) @ [child]\<rparr>]))"

text \<open>The page with the first element of id \<open>i\<close> changed by \<open>f\<close>, if there is one.\<close>

definition update_by_id :: "string \<Rightarrow> (element \<Rightarrow> element) \<Rightarrow> page \<Rightarrow> page" where
  "update_by_id i f p =
     (case getElementById i p of None \<Rightarrow> p | Some k \<Rightarrow> p[k := f (p ! k)])"

text \<open>
  \<^verbatim>\<open>d3.select('#i').append(...)\<close>: d3 selects the first match and appends to it; on an
  empty selection \<^verbatim>\<open>append\<close> does nothing. The selection \<^verbatim>\<open>svg\<close> that the chart renderer
  keeps is the node appended by then, the last child of the container:
  \<open>svg_append\<close> is \<^verbatim>\<open>svg.append(...)\<close> with the attributes and styles that the chained
  calls set, and \<open>svg_text\<close> is the call of \<^verbatim>\<open>text\<close> that ends the chain, on the element
  just appended, after its argument is evaluated.
\<close>

definition d3_select_append :: "string \<Rightarrow> node \<Rightarrow> page \<Rightarrow> page result" where
  "d3_select_append i child p =
     Done (update_by_id i (\<lambda>e. e\<lparr>childNodes := childNodes e @ [child]\<rparr>) p)"

definition on_last :: "('a \<Rightarrow> 'a) \<Rightarrow> 'a list \<Rightarrow> 'a list" where
  "on_last f xs = (if xs = [] then [] else butlast xs @ [f (last xs)])"

fun on_svg :: "(svg \<Rightarrow> svg) \<Rightarrow> node \<Rightarrow> node" where
  "on_svg f (Svg_tree s) = Svg_tree (f s)"
| "on_svg f (Html_div c m) = Html_div c m"

fun append_kid :: "svg \<Rightarrow> svg \<Rightarrow> svg" where
  "append_kid child (Svg_element t a st tx ks) = Svg_element t a st tx (ks @ [child])"

fun set_text :: "string \<Rightarrow> svg \<Rightarrow> svg" where
  "set_text s (Svg_element t a st tx ks) = Svg_element t a st s []"

fun on_last_kid :: "(svg \<Rightarrow> svg) \<Rightarrow> svg \<Rightarrow> svg" where
  "on_last_kid f (Svg_element t a st tx ks) = Svg_element t a st tx (on_last f ks)"

definition svg_append :: "string \<Rightarrow> svg \<Rightarrow> page \<Rightarrow> page result" where
  "svg_append i child p =
     Done (update_by_id i
       (\<lambda>e. e\<lparr>childNodes := on_last (on_svg (append_kid child)) (childNodes e)\<rparr>) p)"

definition svg_text :: "string \<Rightarrow> string completion \<Rightarrow> page \<Rightarrow> page result" where
  "svg_text i v p =
     (case v of
        Inl e \<Rightarrow> Threw e p
      | Inr s \<Rightarrow>
          Done (update_by_id i
            (\<lambda>e. e\<lparr>childNodes := on_last (on_svg (on_last_kid (set_text s))) (childNodes e)\<rparr>) p))"

section \<open>The chart renderer\<close>

text \<open>
  \<^verbatim>\<open>createVennDiagram(comparison)\<close>, statement by statement: the container is cleared, the
  \<^verbatim>\<open>svg\<close> is appended to it, then the two circles, two labels, two counts, the overlap
  count and the \<^verbatim>\<open>Shared\<close> label.
\<close>

definition createVennDiagram :: "host \<Rightarrow> js_value \<Rightarrow> page \<Rightarrow> page result" where
  "createVennDiagram h comparison =
     (let width = (600 :: rat);
          height = (400 :: rat);
          radius = (120 :: rat);
          circleSpacing = (80 :: rat);
          folkardX = width / 2 - circleSpacing;
          folkardY = height / 2;
          shakespeareX = width / 2 + circleSpacing;
          shakespeareY = height / 2
      in run
        [clearInnerHTML ''overlap-chart'',
         d3_select_append ''overlap-chart''
           (Svg_tree (Svg_element ''svg''
              [(''width'', Num width), (''height'', Num height),
               (''viewBox'',
                  Str (''0 0 '' @ numberToString (Finite width) @ '' '' @
                       numberToString (Finite height)))]
              [(''max-width'', ''100%''), (''height'', ''auto'')] [] [])),
         svg_append ''overlap-chart''
           (Svg_element ''circle''
              [(''cx'', Num folkardX), (''cy'', Num folkardY), (''r'', Num radius),
               (''class'', Str ''venn-circle'')]
              [(''fill'', ''#8A9A8B'')] [] []),
         svg_append ''overlap-chart''
           (Svg_element ''circle''
              [(''cx'', Num shakespeareX), (''cy'', Num shakespeareY), (''r'', Num radius),
               (''class'', Str ''venn-circle'')]
              [(''fill'', ''#B08F8F'')] [] []),
         svg_append ''overlap-chart''
           (Svg_element ''text''
              [(''x'', Num (folkardX - 70)), (''y'', Num (folkardY - radius - 20)),
               (''class'', Str ''venn-label''), (''text-anchor'', Str ''middle'')] [] [] []),
         svg_text ''overlap-chart'' (Inr ''Folkard''),
         svg_append ''overlap-chart''
           (Svg_element ''text''
              [(''x'', Num (shakespeareX + 70)), (''y'', Num (shakespeareY - radius - 20)),
               (''class'', Str ''venn-label''), (''text-anchor'', Str ''middle'')] [] [] []),
         svg_text ''overlap-chart'' (Inr ''Shakespeare''),
         svg_append ''overlap-chart''
           (Svg_element ''text''
              [(''x'', Num (folkardX - 70)), (''y'', Num folkardY),
               (''class'', Str ''venn-count''), (''text-anchor'', Str ''middle'')] [] [] []),
         svg_text ''overlap-chart''
           (chain (member ''unique_to_folkard'' comparison) (call_toLocaleString h)),
         svg_append ''overlap-chart''
           (Svg_element ''text''
              [(''x'', Num (shakespeareX + 70)), (''y'', Num shakespeareY),
               (''class'', Str ''venn-count''), (''text-anchor'', Str ''middle'')] [] [] []),
         svg_text ''overlap-chart''
           (chain (member ''unique_to_shakespeare'' comparison) (call_toLocaleString h)),
         svg_append ''overlap-chart''
           (Svg_element ''text''
              [(''x'', Num (width / 2)), (''y'', Num (height / 2)),
               (''class'', Str ''venn-count''), (''text-anchor'', Str ''middle'')]
              [(''fill'', ''#6B394A'')] [] []),
         svg_text ''overlap-chart''
           (chain (member ''total_shared_words'' comparison) (call_toLocaleString h)),
         svg_append ''overlap-chart''
           (Svg_element ''text''
              [(''x'', Num (width / 2)), (''y'', Num (height / 2 + 30)),
               (''class'', Str ''venn-label''), (''text-anchor'', Str ''middle'')]
              [(''font-size'', ''12px'')] [] []),
         svg_text ''overlap-chart'' (Inr ''Shared'')])"

section \<open>The view populators\<close>

text \<open>The template literal assigned to \<^verbatim>\<open>wordDiv.innerHTML\<close>, line breaks and indentation included.\<close>

definition word_item_markup :: "string \<Rightarrow> string \<Rightarrow> string" where
  \<open>word_item_markup w c =
     [CHR 0x0A] @ ''            <span class="word-text">'' @ w @ ''</span>'' @
     [CHR 0x0A] @ ''            <span class="word-count">'' @ c @ ''</span>'' @
     [CHR 0x0A] @ ''        ''\<close>

text \<open>
  The body of the loop over the word list: the \<^verbatim>\<open>div\<close> is created and filled, the two
  substitutions of the template being evaluated in order, and then appended. \<open>counter\<close>
  is the name of the property that holds the count.
\<close>

definition wordDiv :: "string \<Rightarrow> json \<Rightarrow> node completion" where
  "wordDiv counter item =
     chain (chain (member ''word'' (Some item)) substitution) (\<lambda>w.
     chain (chain (member counter (Some item)) substitution) (\<lambda>c.
     Inr (Html_div ''word-item'' (word_item_markup w c))))"

definition append_word_item :: "string \<Rightarrow> nat option \<Rightarrow> json \<Rightarrow> page \<Rightarrow> page result" where
  "append_word_item counter container item p =
     (case wordDiv counter item of
        Inl e \<Rightarrow> Threw e p
      | Inr d \<Rightarrow> appendChild container d p)"

text \<open>The character U+2022 of the summary line, in UTF-8.\<close>

definition bullet :: string where
  "bullet = [CHR 0xE2, CHR 0x80, CHR 0xA2]"

definition populateFolkardView :: "host \<Rightarrow> json \<Rightarrow> page \<Rightarrow> page result" where
  "populateFolkardView h analysisData =
     with_value (chain (member ''texts'' (Some analysisData)) (subscript 0)) (\<lambda>folkardData.
       run
         [setTextContent ''folkard-total-words''
            (chain (member ''total_words'' folkardData) (call_toLocaleString h)),
          setTextContent ''folkard-unique-words''
            (chain (member ''unique_words'' folkardData) (call_toLocaleString h)),
          setTextContent ''folkard-lexical-diversity''
            (chain (chain (member ''lexical_diversity'' folkardData) times_100)
               (\<lambda>n. Inr (toFixed 2 n @ ''%''))),
          with_value (member ''sentiment'' folkardData) (\<lambda>sent.
            run
              [setStyleWidth ''folkard-sent-pos'' (chain (member ''positive'' sent) times_100),
               setTextContent ''folkard-sent-pos-val''
                 (chain (chain (member ''positive'' sent) times_100)
                    (\<lambda>n. Inr (toFixed 1 n @ ''%''))),
               setStyleWidth ''folkard-sent-neg'' (chain (member ''negative'' sent) times_100),
               setTextContent ''folkard-sent-neg-val''
                 (chain (chain (member ''negative'' sent) times_100)
                    (\<lambda>n. Inr (toFixed 1 n @ ''%''))),
               setStyleWidth ''folkard-sent-neu'' (chain (member ''neutral'' sent) times_100),
               setTextContent ''folkard-sent-neu-val''
                 (chain (chain (member ''neutral'' sent) times_100)
                    (\<lambda>n. Inr (toFixed 1 n @ ''%''))),
               setTextContent ''folkard-sent-compound''
                 (chain (member ''compound'' sent) (call_toFixed 3)),
               (\<lambda>p. let topWordsContainer = getElementById ''folkard-top-words'' p
                    in with_value (chain (member ''top_words'' folkardData) slice_0_30)
                         (forEach (append_word_item ''count'' topWordsContainer)) p)])])"

definition populateShakespeareView :: "host \<Rightarrow> json \<Rightarrow> page \<Rightarrow> page result" where
  "populateShakespeareView h analysisData =
     with_value (chain (member ''texts'' (Some analysisData)) (subscript 1)) (\<lambda>shakespeareData.
       run
         [setTextContent ''shakespeare-total-words''
            (chain (member ''total_words'' shakespeareData) (call_toLocaleString h)),
          setTextContent ''shakespeare-unique-words''
            (chain (member ''unique_words'' shakespeareData) (call_toLocaleString h)),
          setTextContent ''shakespeare-lexical-diversity''
            (chain (chain (member ''lexical_diversity'' shakespeareData) times_100)
               (\<lambda>n. Inr (toFixed 2 n @ ''%''))),
          with_value (member ''sentiment'' shakespeareData) (\<lambda>sent.
            run
              [setStyleWidth ''shakespeare-sent-pos'' (chain (member ''positive'' sent) times_100),
               setTextContent ''shakespeare-sent-pos-val''
                 (chain (chain (member ''positive'' sent) times_100)
                    (\<lambda>n. Inr (toFixed 1 n @ ''%''))),
               setStyleWidth ''shakespeare-sent-neg'' (chain (member ''negative'' sent) times_100),
               setTextContent ''shakespeare-sent-neg-val''
                 (chain (chain (member ''negative'' sent) times_100)
                    (\<lambda>n. Inr (toFixed 1 n @ ''%''))),
               setStyleWidth ''shakespeare-sent-neu'' (chain (member ''neutral'' sent) times_100),
               setTextContent ''shakespeare-sent-neu-val''
                 (chain (chain (member ''neutral'' sent) times_100)
                    (\<lambda>n. Inr (toFixed 1 n @ ''%''))),
               setTextContent ''shakespeare-sent-compound''
                 (chain (member ''compound'' sent) (call_toFixed 3)),
               (\<lambda>p. let topWordsContainer = getElementById ''shakespeare-top-words'' p
                    in with_value (chain (member ''top_words'' shakespeareData) slice_0_30)
                         (forEach (append_word_item ''count'' topWordsContainer)) p)])])"

definition populateComparisonView :: "host \<Rightarrow> json \<Rightarrow> page \<Rightarrow> page result" where
  "populateComparisonView h analysisData =
     with_value (member ''comparison'' (Some analysisData)) (\<lambda>comparison.
       run
         [setTextContent ''overlap-percent''
            (chain (chain (member ''overlap_percentage'' comparison) (call_toFixed 2))
               (\<lambda>s. Inr (s @ ''%''))),
          setTextContent ''overlap-detail''
            (chain (chain (member ''total_shared_words'' comparison) (call_toLocaleString h)) (\<lambda>s.
             chain (chain (member ''unique_to_folkard'' comparison) (call_toLocaleString h)) (\<lambda>f.
             chain (chain (member ''unique_to_shakespeare'' comparison) (call_toLocaleString h)) (\<lambda>w.
             Inr (s @ '' shared words '' @ bullet @ '' '' @
                  f @ '' unique to Folkard '' @ bullet @ '' '' @
                  w @ '' unique to Shakespeare''))))),
          createVennDiagram h comparison,
          (\<lambda>p. let sharedWordsContainer = getElementById ''shared-words'' p
               in with_value (chain (member ''top_shared_words'' comparison) slice_0_30)
                    (forEach (append_word_item ''combined_count'' sharedWordsContainer)) p)])"

section \<open>Navigation\<close>

text \<open>
  \<^verbatim>\<open>setupNavigation\<close> takes the two node lists once and gives every button a click
  listener that closes over them.
\<close>

record navigation =
  navButtons :: "nat list"
  views :: "nat list"

definition setupNavigation :: "page \<Rightarrow> navigation" where
  "setupNavigation p =
     \<lparr> navButtons = querySelectorAll_class ''nav-btn'' p,
       views = querySelectorAll_class ''text-view'' p \<rparr>"

text \<open>\<^verbatim>\<open>classList\<close> is an ordered set of tokens.\<close>

definition classList_remove :: "string \<Rightarrow> element \<Rightarrow> element" where
  "classList_remove c e = e\<lparr>classList := removeAll c (classList e)\<rparr>"

definition classList_add :: "string \<Rightarrow> element \<Rightarrow> element" where
  "classList_add c e = (if c \<in> set (classList e) then e else e\<lparr>classList := classList e @ [c]\<rparr>)"

text \<open>\<^verbatim>\<open>nodes.forEach(n => ...)\<close> with a body that updates the node and cannot throw.\<close>

definition forEach_node :: "(element \<Rightarrow> element) \<Rightarrow> nat list \<Rightarrow> page \<Rightarrow> page" where
  "forEach_node f ks p = fold (\<lambda>k q. q[k := f (q ! k)]) ks p"

text \<open>
  A click on the element \<open>button\<close>. Only the buttons of the node list have the
  listener. A missing \<^verbatim>\<open>data-view\<close> attribute reads as \<^verbatim>\<open>undefined\<close> and is spliced into
  the id as that word.
\<close>

definition click :: "navigation \<Rightarrow> nat \<Rightarrow> page \<Rightarrow> page result" where
  "click nav button p =
     (if button \<notin> set (navButtons nav) then Done p
      else
        let viewName = (case dataset_view (p ! button) of None \<Rightarrow> ''undefined'' | Some v \<Rightarrow> v);
            p = forEach_node (classList_remove ''active'') (navButtons nav) p;
            p = p[button := classList_add ''active'' (p ! button)];
            p = forEach_node (\<lambda>view. view\<lparr>style_display := ''none''\<rparr>) (views nav) p
        in assign (''view-'' @ viewName) (\<lambda>e. e\<lparr>style_display := ''block''\<rparr>) p)"

section \<open>The loader\<close>

text \<open>
  What \<^verbatim>\<open>fetch\<close> and \<^verbatim>\<open>response.json()\<close> can give: the promise of \<^verbatim>\<open>fetch\<close> rejects on a
  transport error only (a \<^verbatim>\<open>TypeError\<close> in browsers, kept apart here as
  \<open>NetworkError\<close>); a response has a status and a body, which is not JSON, or is JSON
  text for some value.
\<close>

datatype body = Not_json | Json json

datatype fetch_outcome = Rejected | Response (status: nat) (payload: body)

datatype console_entry =
  Console_log string json
| Console_error string js_error

text \<open>The global \<^verbatim>\<open>analysisData\<close> is \<^verbatim>\<open>null\<close> until a document is stored.\<close>

record app =
  analysisData :: json
  document :: page
  console :: "console_entry list"
  alerts :: "string list"
  requests :: "string list"
  listeners :: "navigation option"

definition catch_block :: "js_error \<Rightarrow> app \<Rightarrow> app" where
  "catch_block error s =
     s\<lparr> console := console s @ [Console_error ''Error loading analysis data:'' error],
        alerts := alerts s @ [''Failed to load analysis data. Please ensure analysis.json exists.''] \<rparr>"

text \<open>
  The \<^verbatim>\<open>DOMContentLoaded\<close> handler. \<open>network k\<close> is what the \<open>k\<close>-th request of the
  session meets; the handler records each request it sends in \<open>requests\<close>.
  \<open>populate_views\<close> is the three calls of the populators, which read the global
  \<^verbatim>\<open>analysisData\<close>; \<open>initialize_interface\<close> is the rest of the \<^verbatim>\<open>try\<close> block once the
  document is stored, with the \<^verbatim>\<open>catch\<close> that encloses it.
\<close>

definition populate_views :: "host \<Rightarrow> json \<Rightarrow> page \<Rightarrow> page result" where
  "populate_views h d =
     run [populateFolkardView h d, populateShakespeareView h d, populateComparisonView h d]"

definition initialize_interface :: "host \<Rightarrow> app \<Rightarrow> app" where
  "initialize_interface h s =
     (case populate_views h (analysisData s) (document s) of
        Threw error p \<Rightarrow> catch_block error (s\<lparr>document := p\<rparr>)
      | Done p \<Rightarrow> s\<lparr>document := p, listeners := Some (setupNavigation p)\<rparr>)"

definition DOMContentLoaded :: "host \<Rightarrow> (nat \<Rightarrow> fetch_outcome) \<Rightarrow> app \<Rightarrow> app" where
  "DOMContentLoaded h network s =
     (let response = network (length (requests s));
          s = s\<lparr>requests := requests s @ [''analysis.json'']\<rparr>
      in case response of
           Rejected \<Rightarrow> catch_block NetworkError s
         | Response st b \<Rightarrow>
             (case b of
                Not_json \<Rightarrow> catch_block SyntaxError s
              | Json d \<Rightarrow>
                  initialize_interface h
                    (s\<lparr> analysisData := d,
                        console := console s @ [Console_log ''Analysis data loaded:'' d] \<rparr>)))"

section \<open>Documents of the expected structure\<close>

text \<open>
  The analysis document as the data model has it, with the Numbers that its numerals
  denote, and the JSON value of each part.
\<close>

record word_count =
  word :: string
  count :: number

record shared_word_count =
  shared_word :: string
  combined_count :: number

record sentiment_breakdown =
  positive :: number
  negative :: number
  neutral :: number
  compound :: number

record text_stats =
  total_words :: number
  unique_words :: number
  lexical_diversity :: number
  sentiment :: sentiment_breakdown
  top_words :: "word_count list"

record comparison_stats =
  overlap_percentage :: number
  total_shared_words :: number
  unique_to_folkard :: number
  unique_to_shakespeare :: number
  top_shared_words :: "shared_word_count list"

record analysis_document =
  texts :: "text_stats list"
  comparison :: comparison_stats

definition json_of_word :: "word_count \<Rightarrow> json" where
  "json_of_word w = JObject [(''word'', JString (word w)), (''count'', JNumber (count w))]"

definition json_of_shared_word :: "shared_word_count \<Rightarrow> json" where
  "json_of_shared_word w =
     JObject [(''word'', JString (shared_word w)), (''combined_count'', JNumber (combined_count w))]"

definition json_of_sentiment :: "sentiment_breakdown \<Rightarrow> json" where
  "json_of_sentiment s =
     JObject [(''positive'', JNumber (positive s)), (''negative'', JNumber (negative s)),
              (''neutral'', JNumber (neutral s)), (''compound'', JNumber (compound s))]"

definition json_of_text :: "text_stats \<Rightarrow> json" where
  "json_of_text t =
     JObject [(''total_words'', JNumber (total_words t)),
              (''unique_words'', JNumber (unique_words t)),
              (''lexical_diversity'', JNumber (lexical_diversity t)),
              (''sentiment'', json_of_sentiment (sentiment t)),
              (''top_words'', JArray (map json_of_word (top_words t)))]"

definition json_of_comparison :: "comparison_stats \<Rightarrow> json" where
  "json_of_comparison c =
     JObject [(''overlap_percentage'', JNumber (overlap_percentage c)),
              (''total_shared_words'', JNumber (total_shared_words c)),
              (''unique_to_folkard'', JNumber (unique_to_folkard c)),
              (''unique_to_shakespeare'', JNumber (unique_to_shakespeare c)),
              (''top_shared_words'', JArray (map json_of_shared_word (top_shared_words c)))]"

definition json_of_document :: "analysis_document \<Rightarrow> json" where
  "json_of_document d =
     JObject [(''texts'', JArray (map json_of_text (texts d))),
              (''comparison'', json_of_comparison (comparison d))]"

text \<open>The word items that the populators make of the entries of a document.\<close>

definition word_item :: "word_count \<Rightarrow> node" where
  "word_item item =
     Html_div ''word-item'' (word_item_markup (word item) (numberToString (count item)))"

definition shared_word_item :: "shared_word_count \<Rightarrow> node" where
  "shared_word_item item =
     Html_div ''word-item''
       (word_item_markup (shared_word item) (numberToString (combined_count item)))"

text \<open>
  The chart of a comparison record: the tree that \<^verbatim>\<open>createVennDiagram\<close> draws into an
  empty container.
\<close>

definition blank :: element where
  "blank = \<lparr> elem_id = None, classList = [], dataset_view = None, textContent = [],
             style_width = [], style_display = [], childNodes = [] \<rparr>"

definition slot :: "string \<Rightarrow> element" where
  "slot i = blank\<lparr>elem_id := Some i\<rparr>"

definition venn_svg :: "host \<Rightarrow> comparison_stats \<Rightarrow> svg" where
  "venn_svg h cmp =
     (case state_of (createVennDiagram h (Some (json_of_comparison cmp)) [slot ''overlap-chart'']) of
        [e] \<Rightarrow> (case childNodes e of
                   [Svg_tree s] \<Rightarrow> s
                 | _ \<Rightarrow> Svg_element [] [] [] [] [])
      | _ \<Rightarrow> Svg_element [] [] [] [] [])"

section \<open>A page and documents for evaluation\<close>

text \<open>
  The markup of the host page is not part of the script. \<open>sample_page\<close> has what the
  script names: three navigation buttons, the three views, and every slot and
  container that a populator addresses.
\<close>

definition nav_button :: "string \<Rightarrow> string list \<Rightarrow> element" where
  "nav_button v cs = blank\<lparr>classList := ''nav-btn'' # cs, dataset_view := Some v\<rparr>"

definition text_view :: "string \<Rightarrow> element" where
  "text_view v = blank\<lparr>elem_id := Some (''view-'' @ v), classList := [''text-view'']\<rparr>"

definition folkard_slots :: "string list" where
  "folkard_slots =
     [''folkard-total-words'', ''folkard-unique-words'', ''folkard-lexical-diversity'',
      ''folkard-sent-pos'', ''folkard-sent-pos-val'', ''folkard-sent-neg'',
      ''folkard-sent-neg-val'', ''folkard-sent-neu'', ''folkard-sent-neu-val'',
      ''folkard-sent-compound'', ''folkard-top-words'']"

definition shakespeare_slots :: "string list" where
  "shakespeare_slots =
     [''shakespeare-total-words'', ''shakespeare-unique-words'',
      ''shakespeare-lexical-diversity'', ''shakespeare-sent-pos'', ''shakespeare-sent-pos-val'',
      ''shakespeare-sent-neg'', ''shakespeare-sent-neg-val'', ''shakespeare-sent-neu'',
      ''shakespeare-sent-neu-val'', ''shakespeare-sent-compound'', ''shakespeare-top-words'']"

definition comparison_slots :: "string list" where
  "comparison_slots = [''overlap-percent'', ''overlap-detail'', ''overlap-chart'', ''shared-words'']"

definition sample_page :: page where
  "sample_page =
     [nav_button ''folkard'' [''active''], nav_button ''shakespeare'' [],
      nav_button ''comparison'' [],
      text_view ''folkard'', text_view ''shakespeare'', text_view ''comparison''] @
     map slot (folkard_slots @ shakespeare_slots @ comparison_slots)"

definition sample_text :: text_stats where
  "sample_text =
     \<lparr> total_words = Finite 150000, unique_words = Finite 12000,
       lexical_diversity = Finite (1 / 8),
       sentiment = \<lparr> positive = Finite (1 / 4), negative = Finite (1 / 8),
                     neutral = Finite (5 / 8), compound = round64 (3 / 20) \<rparr>,
       top_words = [\<lparr> word = ''rose'', count = Finite 500 \<rparr>,
                    \<lparr> word = ''lily'', count = Finite 320 \<rparr>] \<rparr>"

definition sample_comparison :: comparison_stats where
  "sample_comparison =
     \<lparr> overlap_percentage = round64 (3333 / 100), total_shared_words = Finite 2000,
       unique_to_folkard = Finite 5000, unique_to_shakespeare = Finite 3000,
       top_shared_words = [\<lparr> shared_word = ''rose'', combined_count = Finite 900 \<rparr>] \<rparr>"

definition sample_document :: analysis_document where
  "sample_document = \<lparr> texts = [sample_text, sample_text], comparison = sample_comparison \<rparr>"

text \<open>A document that is JSON but has one entry in \<open>texts\<close> instead of two.\<close>

definition short_document :: analysis_document where
  "short_document = \<lparr> texts = [sample_text], comparison = sample_comparison \<rparr>"

text \<open>
  A text whose positive fraction is written \<^verbatim>\<open>0.07\<close> and whose negative fraction is
  written \<^verbatim>\<open>0.0255\<close> in the document: its Numbers are the nearest binary64 values.
\<close>

definition decimal_text :: text_stats where
  "decimal_text =
     sample_text\<lparr> sentiment :=
       \<lparr> positive = round64 (7 / 100), negative = round64 (255 / 10000),
         neutral = round64 (9045 / 10000), compound = round64 (3 / 20) \<rparr> \<rparr>"

definition decimal_document :: analysis_document where
  "decimal_document = \<lparr> texts = [decimal_text, decimal_text], comparison = sample_comparison \<rparr>"

definition initial_app :: app where
  "initial_app = \<lparr> analysisData = JNull, document = sample_page, console = [], alerts = [],
                    requests = [], listeners = None \<rparr>"

section \<open>Observing the page and the chart\<close>

text \<open>What the element with a given id shows: its text, its bar width, its children.\<close>

definition element_by_id :: "string \<Rightarrow> page \<Rightarrow> element option" where
  "element_by_id i p = map_option (nth p) (getElementById i p)"

definition text_of :: "string \<Rightarrow> page \<Rightarrow> string" where
  "text_of i p = (case element_by_id i p of None \<Rightarrow> [] | Some e \<Rightarrow> textContent e)"

definition width_of :: "string \<Rightarrow> page \<Rightarrow> string" where
  "width_of i p = (case element_by_id i p of None \<Rightarrow> [] | Some e \<Rightarrow> style_width e)"

definition children_of :: "string \<Rightarrow> page \<Rightarrow> node list" where
  "children_of i p = (case element_by_id i p of None \<Rightarrow> [] | Some e \<Rightarrow> childNodes e)"

definition has_elements :: "string list \<Rightarrow> page \<Rightarrow> bool" where
  "has_elements ids p = (\<forall>i \<in> set ids. getElementById i p \<noteq> None)"

definition keeps_id :: "(element \<Rightarrow> element) \<Rightarrow> bool" where
  "keeps_id f = (\<forall>e. elem_id (f e) = elem_id e)"

text \<open>Reading the chart: an attribute, the circles, the count texts, and where they are.\<close>

definition attr :: "string \<Rightarrow> svg \<Rightarrow> attr_value option" where
  "attr a n = map_of (attrs n) a"

definition circles :: "svg \<Rightarrow> svg list" where
  "circles s = filter (\<lambda>n. tag n = ''circle'') (kids s)"

definition texts_of_class :: "string \<Rightarrow> svg \<Rightarrow> svg list" where
  "texts_of_class c s =
     filter (\<lambda>n. tag n = ''text'' \<and> attr ''class'' n = Some (Str c)) (kids s)"

definition centre :: "svg \<Rightarrow> attr_value option \<times> attr_value option" where
  "centre n = (attr ''cx'' n, attr ''cy'' n)"

definition position :: "svg \<Rightarrow> attr_value option \<times> attr_value option" where
  "position n = (attr ''x'' n, attr ''y'' n)"

text \<open>
  The reading of the chart under which each of the two unique counts sits at the
  centre of its circle.
\<close>

definition counts_at_centres :: "svg \<Rightarrow> bool" where
  "counts_at_centres s =
     (position (texts_of_class ''venn-count'' s ! 0) = centre (circles s ! 0) \<and>
      position (texts_of_class ''venn-count'' s ! 1) = centre (circles s ! 1))"

text \<open>The chart with every displayed text blanked: what is left is its geometry and styling.\<close>

fun without_text :: "svg \<Rightarrow> svg" where
  "without_text (Svg_element t a st tx ks) = Svg_element t a st [] (map without_text ks)"

section \<open>Percentages, in the words of the specification\<close>

text \<open>
  The specification speaks of a value rounded to one and to two decimal places. For a
  value \<open>v \<ge> 0\<close> these are the numerals of the nearest multiple of \<open>1/10\<close> and of \<open>1/100\<close>
  (the larger one on a tie), with at least one digit before the point. They are stated
  apart from \<open>toFixed\<close>, to be compared with it.
\<close>

definition round_1_decimal :: "rat \<Rightarrow> string" where
  "round_1_decimal v =
     (let n = nat \<lfloor>v * 10 + 1 / 2\<rfloor>
      in digits_of (n div 10) @ ''.'' @ [digit_char (n mod 10)])"

definition round_2_decimals :: "rat \<Rightarrow> string" where
  "round_2_decimals v =
     (let n = nat \<lfloor>v * 100 + 1 / 2\<rfloor>
      in digits_of (n div 100) @ ''.'' @ [digit_char (n div 10 mod 10), digit_char (n mod 10)])"

text \<open>
  For a fraction \<open>f\<close> as the document writes it, the specification has the bar width
  \<open>f * 100\<close> percent and the label \<open>f * 100\<close> rounded to one decimal place: the product of
  the rational numbers.
\<close>

definition spec_width :: "rat \<Rightarrow> string" where
  "spec_width f = numberToString (Finite (f * 100)) @ ''%''"

definition spec_label :: "rat \<Rightarrow> string" where
  "spec_label f = round_1_decimal (f * 100) @ ''%''"

text \<open>The rational number that a finite Number is, and the ranges of the data model.\<close>

fun exact :: "number \<Rightarrow> rat" where
  "exact (Finite x) = x"
| "exact NegZero = 0"
| "exact NaN = 0"
| "exact Infinity = 0"
| "exact NegInfinity = 0"

fun in_range :: "rat \<Rightarrow> rat \<Rightarrow> number \<Rightarrow> bool" where
  "in_range lo hi (Finite x) = (lo \<le> x \<and> x \<le> hi)"
| "in_range lo hi NegZero = False"
| "in_range lo hi NaN = False"
| "in_range lo hi Infinity = False"
| "in_range lo hi NegInfinity = False"

definition fractions :: "sentiment_breakdown \<Rightarrow> bool" where
  "fractions s = (in_range 0 1 (positive s) \<and> in_range 0 1 (negative s) \<and> in_range 0 1 (neutral s))"

section \<open>Selecting a view, element by element\<close>

text \<open>
  What a click on button \<open>b\<close>, whose view container is the element \<open>t\<close>, makes of the
  element at position \<open>k\<close>: the four steps of the listener, each where it applies. It is
  proved below to describe \<open>click\<close>.
\<close>

definition selected :: "navigation \<Rightarrow> nat \<Rightarrow> nat \<Rightarrow> page \<Rightarrow> nat \<Rightarrow> element" where
  "selected nav b t p k =
     (let e = p ! k;
          e = (if k \<in> set (navButtons nav) then classList_remove ''active'' e else e);
          e = (if k = b then classList_add ''active'' e else e);
          e = (if k \<in> set (views nav) then e\<lparr>style_display := ''none''\<rparr> else e)
      in if k = t then e\<lparr>style_display := ''block''\<rparr> else e)"

text \<open>The node lists of the listeners refer to elements of the page.\<close>

definition valid_nodes :: "navigation \<Rightarrow> page \<Rightarrow> bool" where
  "valid_nodes nav p = (\<forall>k \<in> set (navButtons nav) \<union> set (views nav). k < length p)"

section \<open>Errors and answers\<close>

text \<open>
  A value of which no property can be read: the expression threw, or gave \<^verbatim>\<open>undefined\<close>
  or \<^verbatim>\<open>null\<close>.
\<close>

fun unreadable :: "js_value completion \<Rightarrow> bool" where
  "unreadable (Inl e) = True"
| "unreadable (Inr None) = True"
| "unreadable (Inr (Some v)) = (v = JNull)"

text \<open>An expression, and a statement, that throws nothing but a \<^verbatim>\<open>TypeError\<close>.\<close>

fun type_errors :: "'a completion \<Rightarrow> bool" where
  "type_errors (Inl e) = (e = TypeError)"
| "type_errors (Inr v) = True"

definition throws_type_errors :: "('s \<Rightarrow> 's result) \<Rightarrow> bool" where
  "throws_type_errors f = (\<forall>s e s'. f s = Threw e s' \<longrightarrow> e = TypeError)"

text \<open>
  Servers that answer every request with status 200: one with the one-text document,
  one with the empty object \<^verbatim>\<open>{}\<close>.
\<close>

definition short_network :: "nat \<Rightarrow> fetch_outcome" where
  "short_network k = Response 200 (Json (json_of_document short_document))"

definition empty_object_network :: "nat \<Rightarrow> fetch_outcome" where
  "empty_object_network k = Response 200 (Json (JObject []))"

section \<open>Facts about Numbers\<close>

lemma floor_rat_numeral:
  "\<lfloor>(numeral a :: rat) / numeral b\<rfloor> = numeral a div numeral b"
  using floor_divide_of_int_eq [of "numeral a" "numeral b", where ?'a = rat] by simp

lemma ceiling_rat_numeral:
  "\<lceil>(numeral a :: rat) / numeral b\<rceil> = - (- numeral a div numeral b)"
  using floor_divide_of_int_eq [of "- numeral a" "numeral b", where ?'a = rat]
  by (simp add: ceiling_def)

lemma zeros_simps:
  "zeros 0 = []" "zeros (Suc n) = CHR ''0'' # zeros n"
  "zeros (numeral k) = CHR ''0'' # zeros (pred_numeral k)"
  by (simp_all add: zeros_def numeral_eq_Suc)

lemmas number_eval =
  round64_def round64_signed_def round64_magnitude_def quantum_def ilog_def compute_floorlog
  round_half_even_def Let_def times64_def
  ipow_def candidates_def closest_def shortest_digits_def shortest_decimal_def shortest_from_def
  floor_rat_numeral ceiling_rat_numeral positive_toString_def strip_zeros_def fixed_digits_def
  exponent_part_def digits_of.simps digit_char_def zeros_simps numberToString.simps toFixed.simps
  en_US_toLocaleString.simps en_US_decimal_def group_thousands.simps en_US_host_def

subsection \<open>Rounding\<close>

lemma ipow_pos: "0 < b \<Longrightarrow> 0 < ipow b e"
  by (simp add: ipow_def)

lemma ipow_powi: "ipow b e = of_int b powi e"
  by (simp add: ipow_def power_int_def power_inverse [symmetric] divide_inverse)

lemma ipow_mono: "1 \<le> b \<Longrightarrow> d \<le> e \<Longrightarrow> ipow b d \<le> ipow b e"
proof -
  assume b: "1 \<le> b" and de: "d \<le> e"
  have b': "(1::rat) \<le> of_int b" using b by simp
  show ?thesis unfolding ipow_powi using power_int_increasing [OF de b'] by simp
qed

lemma ipow_diff: "0 < b \<Longrightarrow> ipow b (d - e) = ipow b d / ipow b e"
proof -
  assume "0 < b"
  then have "of_int b \<noteq> (0::rat)" by simp
  then show ?thesis unfolding ipow_powi by (simp add: power_int_diff)
qed

lemma ipow_numeral: "ipow b (numeral n) = of_int (b ^ numeral n)"
  by (simp add: ipow_def)

lemma round_half_even_error: "\<bar>of_int (round_half_even y) - y\<bar> \<le> 1 / 2"
proof -
  have "of_int \<lfloor>y\<rfloor> \<le> y" "y < of_int \<lfloor>y\<rfloor> + 1" by linarith+
  then show ?thesis by (auto simp add: round_half_even_def Let_def)
qed

lemma round_half_even_le: "y \<le> of_int n \<Longrightarrow> round_half_even y \<le> n"
proof -
  assume yn: "y \<le> of_int n"
  have fl: "\<lfloor>y\<rfloor> \<le> n" using yn by (simp add: floor_le_iff)
  show ?thesis
  proof (cases "\<lfloor>y\<rfloor> = n")
    case True
    then have "y = of_int n" using yn by (metis of_int_floor_le order_antisym)
    then show ?thesis by (simp add: round_half_even_def)
  next
    case False
    then have "\<lfloor>y\<rfloor> + 1 \<le> n" using fl by simp
    then show ?thesis using fl by (auto simp add: round_half_even_def Let_def)
  qed
qed

lemma round_half_even_nonneg: "0 \<le> y \<Longrightarrow> 0 \<le> round_half_even y"
  by (auto simp add: round_half_even_def Let_def)

lemma ilog_lower:
  assumes "0 < x" "1 < b"
  shows "ipow (int b) (ilog b x) \<le> x"
proof (cases "1 \<le> x")
  case True
  define n where "n = nat \<lfloor>x\<rfloor>"
  have n: "0 < n" using True by (simp add: n_def)
  have nx: "of_nat n \<le> x" using True by (simp add: n_def)
  note fb = floorlog_bounds [OF n assms(2)]
  have k: "0 < floorlog b n" using n assms(2) by (simp add: floorlog_def)
  have "ilog b x = int (floorlog b n - 1)" using True k by (simp add: ilog_def n_def)
  then have "ipow (int b) (ilog b x) = of_nat (b ^ (floorlog b n - 1))"
    by (simp add: ipow_def)
  also have "\<dots> \<le> of_nat n" using fb by (metis of_nat_le_iff)
  finally show ?thesis using nx by simp
next
  case False
  then have x1: "x < 1" by simp
  define m where "m = nat (\<lceil>1 / x\<rceil> - 1)"
  have inv: "1 < 1 / x" using assms(1) x1 by simp
  then have c2: "2 \<le> \<lceil>1 / x\<rceil>" by linarith
  then have m: "0 < m" by (simp add: m_def)
  note fb = floorlog_bounds [OF m assms(2)]
  have "0 \<le> \<lceil>1 / x\<rceil> - 1" using c2 by linarith
  then have im: "int m = \<lceil>1 / x\<rceil> - 1" unfolding m_def by (rule nat_0_le)
  have "int m < int (b ^ floorlog b m)" using fb by (simp only: of_nat_less_iff)
  then have "\<lceil>1 / x\<rceil> \<le> int (b ^ floorlog b m)" unfolding im by linarith
  then have "1 / x \<le> of_int (int (b ^ floorlog b m))" by (simp add: ceiling_le_iff)
  then have le: "1 / x \<le> of_nat (b ^ floorlog b m)" by simp
  have bp: "(0::rat) < of_nat (b ^ floorlog b m)" using assms(2) by simp
  have "1 / of_nat (b ^ floorlog b m) \<le> x"
    using le assms(1) bp by (simp add: field_simps)
  moreover have "ilog b x = - int (floorlog b m)"
    using False by (simp add: ilog_def m_def)
  then have "ipow (int b) (ilog b x) = 1 / of_nat (b ^ floorlog b m)"
    by (simp add: ipow_def)
  ultimately show ?thesis by simp
qed

lemma ilog_less:
  assumes "0 < x" "1 < b" "x < ipow (int b) e"
  shows "ilog b x < e"
proof (rule ccontr)
  assume "\<not> ilog b x < e"
  then have "e \<le> ilog b x" by simp
  then have "ipow (int b) e \<le> ipow (int b) (ilog b x)"
    using assms(2) by (intro ipow_mono) simp_all
  with ilog_lower [OF assms(1,2)] assms(3) show False by simp
qed

text \<open>Rounding a value of \<open>[0, 100]\<close> to binary64.\<close>

lemma round64_magnitude_percentage:
  assumes "0 \<le> y" "y \<le> 100"
  shows "0 \<le> round64_magnitude y" "round64_magnitude y \<le> 100"
    "\<bar>round64_magnitude y - y\<bar> \<le> max (y / 2 ^ 53) (1 / 2 ^ 1075)"
proof -
  show "0 \<le> round64_magnitude y"
    using assms(1) by (simp add: round64_magnitude_def round_half_even_nonneg ipow_pos less_imp_le)
  show "round64_magnitude y \<le> 100"
  proof (cases "y = 0")
    case True
    then show ?thesis by (simp add: round64_magnitude_def)
  next
    case False
    then have y: "0 < y" using assms(1) by simp
    define q where "q = quantum y"
    have "y < ipow 2 7" using assms(2) by (simp add: ipow_def)
    then have "ilog 2 y < 7" using ilog_less [OF y, of 2 7] by simp
    then have q0: "q \<le> 0" by (simp add: q_def quantum_def)
    have u: "ipow 2 q = 1 / of_int (2 ^ nat (- q))"
      using q0 by (cases "q = 0") (simp_all add: ipow_def)
    have "y / ipow 2 q \<le> of_int (100 * 2 ^ nat (- q))"
      using assms(2) by (simp add: u)
    from round_half_even_le [OF this]
    have "(of_int (round_half_even (y / ipow 2 q)) :: rat) \<le> of_int (100 * 2 ^ nat (- q))"
      by (simp only: of_int_le_iff)
    then have "of_int (round_half_even (y / ipow 2 q)) * ipow 2 q \<le> 100"
      by (simp add: u field_simps)
    then show ?thesis using False by (simp add: round64_magnitude_def q_def)
  qed
  show "\<bar>round64_magnitude y - y\<bar> \<le> max (y / 2 ^ 53) (1 / 2 ^ 1075)"
  proof (cases "y = 0")
    case True
    then show ?thesis by (simp add: round64_magnitude_def)
  next
    case False
    then have y: "0 < y" using assms(1) by simp
    define q where "q = quantum y"
    define u where "u = ipow 2 q"
    define r where "r = round_half_even (y / u)"
    have up: "0 < u" by (simp add: u_def ipow_pos)
    have v: "round64_magnitude y = of_int r * u"
      using False by (simp add: round64_magnitude_def q_def u_def r_def)
    have "\<bar>of_int r - y / u\<bar> \<le> 1 / 2" unfolding r_def by (rule round_half_even_error)
    then have "\<bar>of_int r - y / u\<bar> * u \<le> 1 / 2 * u" using up by (simp add: mult_right_mono)
    moreover have "\<bar>of_int r - y / u\<bar> * u = \<bar>of_int r * u - y\<bar>"
      using up by (simp add: abs_mult_pos' [symmetric] field_simps)
    ultimately have err: "\<bar>of_int r * u - y\<bar> \<le> u / 2" by simp
    have "u / 2 \<le> max (y / 2 ^ 53) (1 / 2 ^ 1075)"
    proof (cases "ilog 2 y - 52 \<le> - 1074")
      case True
      then have "q = - 1074" by (simp add: q_def quantum_def)
      then have "u / 2 = 1 / 2 ^ 1075" by (simp add: u_def ipow_def)
      then show ?thesis by simp
    next
      case False
      then have "q = ilog 2 y - 52" by (simp add: q_def quantum_def)
      then have "u = ipow 2 (ilog 2 y) / ipow 2 52"
        by (simp add: u_def ipow_diff)
      then have "u / 2 = ipow 2 (ilog 2 y) / 2 ^ 53" by (simp add: ipow_def)
      also have "\<dots> \<le> y / 2 ^ 53"
        using ilog_lower [OF y, of 2] by (simp add: divide_right_mono)
      finally show ?thesis by simp
    qed
    with err show ?thesis by (simp add: v)
  qed
qed

lemma times64_percentage:
  assumes "0 \<le> x" "x \<le> 1"
  shows "times64 (Finite x) (Finite 100) = Finite (round64_magnitude (x * 100))"
proof -
  have r: "0 \<le> x * 100" "x * 100 \<le> 100" using assms by simp_all
  note m = round64_magnitude_percentage [OF r]
  have "round64_magnitude (x * 100) < 2 ^ 1024" using m(2) by simp
  then show ?thesis using assms(1)
    by (auto simp add: times64_def round64_signed_def Let_def)
qed

section \<open>Facts about the page operations\<close>

lemma getElementById_Some:
  "getElementById i p = Some k \<Longrightarrow> k < length p \<and> elem_id (p ! k) = Some i"
proof (induction p arbitrary: k)
  case Nil
  then show ?case by simp
next
  case (Cons e es)
  then show ?case by (auto split: if_splits)
qed

lemma getElementById_same_ids:
  "map elem_id p = map elem_id q \<Longrightarrow> getElementById i p = getElementById i q"
proof (induction p arbitrary: q)
  case Nil
  then show ?case by simp
next
  case (Cons e es)
  then obtain e' es' where q: "q = e' # es'" by (cases q) auto
  with Cons show ?case by auto
qed

lemma ids_list_update:
  "elem_id e = elem_id (p ! k) \<Longrightarrow> map elem_id (p[k := e]) = map elem_id p"
proof (cases "k < length p")
  case True
  assume "elem_id e = elem_id (p ! k)"
  with True show ?thesis by (simp add: map_update list_update_same_conv)
next
  case False
  then show ?thesis by (simp add: list_update_beyond)
qed

lemma getElementById_list_update:
  "elem_id e = elem_id (p ! k) \<Longrightarrow> getElementById j (p[k := e]) = getElementById j p"
  by (rule getElementById_same_ids) (rule ids_list_update)

lemma ids_update_by_id:
  assumes "keeps_id f"
  shows "map elem_id (update_by_id i f p) = map elem_id p"
proof (cases "getElementById i p")
  case None
  then show ?thesis by (simp add: update_by_id_def)
next
  case (Some k)
  have "elem_id (f (p ! k)) = elem_id (p ! k)" using assms by (simp add: keeps_id_def)
  then show ?thesis using Some by (simp add: update_by_id_def ids_list_update)
qed

lemma getElementById_update_by_id:
  "keeps_id f \<Longrightarrow> getElementById j (update_by_id i f p) = getElementById j p"
  by (rule getElementById_same_ids) (rule ids_update_by_id)

lemma element_update_by_id:
  assumes "keeps_id f"
  shows "element_by_id j (update_by_id i f p) =
         (if j = i then map_option f (element_by_id i p) else element_by_id j p)"
proof (cases "getElementById i p")
  case None
  then show ?thesis by (simp add: update_by_id_def element_by_id_def)
next
  case (Some k)
  note ki = getElementById_Some [OF Some]
  have same: "getElementById j (update_by_id i f p) = getElementById j p"
    by (rule getElementById_update_by_id [OF assms])
  have upd: "update_by_id i f p = p[k := f (p ! k)]"
    using Some by (simp add: update_by_id_def)
  show ?thesis
  proof (cases "j = i")
    case True
    then show ?thesis using Some ki same upd by (simp add: element_by_id_def)
  next
    case False
    show ?thesis
    proof (cases "getElementById j p")
      case None
      then show ?thesis using same False by (simp add: element_by_id_def)
    next
      case (Some m)
      from getElementById_Some [OF Some] ki False have "m \<noteq> k" by auto
      then show ?thesis using Some same upd False by (simp add: element_by_id_def)
    qed
  qed
qed

lemma update_by_id_twice:
  assumes "keeps_id f"
  shows "update_by_id i g (update_by_id i f p) = update_by_id i (\<lambda>e. g (f e)) p"
proof (cases "getElementById i p")
  case None
  then show ?thesis by (simp add: update_by_id_def)
next
  case (Some k)
  note ki = getElementById_Some [OF Some]
  have "elem_id (f (p ! k)) = elem_id (p ! k)" using assms by (simp add: keeps_id_def)
  then have "getElementById i (p[k := f (p ! k)]) = Some k"
    using Some by (simp add: getElementById_list_update)
  then show ?thesis using Some ki by (simp add: update_by_id_def)
qed

lemma element_by_id_Some:
  "getElementById i p \<noteq> None \<Longrightarrow> \<exists>e. element_by_id i p = Some e"
  by (auto simp: element_by_id_def)

lemma assign_update_by_id:
  "getElementById i p \<noteq> None \<Longrightarrow> assign i f p = Done (update_by_id i f p)"
  by (auto simp: assign_def update_by_id_def)

lemma assign_missing:
  "getElementById i p = None \<Longrightarrow> assign i f p = Threw TypeError p"
  by (simp add: assign_def)

text \<open>The loop over the items appends them all, in order, to a container that exists.\<close>

lemma forEach_appendChild:
  assumes "\<And>x. x \<in> set xs \<Longrightarrow> wordDiv c (enc x) = Inr (g x)"
  shows "k < length p \<Longrightarrow>
   forEach (append_word_item c (Some k)) (map enc xs) p =
   Done (p[k := (p ! k)\<lparr>childNodes := childNodes (p ! k) @ map g xs\<rparr>])"
  using assms
proof (induction xs arbitrary: p)
  case Nil
  then show ?case by simp
next
  case (Cons x xs)
  then show ?case by (simp add: appendChild_def append_word_item_def)
qed

lemma forEach_appendChild_by_id:
  assumes "\<And>x. wordDiv c (enc x) = Inr (g x)"
    and "getElementById i q = getElementById i p" and "getElementById i p \<noteq> None"
  shows "forEach (append_word_item c (getElementById i p)) (map enc xs) q =
         Done (update_by_id i (\<lambda>e. e\<lparr>childNodes := childNodes e @ map g xs\<rparr>) q)"
proof -
  from assms(2,3) obtain k where k: "getElementById i q = Some k" by auto
  from getElementById_Some [OF k] have "k < length q" by simp
  from forEach_appendChild [OF assms(1) this] k assms(2) show ?thesis
    by (simp add: update_by_id_def)
qed

lemma slice_0: "slice 0 n xs = take n xs"
  by (simp add: slice_def)

lemmas run_simps =
  setTextContent_def setStyleWidth_def clearInnerHTML_def assign_update_by_id
  d3_select_append_def svg_append_def svg_text_def
  getElementById_update_by_id
  slice_0 keeps_id_def Let_def

lemmas observe_simps =
  children_of_def width_of_def text_of_def element_update_by_id keeps_id_def

section \<open>The chart\<close>

lemma numberToString_600: "numberToString (Finite 600) = ''600''"
  by (simp add: number_eval split del: if_split)

lemma numberToString_400: "numberToString (Finite 400) = ''400''"
  by (simp add: number_eval split del: if_split)

lemma comparison_members:
  "member ''overlap_percentage'' (Some (json_of_comparison c)) =
     Inr (Some (JNumber (overlap_percentage c)))"
  "member ''total_shared_words'' (Some (json_of_comparison c)) =
     Inr (Some (JNumber (total_shared_words c)))"
  "member ''unique_to_folkard'' (Some (json_of_comparison c)) =
     Inr (Some (JNumber (unique_to_folkard c)))"
  "member ''unique_to_shakespeare'' (Some (json_of_comparison c)) =
     Inr (Some (JNumber (unique_to_shakespeare c)))"
  "member ''top_shared_words'' (Some (json_of_comparison c)) =
     Inr (Some (JArray (map json_of_shared_word (top_shared_words c))))"
  by (simp_all add: json_of_comparison_def own_property_def)

lemma venn_svg_tree:
  "venn_svg h cmp =
     Svg_element ''svg''
       [(''width'', Num 600), (''height'', Num 400), (''viewBox'', Str ''0 0 600 400'')]
       [(''max-width'', ''100%''), (''height'', ''auto'')] []
     [Svg_element ''circle''
        [(''cx'', Num 220), (''cy'', Num 200), (''r'', Num 120), (''class'', Str ''venn-circle'')]
        [(''fill'', ''#8A9A8B'')] [] [],
      Svg_element ''circle''
        [(''cx'', Num 380), (''cy'', Num 200), (''r'', Num 120), (''class'', Str ''venn-circle'')]
        [(''fill'', ''#B08F8F'')] [] [],
      Svg_element ''text''
        [(''x'', Num 150), (''y'', Num 60), (''class'', Str ''venn-label''),
         (''text-anchor'', Str ''middle'')] [] ''Folkard'' [],
      Svg_element ''text''
        [(''x'', Num 450), (''y'', Num 60), (''class'', Str ''venn-label''),
         (''text-anchor'', Str ''middle'')] [] ''Shakespeare'' [],
      Svg_element ''text''
        [(''x'', Num 150), (''y'', Num 200), (''class'', Str ''venn-count''),
         (''text-anchor'', Str ''middle'')] [] (toLocaleString h (unique_to_folkard cmp)) [],
      Svg_element ''text''
        [(''x'', Num 450), (''y'', Num 200), (''class'', Str ''venn-count''),
         (''text-anchor'', Str ''middle'')] [] (toLocaleString h (unique_to_shakespeare cmp)) [],
      Svg_element ''text''
        [(''x'', Num 300), (''y'', Num 200), (''class'', Str ''venn-count''),
         (''text-anchor'', Str ''middle'')]
        [(''fill'', ''#6B394A'')] (toLocaleString h (total_shared_words cmp)) [],
      Svg_element ''text''
        [(''x'', Num 300), (''y'', Num 230), (''class'', Str ''venn-label''),
         (''text-anchor'', Str ''middle'')]
        [(''font-size'', ''12px'')] ''Shared'' []]"
  by (simp add: venn_svg_def createVennDiagram_def Let_def slot_def blank_def
      clearInnerHTML_def assign_def d3_select_append_def svg_append_def svg_text_def
      update_by_id_def on_last_def comparison_members numberToString_600 numberToString_400)

lemma createVennDiagram_draws:
  assumes "getElementById ''overlap-chart'' p \<noteq> None"
  shows "createVennDiagram h (Some (json_of_comparison cmp)) p =
         Done (update_by_id ''overlap-chart''
           (\<lambda>e. e\<lparr>textContent := [], childNodes := [Svg_tree (venn_svg h cmp)]\<rparr>) p)"
  using assms
  by (simp add: createVennDiagram_def run_simps update_by_id_twice on_last_def
      comparison_members numberToString_600 numberToString_400 venn_svg_tree)

lemma venn_svg_kids:
  "kids (venn_svg h cmp) =
     [Svg_element ''circle''
        [(''cx'', Num 220), (''cy'', Num 200), (''r'', Num 120), (''class'', Str ''venn-circle'')]
        [(''fill'', ''#8A9A8B'')] [] [],
      Svg_element ''circle''
        [(''cx'', Num 380), (''cy'', Num 200), (''r'', Num 120), (''class'', Str ''venn-circle'')]
        [(''fill'', ''#B08F8F'')] [] [],
      Svg_element ''text''
        [(''x'', Num 150), (''y'', Num 60), (''class'', Str ''venn-label''),
         (''text-anchor'', Str ''middle'')] [] ''Folkard'' [],
      Svg_element ''text''
        [(''x'', Num 450), (''y'', Num 60), (''class'', Str ''venn-label''),
         (''text-anchor'', Str ''middle'')] [] ''Shakespeare'' [],
      Svg_element ''text''
        [(''x'', Num 150), (''y'', Num 200), (''class'', Str ''venn-count''),
         (''text-anchor'', Str ''middle'')] [] (toLocaleString h (unique_to_folkard cmp)) [],
      Svg_element ''text''
        [(''x'', Num 450), (''y'', Num 200), (''class'', Str ''venn-count''),
         (''text-anchor'', Str ''middle'')] [] (toLocaleString h (unique_to_shakespeare cmp)) [],
      Svg_element ''text''
        [(''x'', Num 300), (''y'', Num 200), (''class'', Str ''venn-count''),
         (''text-anchor'', Str ''middle'')]
        [(''fill'', ''#6B394A'')] (toLocaleString h (total_shared_words cmp)) [],
      Svg_element ''text''
        [(''x'', Num 300), (''y'', Num 230), (''class'', Str ''venn-label''),
         (''text-anchor'', Str ''middle'')]
        [(''font-size'', ''12px'')] ''Shared'' []]"
  by (simp add: venn_svg_tree)

lemma venn_svg_root:
  "tag (venn_svg h cmp) = ''svg''"
  "attrs (venn_svg h cmp) =
     [(''width'', Num 600), (''height'', Num 400), (''viewBox'', Str ''0 0 600 400'')]"
  "styles (venn_svg h cmp) = [(''max-width'', ''100%''), (''height'', ''auto'')]"
  "inner_text (venn_svg h cmp) = []"
  by (simp_all add: venn_svg_tree)

lemma venn_svg_circles:
  "circles (venn_svg h cmp) =
     [Svg_element ''circle''
        [(''cx'', Num 220), (''cy'', Num 200), (''r'', Num 120), (''class'', Str ''venn-circle'')]
        [(''fill'', ''#8A9A8B'')] [] [],
      Svg_element ''circle''
        [(''cx'', Num 380), (''cy'', Num 200), (''r'', Num 120), (''class'', Str ''venn-circle'')]
        [(''fill'', ''#B08F8F'')] [] []]"
  by (simp add: circles_def venn_svg_kids)

lemma venn_svg_counts:
  "texts_of_class ''venn-count'' (venn_svg h cmp) =
     [Svg_element ''text''
        [(''x'', Num 150), (''y'', Num 200), (''class'', Str ''venn-count''),
         (''text-anchor'', Str ''middle'')] [] (toLocaleString h (unique_to_folkard cmp)) [],
      Svg_element ''text''
        [(''x'', Num 450), (''y'', Num 200), (''class'', Str ''venn-count''),
         (''text-anchor'', Str ''middle'')] [] (toLocaleString h (unique_to_shakespeare cmp)) [],
      Svg_element ''text''
        [(''x'', Num 300), (''y'', Num 200), (''class'', Str ''venn-count''),
         (''text-anchor'', Str ''middle'')]
        [(''fill'', ''#6B394A'')] (toLocaleString h (total_shared_words cmp)) []]"
  by (simp add: texts_of_class_def attr_def venn_svg_kids)

lemma without_text_venn_svg:
  "without_text (venn_svg h cmp) =
     Svg_element ''svg''
       [(''width'', Num 600), (''height'', Num 400), (''viewBox'', Str ''0 0 600 400'')]
       [(''max-width'', ''100%''), (''height'', ''auto'')] []
       (map without_text (kids (venn_svg h cmp)))"
  using venn_svg_root [of h cmp] by (cases "venn_svg h cmp") simp

lemma sample_page_has_slots:
  "has_elements (folkard_slots @ shakespeare_slots @ comparison_slots) sample_page"
  by (simp add: has_elements_def sample_page_def slot_def blank_def nav_button_def text_view_def
      folkard_slots_def shakespeare_slots_def comparison_slots_def)

text \<open>
  C8. The geometry of the chart does not depend on the data: on a 600 by 400 canvas the
  two circles have radius 120 and the centres \<open>(600/2 - 80, 400/2)\<close> (first corpus, on the
  left) and \<open>(600/2 + 80, 400/2)\<close> (second corpus, on the right), and two comparison
  records give the same chart once the displayed texts are blanked.
\<close>

theorem venn_geometry_data_independent:
  "map (\<lambda>n. (attr ''cx'' n, attr ''cy'' n, attr ''r'' n)) (circles (venn_svg h cmp)) =
     [(Some (Num (600 / 2 - 80)), Some (Num (400 / 2)), Some (Num 120)),
      (Some (Num (600 / 2 + 80)), Some (Num (400 / 2)), Some (Num 120))] \<and>
   attr ''width'' (venn_svg h cmp) = Some (Num 600) \<and>
   attr ''height'' (venn_svg h cmp) = Some (Num 400) \<and>
   without_text (venn_svg h cmp) = without_text (venn_svg h cmp')"
proof -
  have "map (\<lambda>n. (attr ''cx'' n, attr ''cy'' n, attr ''r'' n)) (circles (venn_svg h cmp)) =
     [(Some (Num (600 / 2 - 80)), Some (Num (400 / 2)), Some (Num 120)),
      (Some (Num (600 / 2 + 80)), Some (Num (400 / 2)), Some (Num 120))]"
    by (simp add: venn_svg_circles attr_def)
  moreover have "attr ''width'' (venn_svg h cmp) = Some (Num 600)"
    and "attr ''height'' (venn_svg h cmp) = Some (Num 400)"
    by (simp_all add: attr_def venn_svg_root)
  moreover have "without_text (venn_svg h cmp) = without_text (venn_svg h cmp')"
    by (simp add: without_text_venn_svg venn_svg_kids)
  ultimately show ?thesis by simp
qed

text \<open>
  C2, as stated, fails: for the comparison record with 5000 and 3000 unique words the
  count of the first circle is drawn at \<open>(150, 200)\<close> while the centre of the circle is
  \<open>(220, 200)\<close>.
\<close>

theorem count_not_at_centre_counterexample:
  "position (texts_of_class ''venn-count'' (venn_svg en_US_host sample_comparison) ! 0) =
     (Some (Num 150), Some (Num 200)) \<and>
   centre (circles (venn_svg en_US_host sample_comparison) ! 0) =
     (Some (Num 220), Some (Num 200)) \<and>
   \<not> counts_at_centres (venn_svg en_US_host sample_comparison)"
  by (simp add: counts_at_centres_def venn_svg_counts venn_svg_circles position_def centre_def
      attr_def)

text \<open>
  C2, amended. For every comparison record the first two count texts of the chart are
  \<open>unique_to_folkard\<close> and \<open>unique_to_shakespeare\<close> in the host's locale format; each is
  drawn at the height of its circle's centre and 70 units to the outer side of it: at
  \<open>(220 - 70, 200)\<close> for the left circle and at \<open>(380 + 70, 200)\<close> for the right one.
\<close>

theorem counts_beside_centres:
  "map inner_text (take 2 (texts_of_class ''venn-count'' (venn_svg h cmp))) =
     [toLocaleString h (unique_to_folkard cmp), toLocaleString h (unique_to_shakespeare cmp)] \<and>
   centre (circles (venn_svg h cmp) ! 0) = (Some (Num 220), Some (Num 200)) \<and>
   position (texts_of_class ''venn-count'' (venn_svg h cmp) ! 0) =
     (Some (Num (220 - 70)), Some (Num 200)) \<and>
   centre (circles (venn_svg h cmp) ! 1) = (Some (Num 380), Some (Num 200)) \<and>
   position (texts_of_class ''venn-count'' (venn_svg h cmp) ! 1) =
     (Some (Num (380 + 70)), Some (Num 200))"
  by (simp add: venn_svg_counts venn_svg_circles position_def centre_def attr_def)

text \<open>
  C5. On a page that has the chart container, \<^verbatim>\<open>createVennDiagram\<close> leaves in it exactly
  one \<^verbatim>\<open>svg\<close>, whatever it held before, with two circles, three counts and three labels;
  running it again with the same comparison record changes nothing.
\<close>

theorem createVennDiagram_idempotent:
  assumes "getElementById ''overlap-chart'' p \<noteq> None"
  shows "\<exists>p1. createVennDiagram h (Some (json_of_comparison cmp)) p = Done p1 \<and>
              createVennDiagram h (Some (json_of_comparison cmp)) p1 = Done p1 \<and>
              children_of ''overlap-chart'' p1 = [Svg_tree (venn_svg h cmp)] \<and>
              length (circles (venn_svg h cmp)) = 2 \<and>
              length (texts_of_class ''venn-count'' (venn_svg h cmp)) = 3 \<and>
              length (texts_of_class ''venn-label'' (venn_svg h cmp)) = 3"
proof -
  define p1 where "p1 = update_by_id ''overlap-chart''
    (\<lambda>e. e\<lparr>textContent := [], childNodes := [Svg_tree (venn_svg h cmp)]\<rparr>) p"
  have first: "createVennDiagram h (Some (json_of_comparison cmp)) p = Done p1"
    unfolding p1_def by (rule createVennDiagram_draws [OF assms])
  have present: "getElementById ''overlap-chart'' p1 \<noteq> None"
    using assms by (simp add: p1_def getElementById_update_by_id keeps_id_def)
  have "createVennDiagram h (Some (json_of_comparison cmp)) p1 =
      Done (update_by_id ''overlap-chart''
        (\<lambda>e. e\<lparr>textContent := [], childNodes := [Svg_tree (venn_svg h cmp)]\<rparr>) p1)"
    by (rule createVennDiagram_draws [OF present])
  also have "update_by_id ''overlap-chart''
        (\<lambda>e. e\<lparr>textContent := [], childNodes := [Svg_tree (venn_svg h cmp)]\<rparr>) p1 = p1"
    by (simp add: p1_def update_by_id_twice keeps_id_def)
  finally have again: "createVennDiagram h (Some (json_of_comparison cmp)) p1 = Done p1" .
  obtain e where "element_by_id ''overlap-chart'' p = Some e"
    using element_by_id_Some [OF assms] by blast
  then have shown: "children_of ''overlap-chart'' p1 = [Svg_tree (venn_svg h cmp)]"
    by (simp add: p1_def observe_simps)
  have "length (circles (venn_svg h cmp)) = 2"
    by (simp add: venn_svg_circles)
  moreover have "length (texts_of_class ''venn-count'' (venn_svg h cmp)) = 3"
    by (simp add: venn_svg_counts)
  moreover have "length (texts_of_class ''venn-label'' (venn_svg h cmp)) = 3"
    by (simp add: texts_of_class_def attr_def venn_svg_kids)
  ultimately show ?thesis using first again shown by blast
qed

theorem createVennDiagram_idempotent_witness:
  "getElementById ''overlap-chart'' sample_page \<noteq> None \<and>
   (\<exists>p1. createVennDiagram en_US_host (Some (json_of_comparison sample_comparison)) sample_page =
           Done p1 \<and>
         createVennDiagram en_US_host (Some (json_of_comparison sample_comparison)) p1 = Done p1 \<and>
         children_of ''overlap-chart'' p1 = [Svg_tree (venn_svg en_US_host sample_comparison)])"
proof -
  have present: "getElementById ''overlap-chart'' sample_page \<noteq> None"
    using sample_page_has_slots by (simp add: has_elements_def comparison_slots_def)
  from createVennDiagram_idempotent [OF present, of en_US_host sample_comparison] present
  show ?thesis by blast
qed

section \<open>The view populators on a document of the expected structure\<close>

lemma nth_opt_map: "nth_opt (map f xs) i = map_option f (nth_opt xs i)"
  by (simp add: nth_opt_def)

lemma document_members:
  "member ''texts'' (Some (json_of_document d)) = Inr (Some (JArray (map json_of_text (texts d))))"
  "member ''comparison'' (Some (json_of_document d)) = Inr (Some (json_of_comparison (comparison d)))"
  by (simp_all add: json_of_document_def own_property_def)

lemma text_members:
  "member ''total_words'' (Some (json_of_text t)) = Inr (Some (JNumber (total_words t)))"
  "member ''unique_words'' (Some (json_of_text t)) = Inr (Some (JNumber (unique_words t)))"
  "member ''lexical_diversity'' (Some (json_of_text t)) =
     Inr (Some (JNumber (lexical_diversity t)))"
  "member ''sentiment'' (Some (json_of_text t)) = Inr (Some (json_of_sentiment (sentiment t)))"
  "member ''top_words'' (Some (json_of_text t)) =
     Inr (Some (JArray (map json_of_word (top_words t))))"
  by (simp_all add: json_of_text_def own_property_def)

lemma sentiment_members:
  "member ''positive'' (Some (json_of_sentiment s)) = Inr (Some (JNumber (positive s)))"
  "member ''negative'' (Some (json_of_sentiment s)) = Inr (Some (JNumber (negative s)))"
  "member ''neutral'' (Some (json_of_sentiment s)) = Inr (Some (JNumber (neutral s)))"
  "member ''compound'' (Some (json_of_sentiment s)) = Inr (Some (JNumber (compound s)))"
  by (simp_all add: json_of_sentiment_def own_property_def)

lemma wordDiv_word: "wordDiv ''count'' (json_of_word w) = Inr (word_item w)"
  by (simp add: wordDiv_def json_of_word_def own_property_def word_item_def)

lemma wordDiv_shared_word:
  "wordDiv ''combined_count'' (json_of_shared_word w) = Inr (shared_word_item w)"
  by (simp add: wordDiv_def json_of_shared_word_def own_property_def shared_word_item_def)

lemmas typed_simps =
  text_members sentiment_members comparison_members times_100_def take_map
  forEach_appendChild_by_id [where enc = json_of_word and g = word_item, OF wordDiv_word]
  forEach_appendChild_by_id [where enc = json_of_shared_word and g = shared_word_item,
    OF wordDiv_shared_word]

lemma folkard_slots_present:
  assumes "has_elements folkard_slots p"
  shows "getElementById ''folkard-total-words'' p \<noteq> None"
    "getElementById ''folkard-unique-words'' p \<noteq> None"
    "getElementById ''folkard-lexical-diversity'' p \<noteq> None"
    "getElementById ''folkard-sent-pos'' p \<noteq> None"
    "getElementById ''folkard-sent-pos-val'' p \<noteq> None"
    "getElementById ''folkard-sent-neg'' p \<noteq> None"
    "getElementById ''folkard-sent-neg-val'' p \<noteq> None"
    "getElementById ''folkard-sent-neu'' p \<noteq> None"
    "getElementById ''folkard-sent-neu-val'' p \<noteq> None"
    "getElementById ''folkard-sent-compound'' p \<noteq> None"
    "getElementById ''folkard-top-words'' p \<noteq> None"
  using assms by (simp_all add: has_elements_def folkard_slots_def)

lemma populateFolkardView_effect:
  assumes slots: "has_elements folkard_slots p"
    and first: "chain (member ''texts'' (Some D)) (subscript 0) = Inr (Some (json_of_text d))"
  shows "populateFolkardView h D p = Done (state_of (populateFolkardView h D p))"
    and "getElementById j (state_of (populateFolkardView h D p)) = getElementById j p"
    and "children_of ''folkard-top-words'' (state_of (populateFolkardView h D p)) =
           children_of ''folkard-top-words'' p @ map word_item (take 30 (top_words d))"
    and "width_of ''folkard-sent-pos'' (state_of (populateFolkardView h D p)) =
           (if width_percentage (times64 (positive (sentiment d)) (Finite 100))
            then numberToString (times64 (positive (sentiment d)) (Finite 100)) @ ''%''
            else width_of ''folkard-sent-pos'' p)"
    and "text_of ''folkard-sent-pos-val'' (state_of (populateFolkardView h D p)) =
           toFixed 1 (times64 (positive (sentiment d)) (Finite 100)) @ ''%''"
    and "width_of ''folkard-sent-neg'' (state_of (populateFolkardView h D p)) =
           (if width_percentage (times64 (negative (sentiment d)) (Finite 100))
            then numberToString (times64 (negative (sentiment d)) (Finite 100)) @ ''%''
            else width_of ''folkard-sent-neg'' p)"
    and "text_of ''folkard-sent-neg-val'' (state_of (populateFolkardView h D p)) =
           toFixed 1 (times64 (negative (sentiment d)) (Finite 100)) @ ''%''"
    and "width_of ''folkard-sent-neu'' (state_of (populateFolkardView h D p)) =
           (if width_percentage (times64 (neutral (sentiment d)) (Finite 100))
            then numberToString (times64 (neutral (sentiment d)) (Finite 100)) @ ''%''
            else width_of ''folkard-sent-neu'' p)"
    and "text_of ''folkard-sent-neu-val'' (state_of (populateFolkardView h D p)) =
           toFixed 1 (times64 (neutral (sentiment d)) (Finite 100)) @ ''%''"
    and "text_of ''folkard-total-words'' (state_of (populateFolkardView h D p)) = toLocaleString h (total_words d)"
    and "text_of ''folkard-unique-words'' (state_of (populateFolkardView h D p)) = toLocaleString h (unique_words d)"
    and "text_of ''folkard-lexical-diversity'' (state_of (populateFolkardView h D p)) =
           toFixed 2 (times64 (lexical_diversity d) (Finite 100)) @ ''%''"
    and "text_of ''folkard-sent-compound'' (state_of (populateFolkardView h D p)) = toFixed 3 (compound (sentiment d))"
proof -
  note present = folkard_slots_present [OF slots]
  obtain e1 e2 e3 e4 e5 e6 e7 e8 e9 e10 e11 where e:
    "element_by_id ''folkard-top-words'' p = Some e1"
    "element_by_id ''folkard-sent-pos'' p = Some e2"
    "element_by_id ''folkard-sent-pos-val'' p = Some e3"
    "element_by_id ''folkard-sent-neg'' p = Some e4"
    "element_by_id ''folkard-sent-neg-val'' p = Some e5"
    "element_by_id ''folkard-sent-neu'' p = Some e6"
    "element_by_id ''folkard-sent-neu-val'' p = Some e7"
    "element_by_id ''folkard-total-words'' p = Some e8"
    "element_by_id ''folkard-unique-words'' p = Some e9"
    "element_by_id ''folkard-lexical-diversity'' p = Some e10"
    "element_by_id ''folkard-sent-compound'' p = Some e11"
    using present element_by_id_Some by meson
  show "populateFolkardView h D p = Done (state_of (populateFolkardView h D p))"
    and "getElementById j (state_of (populateFolkardView h D p)) = getElementById j p"
    using present first by (simp_all add: populateFolkardView_def typed_simps run_simps)
  show "children_of ''folkard-top-words'' (state_of (populateFolkardView h D p)) =
           children_of ''folkard-top-words'' p @ map word_item (take 30 (top_words d))"
    and "width_of ''folkard-sent-pos'' (state_of (populateFolkardView h D p)) =
           (if width_percentage (times64 (positive (sentiment d)) (Finite 100))
            then numberToString (times64 (positive (sentiment d)) (Finite 100)) @ ''%''
            else width_of ''folkard-sent-pos'' p)"
    and "text_of ''folkard-sent-pos-val'' (state_of (populateFolkardView h D p)) =
           toFixed 1 (times64 (positive (sentiment d)) (Finite 100)) @ ''%''"
    and "width_of ''folkard-sent-neg'' (state_of (populateFolkardView h D p)) =
           (if width_percentage (times64 (negative (sentiment d)) (Finite 100))
            then numberToString (times64 (negative (sentiment d)) (Finite 100)) @ ''%''
            else width_of ''folkard-sent-neg'' p)"
    and "text_of ''folkard-sent-neg-val'' (state_of (populateFolkardView h D p)) =
           toFixed 1 (times64 (negative (sentiment d)) (Finite 100)) @ ''%''"
    and "width_of ''folkard-sent-neu'' (state_of (populateFolkardView h D p)) =
           (if width_percentage (times64 (neutral (sentiment d)) (Finite 100))
            then numberToString (times64 (neutral (sentiment d)) (Finite 100)) @ ''%''
            else width_of ''folkard-sent-neu'' p)"
    and "text_of ''folkard-sent-neu-val'' (state_of (populateFolkardView h D p)) =
           toFixed 1 (times64 (neutral (sentiment d)) (Finite 100)) @ ''%''"
    and "text_of ''folkard-total-words'' (state_of (populateFolkardView h D p)) = toLocaleString h (total_words d)"
    and "text_of ''folkard-unique-words'' (state_of (populateFolkardView h D p)) = toLocaleString h (unique_words d)"
    and "text_of ''folkard-lexical-diversity'' (state_of (populateFolkardView h D p)) =
           toFixed 2 (times64 (lexical_diversity d) (Finite 100)) @ ''%''"
    and "text_of ''folkard-sent-compound'' (state_of (populateFolkardView h D p)) = toFixed 3 (compound (sentiment d))"
    using present e first
    by (simp_all add: populateFolkardView_def typed_simps run_simps observe_simps)
qed

lemma shakespeare_slots_present:
  assumes "has_elements shakespeare_slots p"
  shows "getElementById ''shakespeare-total-words'' p \<noteq> None"
    "getElementById ''shakespeare-unique-words'' p \<noteq> None"
    "getElementById ''shakespeare-lexical-diversity'' p \<noteq> None"
    "getElementById ''shakespeare-sent-pos'' p \<noteq> None"
    "getElementById ''shakespeare-sent-pos-val'' p \<noteq> None"
    "getElementById ''shakespeare-sent-neg'' p \<noteq> None"
    "getElementById ''shakespeare-sent-neg-val'' p \<noteq> None"
    "getElementById ''shakespeare-sent-neu'' p \<noteq> None"
    "getElementById ''shakespeare-sent-neu-val'' p \<noteq> None"
    "getElementById ''shakespeare-sent-compound'' p \<noteq> None"
    "getElementById ''shakespeare-top-words'' p \<noteq> None"
  using assms by (simp_all add: has_elements_def shakespeare_slots_def)

lemma populateShakespeareView_effect:
  assumes slots: "has_elements shakespeare_slots p"
    and first: "chain (member ''texts'' (Some D)) (subscript 1) = Inr (Some (json_of_text d))"
  shows "populateShakespeareView h D p = Done (state_of (populateShakespeareView h D p))"
    and "getElementById j (state_of (populateShakespeareView h D p)) = getElementById j p"
    and "children_of ''shakespeare-top-words'' (state_of (populateShakespeareView h D p)) =
           children_of ''shakespeare-top-words'' p @ map word_item (take 30 (top_words d))"
    and "width_of ''shakespeare-sent-pos'' (state_of (populateShakespeareView h D p)) =
           (if width_percentage (times64 (positive (sentiment d)) (Finite 100))
            then numberToString (times64 (positive (sentiment d)) (Finite 100)) @ ''%''
            else width_of ''shakespeare-sent-pos'' p)"
    and "text_of ''shakespeare-sent-pos-val'' (state_of (populateShakespeareView h D p)) =
           toFixed 1 (times64 (positive (sentiment d)) (Finite 100)) @ ''%''"
    and "width_of ''shakespeare-sent-neg'' (state_of (populateShakespeareView h D p)) =
           (if width_percentage (times64 (negative (sentiment d)) (Finite 100))
            then numberToString (times64 (negative (sentiment d)) (Finite 100)) @ ''%''
            else width_of ''shakespeare-sent-neg'' p)"
    and "text_of ''shakespeare-sent-neg-val'' (state_of (populateShakespeareView h D p)) =
           toFixed 1 (times64 (negative (sentiment d)) (Finite 100)) @ ''%''"
    and "width_of ''shakespeare-sent-neu'' (state_of (populateShakespeareView h D p)) =
           (if width_percentage (times64 (neutral (sentiment d)) (Finite 100))
            then numberToString (times64 (neutral (sentiment d)) (Finite 100)) @ ''%''
            else width_of ''shakespeare-sent-neu'' p)"
    and "text_of ''shakespeare-sent-neu-val'' (state_of (populateShakespeareView h D p)) =
           toFixed 1 (times64 (neutral (sentiment d)) (Finite 100)) @ ''%''"
    and "text_of ''shakespeare-total-words'' (state_of (populateShakespeareView h D p)) = toLocaleString h (total_words d)"
    and "text_of ''shakespeare-unique-words'' (state_of (populateShakespeareView h D p)) = toLocaleString h (unique_words d)"
    and "text_of ''shakespeare-lexical-diversity'' (state_of (populateShakespeareView h D p)) =
           toFixed 2 (times64 (lexical_diversity d) (Finite 100)) @ ''%''"
    and "text_of ''shakespeare-sent-compound'' (state_of (populateShakespeareView h D p)) = toFixed 3 (compound (sentiment d))"
proof -
  note present = shakespeare_slots_present [OF slots]
  obtain e1 e2 e3 e4 e5 e6 e7 e8 e9 e10 e11 where e:
    "element_by_id ''shakespeare-top-words'' p = Some e1"
    "element_by_id ''shakespeare-sent-pos'' p = Some e2"
    "element_by_id ''shakespeare-sent-pos-val'' p = Some e3"
    "element_by_id ''shakespeare-sent-neg'' p = Some e4"
    "element_by_id ''shakespeare-sent-neg-val'' p = Some e5"
    "element_by_id ''shakespeare-sent-neu'' p = Some e6"
    "element_by_id ''shakespeare-sent-neu-val'' p = Some e7"
    "element_by_id ''shakespeare-total-words'' p = Some e8"
    "element_by_id ''shakespeare-unique-words'' p = Some e9"
    "element_by_id ''shakespeare-lexical-diversity'' p = Some e10"
    "element_by_id ''shakespeare-sent-compound'' p = Some e11"
    using present element_by_id_Some by meson
  show "populateShakespeareView h D p = Done (state_of (populateShakespeareView h D p))"
    and "getElementById j (state_of (populateShakespeareView h D p)) = getElementById j p"
    using present first by (simp_all add: populateShakespeareView_def typed_simps run_simps)
  show "children_of ''shakespeare-top-words'' (state_of (populateShakespeareView h D p)) =
           children_of ''shakespeare-top-words'' p @ map word_item (take 30 (top_words d))"
    and "width_of ''shakespeare-sent-pos'' (state_of (populateShakespeareView h D p)) =
           (if width_percentage (times64 (positive (sentiment d)) (Finite 100))
            then numberToString (times64 (positive (sentiment d)) (Finite 100)) @ ''%''
            else width_of ''shakespeare-sent-pos'' p)"
    and "text_of ''shakespeare-sent-pos-val'' (state_of (populateShakespeareView h D p)) =
           toFixed 1 (times64 (positive (sentiment d)) (Finite 100)) @ ''%''"
    and "width_of ''shakespeare-sent-neg'' (state_of (populateShakespeareView h D p)) =
           (if width_percentage (times64 (negative (sentiment d)) (Finite 100))
            then numberToString (times64 (negative (sentiment d)) (Finite 100)) @ ''%''
            else width_of ''shakespeare-sent-neg'' p)"
    and "text_of ''shakespeare-sent-neg-val'' (state_of (populateShakespeareView h D p)) =
           toFixed 1 (times64 (negative (sentiment d)) (Finite 100)) @ ''%''"
    and "width_of ''shakespeare-sent-neu'' (state_of (populateShakespeareView h D p)) =
           (if width_percentage (times64 (neutral (sentiment d)) (Finite 100))
            then numberToString (times64 (neutral (sentiment d)) (Finite 100)) @ ''%''
            else width_of ''shakespeare-sent-neu'' p)"
    and "text_of ''shakespeare-sent-neu-val'' (state_of (populateShakespeareView h D p)) =
           toFixed 1 (times64 (neutral (sentiment d)) (Finite 100)) @ ''%''"
    and "text_of ''shakespeare-total-words'' (state_of (populateShakespeareView h D p)) = toLocaleString h (total_words d)"
    and "text_of ''shakespeare-unique-words'' (state_of (populateShakespeareView h D p)) = toLocaleString h (unique_words d)"
    and "text_of ''shakespeare-lexical-diversity'' (state_of (populateShakespeareView h D p)) =
           toFixed 2 (times64 (lexical_diversity d) (Finite 100)) @ ''%''"
    and "text_of ''shakespeare-sent-compound'' (state_of (populateShakespeareView h D p)) = toFixed 3 (compound (sentiment d))"
    using present e first
    by (simp_all add: populateShakespeareView_def typed_simps run_simps observe_simps)
qed

lemma comparison_slots_present:
  assumes "has_elements comparison_slots p"
  shows "getElementById ''overlap-percent'' p \<noteq> None"
    "getElementById ''overlap-detail'' p \<noteq> None"
    "getElementById ''overlap-chart'' p \<noteq> None"
    "getElementById ''shared-words'' p \<noteq> None"
  using assms by (simp_all add: has_elements_def comparison_slots_def)

lemma populateComparisonView_effect:
  assumes slots: "has_elements comparison_slots p"
    and cmp: "member ''comparison'' (Some D) = Inr (Some (json_of_comparison c))"
  shows "populateComparisonView h D p =
           Done (state_of (populateComparisonView h D p))"
    and "getElementById j (state_of (populateComparisonView h D p)) =
           getElementById j p"
    and "children_of ''shared-words'' (state_of (populateComparisonView h D p)) =
           children_of ''shared-words'' p @
           map shared_word_item (take 30 (top_shared_words c))"
    and "children_of ''overlap-chart'' (state_of (populateComparisonView h D p)) =
           [Svg_tree (venn_svg h c)]"
    and "text_of ''overlap-percent'' (state_of (populateComparisonView h D p)) =
           toFixed 2 (overlap_percentage c) @ ''%''"
    and "text_of ''overlap-detail'' (state_of (populateComparisonView h D p)) =
           toLocaleString h (total_shared_words c) @ '' shared words '' @ bullet @
           '' '' @ toLocaleString h (unique_to_folkard c) @ '' unique to Folkard '' @
           bullet @ '' '' @ toLocaleString h (unique_to_shakespeare c) @
           '' unique to Shakespeare''"
proof -
  note present = comparison_slots_present [OF slots]
  obtain e1 e2 e3 e4 where e:
    "element_by_id ''overlap-percent'' p = Some e1"
    "element_by_id ''overlap-detail'' p = Some e2"
    "element_by_id ''overlap-chart'' p = Some e3"
    "element_by_id ''shared-words'' p = Some e4"
    using present element_by_id_Some by meson
  show "populateComparisonView h D p =
           Done (state_of (populateComparisonView h D p))"
    and "getElementById j (state_of (populateComparisonView h D p)) =
           getElementById j p"
    using present
    by (simp_all add: populateComparisonView_def cmp createVennDiagram_draws
        typed_simps run_simps)
  show "children_of ''shared-words'' (state_of (populateComparisonView h D p)) =
           children_of ''shared-words'' p @
           map shared_word_item (take 30 (top_shared_words c))"
    and "children_of ''overlap-chart'' (state_of (populateComparisonView h D p)) =
           [Svg_tree (venn_svg h c)]"
    and "text_of ''overlap-percent'' (state_of (populateComparisonView h D p)) =
           toFixed 2 (overlap_percentage c) @ ''%''"
    and "text_of ''overlap-detail'' (state_of (populateComparisonView h D p)) =
           toLocaleString h (total_shared_words c) @ '' shared words '' @ bullet @
           '' '' @ toLocaleString h (unique_to_folkard c) @ '' unique to Folkard '' @
           bullet @ '' '' @ toLocaleString h (unique_to_shakespeare c) @
           '' unique to Shakespeare''"
    using present e
    by (simp_all add: populateComparisonView_def cmp createVennDiagram_draws
        typed_simps run_simps observe_simps)
qed

lemma two_texts:
  assumes "texts doc = a # b # rest"
  shows "chain (member ''texts'' (Some (json_of_document doc))) (subscript 0) =
           Inr (Some (json_of_text a))"
    "chain (member ''texts'' (Some (json_of_document doc))) (subscript 1) =
           Inr (Some (json_of_text b))"
  using assms by (simp_all add: document_members nth_opt_def)

lemma all_slots:
  assumes "has_elements (folkard_slots @ shakespeare_slots @ comparison_slots) p"
  shows "has_elements folkard_slots p" "has_elements shakespeare_slots p"
    "has_elements comparison_slots p"
  using assms by (simp_all add: has_elements_def)

section \<open>Number formatting\<close>

lemma digits_of_nonempty: "Suc 0 \<le> length (digits_of n)"
  by (subst digits_of.simps) simp

lemma digit_char_0: "digit_char 0 = CHR ''0''"
  by (simp add: digit_char_def)

lemma fixed_digits_1:
  "fixed_digits 1 a =
     digits_of (nat \<lfloor>a * 10 + 1 / 2\<rfloor> div 10) @ ''.'' @ [digit_char (nat \<lfloor>a * 10 + 1 / 2\<rfloor> mod 10)]"
proof -
  define n where "n = nat \<lfloor>a * 10 + 1 / 2\<rfloor>"
  have split: "(let m = zeros (1 + 1 - length (digits_of n)) @ digits_of n;
                    k = length m
                in take (k - 1) m @ ''.'' @ drop (k - 1) m) =
               digits_of (n div 10) @ ''.'' @ [digit_char (n mod 10)]"
  proof (cases "n < 10")
    case True
    then have "digits_of n = [digit_char n]" "digits_of (n div 10) = ''0''"
      by (simp_all add: digits_of.simps [of n] digits_of.simps [of 0] digit_char_0)
    with True show ?thesis by (simp add: zeros_def)
  next
    case False
    then have d: "digits_of n = digits_of (n div 10) @ [digit_char (n mod 10)]"
      by (simp add: digits_of.simps [of n])
    have "Suc 0 \<le> length (digits_of (n div 10))" by (rule digits_of_nonempty)
    then have "2 - length (digits_of n) = 0" using d by simp
    then show ?thesis using d by (simp add: Let_def zeros_def)
  qed
  show ?thesis
    using split by (simp add: fixed_digits_def Let_def n_def)
qed

lemma fixed_digits_2:
  "fixed_digits 2 a =
     digits_of (nat \<lfloor>a * 100 + 1 / 2\<rfloor> div 100) @ ''.'' @
     [digit_char (nat \<lfloor>a * 100 + 1 / 2\<rfloor> div 10 mod 10),
      digit_char (nat \<lfloor>a * 100 + 1 / 2\<rfloor> mod 10)]"
proof -
  define n where "n = nat \<lfloor>a * 100 + 1 / 2\<rfloor>"
  have split: "(let m = zeros (2 + 1 - length (digits_of n)) @ digits_of n;
                    k = length m
                in take (k - 2) m @ ''.'' @ drop (k - 2) m) =
               digits_of (n div 100) @ ''.'' @
               [digit_char (n div 10 mod 10), digit_char (n mod 10)]"
  proof -
    consider "n < 10" | "10 \<le> n" "n < 100" | "100 \<le> n" by linarith
    then show ?thesis
    proof cases
      case 1
      then have "digits_of n = [digit_char n]" "digits_of (n div 100) = ''0''" "n div 10 = 0"
        by (simp_all add: digits_of.simps [of n] digits_of.simps [of 0] digit_char_0)
      with 1 show ?thesis by (simp add: digit_char_0 numeral_3_eq_3 zeros_def)
    next
      case 2
      then have "digits_of n = [digit_char (n div 10), digit_char (n mod 10)]"
        "digits_of (n div 100) = ''0''"
        by (simp_all add: digits_of.simps [of n] digits_of.simps [of "n div 10"]
            digits_of.simps [of 0] digit_char_0)
      with 2 show ?thesis by (simp add: numeral_3_eq_3 zeros_def)
    next
      case 3
      then have "\<not> n < 10" "\<not> n div 10 < 10" by simp_all
      moreover have "n div 10 div 10 = n div 100" by (simp add: div_mult2_eq [symmetric])
      ultimately have d: "digits_of n =
          digits_of (n div 100) @ [digit_char (n div 10 mod 10), digit_char (n mod 10)]"
        by (simp add: digits_of.simps [of n] digits_of.simps [of "n div 10"])
      have "Suc 0 \<le> length (digits_of (n div 100))" by (rule digits_of_nonempty)
      then have "3 - length (digits_of n) = 0" using d by simp
      then show ?thesis using d by (simp add: Let_def zeros_def)
    qed
  qed
  have "(2::nat) \<noteq> 0" by simp
  show ?thesis
    using split by (simp add: fixed_digits_def Let_def n_def)
qed

lemma toFixed_1_rounds:
  assumes "0 \<le> v" "v \<le> 100"
  shows "toFixed 1 (Finite v) = round_1_decimal v"
  using assms fixed_digits_1 [of v]
  by (simp add: toFixed.simps round_1_decimal_def Let_def)

lemma toFixed_2_rounds:
  assumes "0 \<le> v" "v \<le> 100"
  shows "toFixed 2 (Finite v) = round_2_decimals v"
  using assms fixed_digits_2 [of v]
  by (simp add: toFixed.simps round_2_decimals_def Let_def)

lemma nearest_integer:
  fixes y :: rat
  assumes "0 \<le> y"
  shows "\<bar>of_nat (nat \<lfloor>y + 1 / 2\<rfloor>) - y\<bar> \<le> 1 / 2"
proof -
  have "0 \<le> \<lfloor>y + 1 / 2\<rfloor>" using assms by simp
  then have "(of_nat (nat \<lfloor>y + 1 / 2\<rfloor>) :: rat) = of_int \<lfloor>y + 1 / 2\<rfloor>" by simp
  moreover have "of_int \<lfloor>y + 1 / 2\<rfloor> \<le> y + 1 / 2" "y + 1 / 2 < of_int \<lfloor>y + 1 / 2\<rfloor> + 1"
    by linarith+
  ultimately show ?thesis by linarith
qed

text \<open>The percentage of a fraction: the binary64 product with 100.\<close>

lemma percentage:
  assumes "in_range 0 1 f"
  shows "times64 f (Finite 100) = Finite (exact (times64 f (Finite 100)))"
    and "0 \<le> exact (times64 f (Finite 100))"
    and "exact (times64 f (Finite 100)) \<le> 100"
    and "\<bar>exact (times64 f (Finite 100)) - exact f * 100\<bar> \<le>
           max (exact f * 100 / 2 ^ 53) (1 / 2 ^ 1075)"
    and "\<bar>of_nat (nat \<lfloor>exact (times64 f (Finite 100)) * 10 + 1 / 2\<rfloor>) / 10 -
            exact (times64 f (Finite 100))\<bar> \<le> 1 / 20"
    and "width_percentage (times64 f (Finite 100))"
    and "toFixed 1 (times64 f (Finite 100)) = round_1_decimal (exact (times64 f (Finite 100)))"
proof -
  from assms obtain x where f: "f = Finite x" and x: "0 \<le> x" "x \<le> 1"
    by (cases f) simp_all
  have r: "0 \<le> x * 100" "x * 100 \<le> 100" using x by simp_all
  note m = round64_magnitude_percentage [OF r]
  have p: "times64 f (Finite 100) = Finite (round64_magnitude (x * 100))"
    unfolding f by (rule times64_percentage [OF x])
  show "times64 f (Finite 100) = Finite (exact (times64 f (Finite 100)))"
    and "0 \<le> exact (times64 f (Finite 100))"
    and "exact (times64 f (Finite 100)) \<le> 100"
    and "width_percentage (times64 f (Finite 100))"
    using m by (simp_all add: p)
  show "\<bar>exact (times64 f (Finite 100)) - exact f * 100\<bar> \<le>
           max (exact f * 100 / 2 ^ 53) (1 / 2 ^ 1075)"
    unfolding p unfolding f exact.simps by (rule m(3))
  have "0 \<le> round64_magnitude (x * 100) * 10" using m(1) by simp
  from nearest_integer [OF this]
  show "\<bar>of_nat (nat \<lfloor>exact (times64 f (Finite 100)) * 10 + 1 / 2\<rfloor>) / 10 -
            exact (times64 f (Finite 100))\<bar> \<le> 1 / 20"
    by (simp add: p field_simps abs_le_iff)
  show "toFixed 1 (times64 f (Finite 100)) = round_1_decimal (exact (times64 f (Finite 100)))"
    using toFixed_1_rounds [OF m(1,2)] by (simp add: p)
qed

section \<open>Word lists\<close>

lemma word_item_unfolded:
  \<open>word_item =
     (\<lambda>item. Html_div ''word-item''
        ([CHR 0x0A] @ ''            <span class="word-text">'' @ word item @ ''</span>'' @
         [CHR 0x0A] @ ''            <span class="word-count">'' @ numberToString (count item) @
         ''</span>'' @ [CHR 0x0A] @ ''        ''))\<close>
  \<open>shared_word_item =
     (\<lambda>item. Html_div ''word-item''
        ([CHR 0x0A] @ ''            <span class="word-text">'' @ shared_word item @ ''</span>'' @
         [CHR 0x0A] @ ''            <span class="word-count">'' @ numberToString (combined_count item) @
         ''</span>'' @ [CHR 0x0A] @ ''        ''))\<close>
  by (simp_all add: fun_eq_iff word_item_def shared_word_item_def word_item_markup_def)

text \<open>
  C3. On a page that has the slots, and for a document with its two texts, each populator
  completes without an error and appends to its container one \<^verbatim>\<open>div\<close> of class
  \<^verbatim>\<open>word-item\<close> per entry of its list, for the first 30 entries (\<open>take 30\<close>: all of them
  when there are fewer) in the order of the list; the markup of each \<^verbatim>\<open>div\<close> is the
  template of the script with the word and the count of the entry.
\<close>

theorem top_words_in_given_order:
  assumes slots: "has_elements (folkard_slots @ shakespeare_slots @ comparison_slots) p"
    and two: "texts doc = a # b # rest"
  shows \<open>\<exists>p1 p2 p3.
           populateFolkardView h (json_of_document doc) p = Done p1 \<and>
           children_of ''folkard-top-words'' p1 =
             children_of ''folkard-top-words'' p @
             map (\<lambda>item. Html_div ''word-item''
                    ([CHR 0x0A] @ ''            <span class="word-text">'' @ word item @ ''</span>'' @
                     [CHR 0x0A] @ ''            <span class="word-count">'' @ numberToString (count item) @
                     ''</span>'' @ [CHR 0x0A] @ ''        ''))
               (take 30 (top_words a)) \<and>
           populateShakespeareView h (json_of_document doc) p = Done p2 \<and>
           children_of ''shakespeare-top-words'' p2 =
             children_of ''shakespeare-top-words'' p @
             map (\<lambda>item. Html_div ''word-item''
                    ([CHR 0x0A] @ ''            <span class="word-text">'' @ word item @ ''</span>'' @
                     [CHR 0x0A] @ ''            <span class="word-count">'' @ numberToString (count item) @
                     ''</span>'' @ [CHR 0x0A] @ ''        ''))
               (take 30 (top_words b)) \<and>
           populateComparisonView h (json_of_document doc) p = Done p3 \<and>
           children_of ''shared-words'' p3 =
             children_of ''shared-words'' p @
             map (\<lambda>item. Html_div ''word-item''
                    ([CHR 0x0A] @ ''            <span class="word-text">'' @ shared_word item @ ''</span>'' @
                     [CHR 0x0A] @ ''            <span class="word-count">'' @ numberToString (combined_count item) @
                     ''</span>'' @ [CHR 0x0A] @ ''        ''))
               (take 30 (top_shared_words (comparison doc)))\<close>
proof -
  note F = populateFolkardView_effect [OF all_slots(1) [OF slots] two_texts(1) [OF two],
      where h = h]
  note S = populateShakespeareView_effect [OF all_slots(2) [OF slots] two_texts(2) [OF two],
      where h = h]
  note C = populateComparisonView_effect [OF all_slots(3) [OF slots] document_members(2),
      where h = h]
  show ?thesis
    by (rule exI [of _ "state_of (populateFolkardView h (json_of_document doc) p)"],
        rule exI [of _ "state_of (populateShakespeareView h (json_of_document doc) p)"],
        rule exI [of _ "state_of (populateComparisonView h (json_of_document doc) p)"], intro conjI)
      (rule F(1) S(1) C(1) F(3) [unfolded word_item_unfolded] S(3) [unfolded word_item_unfolded]
         C(3) [unfolded word_item_unfolded])+
qed

lemma sample_numbers:
  "numberToString (Finite 500) = ''500''"
  "numberToString (Finite 320) = ''320''"
  "numberToString (Finite 900) = ''900''"
  by (simp_all add: number_eval split del: if_split)

lemma sample_lists:
  "take 30 (top_words sample_text) =
     [\<lparr>word = ''rose'', count = Finite 500\<rparr>, \<lparr>word = ''lily'', count = Finite 320\<rparr>]"
  "take 30 (top_shared_words (comparison sample_document)) =
     [\<lparr>shared_word = ''rose'', combined_count = Finite 900\<rparr>]"
  by (simp_all add: sample_text_def sample_document_def sample_comparison_def)

lemma sample_page_empty:
  "children_of ''folkard-top-words'' sample_page = []"
  "children_of ''shakespeare-top-words'' sample_page = []"
  "children_of ''shared-words'' sample_page = []"
  "text_of ''folkard-total-words'' sample_page = []"
  by code_simp+

lemma sample_two_texts:
  "texts sample_document = sample_text # sample_text # []"
  "texts decimal_document = decimal_text # decimal_text # []"
  by (simp_all add: sample_document_def decimal_document_def)

theorem top_words_in_given_order_witness:
  \<open>has_elements (folkard_slots @ shakespeare_slots @ comparison_slots) sample_page \<and>
   texts sample_document = sample_text # sample_text # [] \<and>
   (\<exists>p1 p2 p3.
      populateFolkardView en_US_host (json_of_document sample_document) sample_page = Done p1 \<and>
      children_of ''folkard-top-words'' p1 =
        [Html_div ''word-item''
           ([CHR 0x0A] @ ''            <span class="word-text">rose</span>'' @
            [CHR 0x0A] @ ''            <span class="word-count">500</span>'' @
            [CHR 0x0A] @ ''        ''),
         Html_div ''word-item''
           ([CHR 0x0A] @ ''            <span class="word-text">lily</span>'' @
            [CHR 0x0A] @ ''            <span class="word-count">320</span>'' @
            [CHR 0x0A] @ ''        '')] \<and>
      populateShakespeareView en_US_host (json_of_document sample_document) sample_page = Done p2 \<and>
      children_of ''shakespeare-top-words'' p2 =
        [Html_div ''word-item''
           ([CHR 0x0A] @ ''            <span class="word-text">rose</span>'' @
            [CHR 0x0A] @ ''            <span class="word-count">500</span>'' @
            [CHR 0x0A] @ ''        ''),
         Html_div ''word-item''
           ([CHR 0x0A] @ ''            <span class="word-text">lily</span>'' @
            [CHR 0x0A] @ ''            <span class="word-count">320</span>'' @
            [CHR 0x0A] @ ''        '')] \<and>
      populateComparisonView en_US_host (json_of_document sample_document) sample_page = Done p3 \<and>
      children_of ''shared-words'' p3 =
        [Html_div ''word-item''
           ([CHR 0x0A] @ ''            <span class="word-text">rose</span>'' @
            [CHR 0x0A] @ ''            <span class="word-count">900</span>'' @
            [CHR 0x0A] @ ''        '')])\<close>
  using top_words_in_given_order [OF sample_page_has_slots sample_two_texts(1), of en_US_host]
    sample_page_has_slots sample_two_texts(1)
  by (simp add: sample_page_empty sample_lists sample_numbers)

section \<open>Sentiment bars\<close>

lemma decimal_numbers:
  "round64 (7 / 100) = Finite (1261007895663739 / 18014398509481984)"
  "round64 (255 / 10000) = Finite (7349874591868649 / 288230376151711744)"
  "times64 (Finite (1261007895663739 / 18014398509481984)) (Finite 100) =
     Finite (7881299347898369 / 1125899906842624)"
  "times64 (Finite (7349874591868649 / 288230376151711744)) (Finite 100) =
     Finite (2871044762448691 / 1125899906842624)"
  by (simp_all add: number_eval split del: if_split)

lemma decimal_strings:
  "numberToString (Finite (7881299347898369 / 1125899906842624)) = ''7.000000000000001''"
  "toFixed 1 (Finite (2871044762448691 / 1125899906842624)) = ''2.5''"
  "numberToString (Finite 7) = ''7''"
  "round_1_decimal (51 / 20) = ''2.6''"
  by (simp_all add: number_eval round_1_decimal_def split del: if_split)

text \<open>
  C4, as stated, fails. The product \<open>f * 100\<close> of the script is the binary64 product of
  the Number that \<open>f\<close> denotes, which is not always the product of the specification.
  In a document that writes the positive fraction as \<^verbatim>\<open>0.07\<close> and the negative fraction as
  \<^verbatim>\<open>0.0255\<close>, the positive bar is \<^verbatim>\<open>7.000000000000001%\<close> wide where \<open>f * 100\<close> is 7, and the
  negative label is \<^verbatim>\<open>2.5%\<close> where \<open>f * 100 = 2.55\<close> rounds to 2.6.
\<close>

theorem sentiment_rounding_counterexample:
  "positive (sentiment decimal_text) = round64 (7 / 100) \<and>
   width_of ''folkard-sent-pos''
     (state_of (populateFolkardView en_US_host (json_of_document decimal_document) sample_page)) =
     ''7.000000000000001%'' \<and>
   spec_width (7 / 100) = ''7%'' \<and>
   negative (sentiment decimal_text) = round64 (255 / 10000) \<and>
   text_of ''folkard-sent-neg-val''
     (state_of (populateFolkardView en_US_host (json_of_document decimal_document) sample_page)) =
     ''2.5%'' \<and>
   spec_label (255 / 10000) = ''2.6%''"
proof -
  note F = populateFolkardView_effect
    [OF all_slots(1) [OF sample_page_has_slots] two_texts(1) [OF sample_two_texts(2)],
     where h = en_US_host]
  have fields: "positive (sentiment decimal_text) = round64 (7 / 100)"
    "negative (sentiment decimal_text) = round64 (255 / 10000)"
    by (simp_all add: decimal_text_def)
  have spec: "spec_width (7 / 100) = ''7%''" "spec_label (255 / 10000) = ''2.6%''"
    by (simp_all add: spec_width_def spec_label_def decimal_strings)
  have width: "width_of ''folkard-sent-pos''
     (state_of (populateFolkardView en_US_host (json_of_document decimal_document) sample_page)) =
     ''7.000000000000001%''"
    unfolding F(4) fields decimal_numbers decimal_strings by simp
  have label: "text_of ''folkard-sent-neg-val''
     (state_of (populateFolkardView en_US_host (json_of_document decimal_document) sample_page)) =
     ''2.5%''"
    unfolding F(7) fields decimal_numbers decimal_strings by simp
  from fields spec width label show ?thesis by simp
qed

text \<open>
  C4, amended. For sentiment fractions in \<open>[0, 1]\<close> of either corpus, with \<open>v\<close> the binary64
  product of the fraction and 100: the bar width is \<open>v\<close> as \<^verbatim>\<open>Number::toString\<close> prints it,
  followed by \<^verbatim>\<open>%\<close>, and the label is \<open>v\<close> rounded to one decimal place, followed by
  \<^verbatim>\<open>%\<close>. \<open>v\<close> is a finite Number of \<open>[0, 100]\<close>; it differs from the exact product by at
  most the \<open>2^53\<close>-th part of it (or \<open>2^(-1075)\<close>, below the normal range), and the number the
  label shows differs from \<open>v\<close> by at most \<open>1/20\<close>.
\<close>

theorem sentiment_width_and_label:
  assumes slots: "has_elements (folkard_slots @ shakespeare_slots) p"
    and two: "texts doc = a # b # rest"
    and range: "fractions (sentiment a)" "fractions (sentiment b)"
  shows "\<exists>p1 p2.
           populateFolkardView h (json_of_document doc) p = Done p1 \<and>
           populateShakespeareView h (json_of_document doc) p = Done p2 \<and>
           width_of ''folkard-sent-pos'' p1 =
             numberToString (times64 (positive (sentiment a)) (Finite 100)) @ ''%'' \<and>
           text_of ''folkard-sent-pos-val'' p1 =
             round_1_decimal (exact (times64 (positive (sentiment a)) (Finite 100))) @ ''%'' \<and>
           width_of ''folkard-sent-neg'' p1 =
             numberToString (times64 (negative (sentiment a)) (Finite 100)) @ ''%'' \<and>
           text_of ''folkard-sent-neg-val'' p1 =
             round_1_decimal (exact (times64 (negative (sentiment a)) (Finite 100))) @ ''%'' \<and>
           width_of ''folkard-sent-neu'' p1 =
             numberToString (times64 (neutral (sentiment a)) (Finite 100)) @ ''%'' \<and>
           text_of ''folkard-sent-neu-val'' p1 =
             round_1_decimal (exact (times64 (neutral (sentiment a)) (Finite 100))) @ ''%'' \<and>
           width_of ''shakespeare-sent-pos'' p2 =
             numberToString (times64 (positive (sentiment b)) (Finite 100)) @ ''%'' \<and>
           text_of ''shakespeare-sent-pos-val'' p2 =
             round_1_decimal (exact (times64 (positive (sentiment b)) (Finite 100))) @ ''%'' \<and>
           width_of ''shakespeare-sent-neg'' p2 =
             numberToString (times64 (negative (sentiment b)) (Finite 100)) @ ''%'' \<and>
           text_of ''shakespeare-sent-neg-val'' p2 =
             round_1_decimal (exact (times64 (negative (sentiment b)) (Finite 100))) @ ''%'' \<and>
           width_of ''shakespeare-sent-neu'' p2 =
             numberToString (times64 (neutral (sentiment b)) (Finite 100)) @ ''%'' \<and>
           text_of ''shakespeare-sent-neu-val'' p2 =
             round_1_decimal (exact (times64 (neutral (sentiment b)) (Finite 100))) @ ''%'' \<and>
           (\<forall>f \<in> {positive (sentiment a), negative (sentiment a), neutral (sentiment a),
                  positive (sentiment b), negative (sentiment b), neutral (sentiment b)}.
              times64 f (Finite 100) = Finite (exact (times64 f (Finite 100))) \<and>
              0 \<le> exact (times64 f (Finite 100)) \<and>
              exact (times64 f (Finite 100)) \<le> 100 \<and>
              \<bar>exact (times64 f (Finite 100)) - exact f * 100\<bar> \<le>
                max (exact f * 100 / 2 ^ 53) (1 / 2 ^ 1075) \<and>
              \<bar>of_nat (nat \<lfloor>exact (times64 f (Finite 100)) * 10 + 1 / 2\<rfloor>) / 10 -
                 exact (times64 f (Finite 100))\<bar> \<le> 1 / 20)"
proof -
  from slots have fs: "has_elements folkard_slots p" and ss: "has_elements shakespeare_slots p"
    by (simp_all add: has_elements_def)
  note F = populateFolkardView_effect [OF fs two_texts(1) [OF two], where h = h]
  note S = populateShakespeareView_effect [OF ss two_texts(2) [OF two], where h = h]
  from range have fr:
    "in_range 0 1 (positive (sentiment a))" "in_range 0 1 (negative (sentiment a))"
    "in_range 0 1 (neutral (sentiment a))" "in_range 0 1 (positive (sentiment b))"
    "in_range 0 1 (negative (sentiment b))" "in_range 0 1 (neutral (sentiment b))"
    by (simp_all add: fractions_def)
  note W = fr [THEN percentage(6)]
  note L = fr [THEN percentage(7)]
  have R: "(\<forall>f \<in> {positive (sentiment a), negative (sentiment a), neutral (sentiment a),
                      positive (sentiment b), negative (sentiment b), neutral (sentiment b)}.
                  times64 f (Finite 100) = Finite (exact (times64 f (Finite 100))) \<and>
                  0 \<le> exact (times64 f (Finite 100)) \<and>
                  exact (times64 f (Finite 100)) \<le> 100 \<and>
                  \<bar>exact (times64 f (Finite 100)) - exact f * 100\<bar> \<le>
                    max (exact f * 100 / 2 ^ 53) (1 / 2 ^ 1075) \<and>
                  \<bar>of_nat (nat \<lfloor>exact (times64 f (Finite 100)) * 10 + 1 / 2\<rfloor>) / 10 -
                     exact (times64 f (Finite 100))\<bar> \<le> 1 / 20)"
    using fr percentage(1-5) by blast
  note F' = F(4-9) [unfolded L] and S' = S(4-9) [unfolded L]
  show ?thesis
    by (rule exI [of _ "state_of (populateFolkardView h (json_of_document doc) p)"],
        rule exI [of _ "state_of (populateShakespeareView h (json_of_document doc) p)"], intro conjI)
      (rule F(1) S(1) R | simp only: F' S' W if_True)+
qed

lemma sample_fractions: "fractions (sentiment sample_text)"
  by (simp add: fractions_def sample_text_def)

lemma sample_percentages:
  "numberToString (times64 (Finite (1 / 4)) (Finite 100)) = ''25''"
  "round_1_decimal (exact (times64 (Finite (1 / 4)) (Finite 100))) = ''25.0''"
  "numberToString (times64 (Finite (1 / 8)) (Finite 100)) = ''12.5''"
  "round_1_decimal (exact (times64 (Finite (1 / 8)) (Finite 100))) = ''12.5''"
  by (simp_all add: number_eval round_1_decimal_def split del: if_split)

theorem sentiment_width_and_label_witness:
  "has_elements (folkard_slots @ shakespeare_slots) sample_page \<and>
   texts sample_document = sample_text # sample_text # [] \<and>
   fractions (sentiment sample_text) \<and>
   (\<exists>p1 p2.
      populateFolkardView en_US_host (json_of_document sample_document) sample_page = Done p1 \<and>
      populateShakespeareView en_US_host (json_of_document sample_document) sample_page = Done p2 \<and>
      width_of ''folkard-sent-pos'' p1 = ''25%'' \<and>
      text_of ''folkard-sent-pos-val'' p1 = ''25.0%'' \<and>
      width_of ''shakespeare-sent-neg'' p2 = ''12.5%'' \<and>
      text_of ''shakespeare-sent-neg-val'' p2 = ''12.5%'')"
proof -
  have slots: "has_elements (folkard_slots @ shakespeare_slots) sample_page"
    using sample_page_has_slots by (auto simp add: has_elements_def)
  have fields: "positive (sentiment sample_text) = Finite (1 / 4)"
    "negative (sentiment sample_text) = Finite (1 / 8)"
    by (simp_all add: sample_text_def)
  from sentiment_width_and_label
    [OF slots sample_two_texts(1) sample_fractions sample_fractions, of en_US_host]
  show ?thesis using slots sample_two_texts(1) sample_fractions
    by (auto simp add: fields sample_percentages)
qed

section \<open>The comparison view\<close>

text \<open>
  C6. On a page that has the slots of the comparison view, and for an overlap percentage
  within \<open>[0, 100]\<close>, the populator shows the percentage rounded to two decimal places
  followed by \<^verbatim>\<open>%\<close>, and one summary line: the shared, first-only and second-only word
  counts, each in the host's locale format, joined by the fixed words and the bullet
  U+2022 (the bytes \<open>E2 80 A2\<close> of UTF-8). In the \<^verbatim>\<open>en-US\<close> locale the record with 2000, 5000
  and 3000 words gives \<^verbatim>\<open>2,000 shared words\<close>, a bullet, \<^verbatim>\<open>5,000 unique to Folkard\<close>, a
  bullet, \<^verbatim>\<open>3,000 unique to Shakespeare\<close>.
\<close>

theorem comparison_view_overlap_and_summary:
  assumes slots: "has_elements comparison_slots p"
    and range: "in_range 0 100 (overlap_percentage (comparison doc))"
  shows "\<exists>p'. populateComparisonView h (json_of_document doc) p = Done p' \<and>
           text_of ''overlap-percent'' p' =
             round_2_decimals (exact (overlap_percentage (comparison doc))) @ ''%'' \<and>
           text_of ''overlap-detail'' p' =
             toLocaleString h (total_shared_words (comparison doc)) @ '' shared words '' @
             [CHR 0xE2, CHR 0x80, CHR 0xA2] @ '' '' @
             toLocaleString h (unique_to_folkard (comparison doc)) @ '' unique to Folkard '' @
             [CHR 0xE2, CHR 0x80, CHR 0xA2] @ '' '' @
             toLocaleString h (unique_to_shakespeare (comparison doc)) @
             '' unique to Shakespeare''"
proof -
  note C = populateComparisonView_effect [OF slots document_members(2) [of doc], where h = h]
  from range obtain x where x: "overlap_percentage (comparison doc) = Finite x" "0 \<le> x" "x \<le> 100"
    by (cases "overlap_percentage (comparison doc)") simp_all
  have rounds: "toFixed 2 (overlap_percentage (comparison doc)) =
      round_2_decimals (exact (overlap_percentage (comparison doc)))"
    using toFixed_2_rounds [OF x(2,3)] by (simp add: x(1))
  show ?thesis
    by (rule exI [of _ "state_of (populateComparisonView h (json_of_document doc) p)"], intro conjI)
      (rule C(1) C(5) [unfolded rounds] C(6) [unfolded bullet_def])+
qed

lemma sample_overlap:
  "in_range 0 100 (overlap_percentage (comparison sample_document))"
  by (simp add: sample_document_def sample_comparison_def number_eval split del: if_split)

lemma sample_summary:
  "round_2_decimals (exact (overlap_percentage (comparison sample_document))) = ''33.33''"
  "toLocaleString en_US_host (total_shared_words (comparison sample_document)) = ''2,000''"
  "toLocaleString en_US_host (unique_to_folkard (comparison sample_document)) = ''5,000''"
  "toLocaleString en_US_host (unique_to_shakespeare (comparison sample_document)) = ''3,000''"
  by (simp_all add: sample_document_def sample_comparison_def round_2_decimals_def number_eval
      split del: if_split)

theorem comparison_view_overlap_and_summary_witness:
  "has_elements comparison_slots sample_page \<and>
   in_range 0 100 (overlap_percentage (comparison sample_document)) \<and>
   (\<exists>p'. populateComparisonView en_US_host (json_of_document sample_document) sample_page = Done p' \<and>
         text_of ''overlap-percent'' p' = ''33.33%'' \<and>
         text_of ''overlap-detail'' p' =
           ''2,000 shared words '' @ [CHR 0xE2, CHR 0x80, CHR 0xA2] @
           '' 5,000 unique to Folkard '' @ [CHR 0xE2, CHR 0x80, CHR 0xA2] @
           '' 3,000 unique to Shakespeare'')"
proof -
  have slots: "has_elements comparison_slots sample_page"
    using sample_page_has_slots by (auto simp add: has_elements_def)
  from comparison_view_overlap_and_summary [OF slots sample_overlap, of en_US_host]
  show ?thesis using slots sample_overlap by (auto simp add: sample_summary)
qed

section \<open>Populating twice\<close>

text \<open>
  C9. No populator clears its word container: run twice on the same document, each leaves
  in its container what was there, followed by the items of the first run, followed by
  the same items again, that is \<open>2 * min (length list) 30\<close> new entries; the chart
  container alone holds a single tree after the second run.
\<close>

theorem populators_append_without_clearing:
  assumes slots: "has_elements (folkard_slots @ shakespeare_slots @ comparison_slots) p"
    and two: "texts doc = a # b # rest"
  shows "\<exists>p1 p2 q1 q2 r1 r2.
           populateFolkardView h (json_of_document doc) p = Done p1 \<and>
           populateFolkardView h (json_of_document doc) p1 = Done p2 \<and>
           children_of ''folkard-top-words'' p2 =
             children_of ''folkard-top-words'' p @
             map word_item (take 30 (top_words a)) @
             map word_item (take 30 (top_words a)) \<and>
           length (children_of ''folkard-top-words'' p2) =
             length (children_of ''folkard-top-words'' p) + 2 * min (length (top_words a)) 30 \<and>
           populateShakespeareView h (json_of_document doc) p = Done q1 \<and>
           populateShakespeareView h (json_of_document doc) q1 = Done q2 \<and>
           children_of ''shakespeare-top-words'' q2 =
             children_of ''shakespeare-top-words'' p @
             map word_item (take 30 (top_words b)) @
             map word_item (take 30 (top_words b)) \<and>
           length (children_of ''shakespeare-top-words'' q2) =
             length (children_of ''shakespeare-top-words'' p) + 2 * min (length (top_words b)) 30 \<and>
           populateComparisonView h (json_of_document doc) p = Done r1 \<and>
           populateComparisonView h (json_of_document doc) r1 = Done r2 \<and>
           children_of ''shared-words'' r2 =
             children_of ''shared-words'' p @
             map shared_word_item (take 30 (top_shared_words (comparison doc))) @
             map shared_word_item (take 30 (top_shared_words (comparison doc))) \<and>
           length (children_of ''shared-words'' r2) =
             length (children_of ''shared-words'' p) +
             2 * min (length (top_shared_words (comparison doc))) 30 \<and>
           children_of ''overlap-chart'' r2 = [Svg_tree (venn_svg h (comparison doc))]"
proof -
  note fs = all_slots(1) [OF slots] and ss = all_slots(2) [OF slots]
    and cs = all_slots(3) [OF slots]
  note ta = two_texts(1) [OF two] and tb = two_texts(2) [OF two]
    and tc = document_members(2) [of doc]
  define p1 where "p1 = state_of (populateFolkardView h (json_of_document doc) p)"
  define p2 where "p2 = state_of (populateFolkardView h (json_of_document doc) p1)"
  define q1 where "q1 = state_of (populateShakespeareView h (json_of_document doc) p)"
  define q2 where "q2 = state_of (populateShakespeareView h (json_of_document doc) q1)"
  define r1 where "r1 = state_of (populateComparisonView h (json_of_document doc) p)"
  define r2 where "r2 = state_of (populateComparisonView h (json_of_document doc) r1)"
  note F1 = populateFolkardView_effect [OF fs ta, where h = h, folded p1_def]
  have fs1: "has_elements folkard_slots p1"
    using fs F1(2) by (simp add: has_elements_def)
  note F2 = populateFolkardView_effect [OF fs1 ta, where h = h, folded p2_def]
  note S1 = populateShakespeareView_effect [OF ss tb, where h = h, folded q1_def]
  have ss1: "has_elements shakespeare_slots q1"
    using ss S1(2) by (simp add: has_elements_def)
  note S2 = populateShakespeareView_effect [OF ss1 tb, where h = h, folded q2_def]
  note C1 = populateComparisonView_effect [OF cs tc, where h = h, folded r1_def]
  have cs1: "has_elements comparison_slots r1"
    using cs C1(2) by (simp add: has_elements_def)
  note C2 = populateComparisonView_effect [OF cs1 tc, where h = h, folded r2_def]
  have f: "children_of ''folkard-top-words'' p2 =
             children_of ''folkard-top-words'' p @
             map word_item (take 30 (top_words a)) @
             map word_item (take 30 (top_words a))"
    by (simp add: F2(3) F1(3))
  have s: "children_of ''shakespeare-top-words'' q2 =
             children_of ''shakespeare-top-words'' p @
             map word_item (take 30 (top_words b)) @
             map word_item (take 30 (top_words b))"
    by (simp add: S2(3) S1(3))
  have c: "children_of ''shared-words'' r2 =
             children_of ''shared-words'' p @
             map shared_word_item (take 30 (top_shared_words (comparison doc))) @
             map shared_word_item (take 30 (top_shared_words (comparison doc)))"
    by (simp add: C2(3) C1(3))
  have fl: "length (children_of ''folkard-top-words'' p2) =
             length (children_of ''folkard-top-words'' p) + 2 * min (length (top_words a)) 30"
    by (simp add: f)
  have sl: "length (children_of ''shakespeare-top-words'' q2) =
             length (children_of ''shakespeare-top-words'' p) + 2 * min (length (top_words b)) 30"
    by (simp add: s)
  have cl: "length (children_of ''shared-words'' r2) =
             length (children_of ''shared-words'' p) +
             2 * min (length (top_shared_words (comparison doc))) 30"
    by (simp add: c)
  show ?thesis
    by (rule exI [of _ p1], rule exI [of _ p2], rule exI [of _ q1], rule exI [of _ q2],
        rule exI [of _ r1], rule exI [of _ r2], intro conjI)
      (rule F1(1) F2(1) S1(1) S2(1) C1(1) C2(1) f s c fl sl cl C2(4))+
qed

theorem populators_append_without_clearing_witness:
  \<open>has_elements (folkard_slots @ shakespeare_slots @ comparison_slots) sample_page \<and>
   texts sample_document = sample_text # sample_text # [] \<and>
   (\<exists>p1 p2.
      populateFolkardView en_US_host (json_of_document sample_document) sample_page = Done p1 \<and>
      populateFolkardView en_US_host (json_of_document sample_document) p1 = Done p2 \<and>
      children_of ''folkard-top-words'' p2 =
        [Html_div ''word-item''
           ([CHR 0x0A] @ ''            <span class="word-text">rose</span>'' @
            [CHR 0x0A] @ ''            <span class="word-count">500</span>'' @
            [CHR 0x0A] @ ''        ''),
         Html_div ''word-item''
           ([CHR 0x0A] @ ''            <span class="word-text">lily</span>'' @
            [CHR 0x0A] @ ''            <span class="word-count">320</span>'' @
            [CHR 0x0A] @ ''        ''),
         Html_div ''word-item''
           ([CHR 0x0A] @ ''            <span class="word-text">rose</span>'' @
            [CHR 0x0A] @ ''            <span class="word-count">500</span>'' @
            [CHR 0x0A] @ ''        ''),
         Html_div ''word-item''
           ([CHR 0x0A] @ ''            <span class="word-text">lily</span>'' @
            [CHR 0x0A] @ ''            <span class="word-count">320</span>'' @
            [CHR 0x0A] @ ''        '')] \<and>
      length (children_of ''folkard-top-words'' p2) = 4)\<close>
  using populators_append_without_clearing
    [OF sample_page_has_slots sample_two_texts(1), of en_US_host]
    sample_page_has_slots sample_two_texts(1)
  by (auto simp add: sample_page_empty sample_lists sample_numbers word_item_def
      word_item_markup_def)

section \<open>Navigation between the views\<close>

lemma forEach_node_Cons:
  "forEach_node f (a # ks) p = forEach_node f ks (p[a := f (p ! a)])"
  by (simp add: forEach_node_def)

lemma length_forEach_node: "length (forEach_node f ks p) = length p"
  by (induction ks arbitrary: p) (simp_all add: forEach_node_Cons, simp add: forEach_node_def)

lemma nth_forEach_node:
  assumes idem: "\<And>e. f (f e) = f e"
  shows "k < length p \<Longrightarrow>
         forEach_node f ks p ! k = (if k \<in> set ks then f (p ! k) else p ! k)"
proof (induction ks arbitrary: p)
  case Nil
  then show ?case by (simp add: forEach_node_def)
next
  case (Cons a ks)
  let ?q = "p[a := f (p ! a)]"
  from Cons.prems have "k < length ?q" by simp
  from Cons.IH [OF this] have
    "forEach_node f ks ?q ! k = (if k \<in> set ks then f (?q ! k) else ?q ! k)" .
  then show ?case using Cons.prems idem
    by (cases "k = a") (simp_all add: forEach_node_Cons)
qed

lemma remove_idem: "classList_remove c (classList_remove c e) = classList_remove c e"
  by (simp add: classList_remove_def)

lemma hide_idem:
  "e\<lparr>style_display := d\<rparr>\<lparr>style_display := d\<rparr> = e\<lparr>style_display := d\<rparr>"
  by simp

lemma click_selected:
  assumes b: "b \<in> set (navButtons nav)" and bp: "b < length p"
    and v: "dataset_view (p ! b) = Some v"
    and t: "getElementById (''view-'' @ v) p = Some t"
  shows "click nav b p = Done (map (selected nav b t p) [0..<length p])"
proof -
  define p1 where "p1 = forEach_node (classList_remove ''active'') (navButtons nav) p"
  define p2 where "p2 = p1[b := classList_add ''active'' (p1 ! b)]"
  define p3 where "p3 = forEach_node (\<lambda>view. view\<lparr>style_display := ''none''\<rparr>) (views nav) p2"
  have len: "length p1 = length p" "length p2 = length p" "length p3 = length p"
    by (simp_all add: p1_def p2_def p3_def length_forEach_node)
  have n1: "p1 ! k = (if k \<in> set (navButtons nav) then classList_remove ''active'' (p ! k) else p ! k)"
    if "k < length p" for k
    unfolding p1_def using that by (rule nth_forEach_node [OF remove_idem])
  have n2: "p2 ! k = (if k = b then classList_add ''active'' (p1 ! k) else p1 ! k)"
    if "k < length p" for k
    using that len by (simp add: p2_def)
  have n3: "p3 ! k = (if k \<in> set (views nav) then (p2 ! k)\<lparr>style_display := ''none''\<rparr> else p2 ! k)"
    if "k < length p" for k
    unfolding p3_def using that len by (intro nth_forEach_node) simp_all
  have ids: "map elem_id p3 = map elem_id p"
    by (rule nth_equalityI)
      (simp_all add: len n1 n2 n3 classList_add_def classList_remove_def)
  have t3: "getElementById (''view-'' @ v) p3 = Some t"
    using t getElementById_same_ids [OF ids] by simp
  have "click nav b p = Done (p3[t := (p3 ! t)\<lparr>style_display := ''block''\<rparr>])"
    using b v t3 by (simp add: click_def Let_def assign_def p1_def p2_def p3_def)
  moreover have "p3[t := (p3 ! t)\<lparr>style_display := ''block''\<rparr>] =
                 map (selected nav b t p) [0..<length p]"
    by (rule nth_equalityI)
      (simp_all add: len n1 n2 n3 nth_list_update selected_def Let_def)
  ultimately show ?thesis by simp
qed

lemma selected_again:
  assumes "p' = map (selected nav b t p) [0..<length p]" "k < length p"
  shows "selected nav b t p' k = selected nav b t p k"
  using assms
  by (simp add: selected_def Let_def classList_add_def classList_remove_def)

text \<open>
  C7. A click on a navigation button \<open>b\<close> whose \<^verbatim>\<open>data-view\<close> names an existing container \<open>t\<close>
  completes and leaves \<open>b\<close> marked \<^verbatim>\<open>active\<close>, every other button of the node list not
  marked, \<open>t\<close> displayed as \<^verbatim>\<open>block\<close> and every other view of the node list as \<^verbatim>\<open>none\<close>;
  a second click on \<open>b\<close> then leaves the page exactly as it is.
\<close>

theorem navigation_selects_one_view:
  assumes valid: "valid_nodes nav p"
    and b: "b \<in> set (navButtons nav)"
    and v: "dataset_view (p ! b) = Some v"
    and t: "getElementById (''view-'' @ v) p = Some t"
  shows "\<exists>p'. click nav b p = Done p' \<and>
              ''active'' \<in> set (classList (p' ! b)) \<and>
              (\<forall>k \<in> set (navButtons nav). k \<noteq> b \<longrightarrow> ''active'' \<notin> set (classList (p' ! k))) \<and>
              style_display (p' ! t) = ''block'' \<and>
              (\<forall>k \<in> set (views nav). k \<noteq> t \<longrightarrow> style_display (p' ! k) = ''none'') \<and>
              click nav b p' = Done p'"
proof -
  define p' where "p' = map (selected nav b t p) [0..<length p]"
  from valid b have bp: "b < length p" by (simp add: valid_nodes_def)
  from getElementById_Some [OF t] have tp: "t < length p" by simp
  have first: "click nav b p = Done p'"
    unfolding p'_def by (rule click_selected [OF b bp v t])
  have len: "length p' = length p" by (simp add: p'_def)
  have at: "p' ! k = selected nav b t p k" if "k < length p" for k
    using that by (simp add: p'_def)
  have active: "''active'' \<in> set (classList (p' ! b))"
    using bp b by (auto simp add: at selected_def Let_def classList_add_def classList_remove_def)
  have others: "\<forall>k \<in> set (navButtons nav). k \<noteq> b \<longrightarrow> ''active'' \<notin> set (classList (p' ! k))"
    using valid by (auto simp add: valid_nodes_def at selected_def Let_def classList_remove_def)
  have shown: "style_display (p' ! t) = ''block''"
    using tp by (simp add: at selected_def Let_def)
  have hidden: "\<forall>k \<in> set (views nav). k \<noteq> t \<longrightarrow> style_display (p' ! k) = ''none''"
    using valid by (auto simp add: valid_nodes_def at selected_def Let_def)
  have v': "dataset_view (p' ! b) = Some v"
    using bp v by (auto simp add: at selected_def Let_def classList_add_def classList_remove_def)
  have "map elem_id p' = map elem_id p"
    by (rule nth_equalityI)
      (simp_all add: len at selected_def Let_def classList_add_def classList_remove_def)
  from getElementById_same_ids [OF this] t
  have t': "getElementById (''view-'' @ v) p' = Some t" by simp
  have "click nav b p' = Done (map (selected nav b t p') [0..<length p'])"
    using bp len by (intro click_selected [OF b _ v' t']) simp
  also have "map (selected nav b t p') [0..<length p'] = p'"
    by (rule nth_equalityI) (simp_all add: len selected_again [OF p'_def] at)
  finally have again: "click nav b p' = Done p'" .
  from first active others shown hidden again show ?thesis by blast
qed

theorem navigation_selects_one_view_witness:
  "valid_nodes (setupNavigation sample_page) sample_page \<and>
   1 \<in> set (navButtons (setupNavigation sample_page)) \<and>
   dataset_view (sample_page ! 1) = Some ''shakespeare'' \<and>
   getElementById (''view-'' @ ''shakespeare'') sample_page = Some 4 \<and>
   (\<exists>p'. click (setupNavigation sample_page) 1 sample_page = Done p' \<and>
         ''active'' \<in> set (classList (p' ! 1)) \<and>
         ''active'' \<notin> set (classList (p' ! 0)) \<and>
         style_display (p' ! 4) = ''block'' \<and>
         style_display (p' ! 3) = ''none'' \<and>
         click (setupNavigation sample_page) 1 p' = Done p')"
proof -
  have valid: "valid_nodes (setupNavigation sample_page) sample_page"
    by code_simp
  have b: "1 \<in> set (navButtons (setupNavigation sample_page))"
    and v: "dataset_view (sample_page ! 1) = Some ''shakespeare''"
    and t: "getElementById (''view-'' @ ''shakespeare'') sample_page = Some 4"
    by code_simp+
  have more: "0 \<in> set (navButtons (setupNavigation sample_page))"
    "3 \<in> set (views (setupNavigation sample_page))"
    by code_simp+
  from navigation_selects_one_view [OF valid b v t] obtain p' where p':
    "click (setupNavigation sample_page) 1 sample_page = Done p'"
    "''active'' \<in> set (classList (p' ! 1))"
    "\<forall>k \<in> set (navButtons (setupNavigation sample_page)).
        k \<noteq> 1 \<longrightarrow> ''active'' \<notin> set (classList (p' ! k))"
    "style_display (p' ! 4) = ''block''"
    "\<forall>k \<in> set (views (setupNavigation sample_page)). k \<noteq> 4 \<longrightarrow> style_display (p' ! k) = ''none''"
    "click (setupNavigation sample_page) 1 p' = Done p'"
    by blast
  from p'(3) more(1) have a0: "''active'' \<notin> set (classList (p' ! 0))" by auto
  from p'(5) more(2) have d3: "style_display (p' ! 3) = ''none''" by auto
  from valid b v t p'(1,2,4,6) a0 d3 show ?thesis by blast
qed

section \<open>What the populators can throw\<close>

lemma type_errors_chain:
  "type_errors c \<Longrightarrow> (\<And>v. type_errors (f v)) \<Longrightarrow> type_errors (chain c f)"
  by (cases c) simp_all

lemma type_errors_member: "type_errors (member k v)"
  by (cases "(k, v)" rule: member.cases) simp_all

lemma type_errors_subscript: "type_errors (subscript i v)"
  by (cases "(i, v)" rule: subscript.cases) simp_all

lemma type_errors_join_strings:
  "(\<And>x. x \<in> set xs \<Longrightarrow> type_errors x) \<Longrightarrow> type_errors (join_strings sep xs)"
proof (induction sep xs rule: join_strings.induct)
  case (1 sep)
  then show ?case by simp
next
  case (2 sep x)
  then show ?case by simp
next
  case (3 sep x y ys)
  then have "type_errors x" "type_errors (join_strings sep (y # ys))" by simp_all
  then show ?case by (auto intro!: type_errors_chain)
qed

lemma type_errors_toString: "type_errors (toString v)"
proof (induction v rule: toString.induct)
  case (5 xs)
  then show ?case by (auto intro!: type_errors_join_strings)
qed simp_all

lemma type_errors_substitution: "type_errors (substitution v)"
  by (cases v) (simp_all add: type_errors_toString)

lemma type_errors_toNumber: "type_errors (toNumber v)"
proof (cases v)
  case None
  then show ?thesis by simp
next
  case (Some j)
  then show ?thesis
    using type_errors_toString [of j] by (cases j) (auto intro!: type_errors_chain)
qed

lemma type_errors_times_100: "type_errors (times_100 v)"
  unfolding times_100_def by (intro type_errors_chain type_errors_toNumber) simp

lemma type_errors_toLocaleString_of: "type_errors (toLocaleString_of h v)"
proof (induction h v rule: toLocaleString_of.induct)
  case (5 h xs)
  then show ?case by (auto intro!: type_errors_join_strings)
qed simp_all

lemma type_errors_call_toLocaleString: "type_errors (call_toLocaleString h v)"
  by (cases v) (simp_all add: type_errors_toLocaleString_of)

lemma type_errors_call_toFixed: "type_errors (call_toFixed f v)"
  by (cases "(f, v)" rule: call_toFixed.cases) simp_all

lemma type_errors_slice_0_30: "type_errors (slice_0_30 v)"
  by (cases v rule: slice_0_30.cases) simp_all

lemma type_errors_Inr: "type_errors (Inr v)"
  by simp

lemmas type_errors_intros =
  type_errors_chain type_errors_member type_errors_subscript type_errors_substitution
  type_errors_times_100 type_errors_call_toLocaleString type_errors_call_toFixed
  type_errors_slice_0_30 type_errors_Inr

lemma type_errors_wordDiv: "type_errors (wordDiv c item)"
  unfolding wordDiv_def by (intro type_errors_intros)

lemma throws_assign: "throws_type_errors (assign i f)"
  by (auto simp add: throws_type_errors_def assign_def split: option.splits)

lemma throws_setTextContent: "type_errors v \<Longrightarrow> throws_type_errors (setTextContent i v)"
  using throws_assign
  by (cases v) (auto simp add: throws_type_errors_def setTextContent_def)

lemma throws_setStyleWidth: "type_errors v \<Longrightarrow> throws_type_errors (setStyleWidth i v)"
  using throws_assign
  by (cases v) (auto simp add: throws_type_errors_def setStyleWidth_def)

lemma throws_clearInnerHTML: "throws_type_errors (clearInnerHTML i)"
  unfolding clearInnerHTML_def by (rule throws_assign)

lemma throws_d3: "throws_type_errors (d3_select_append i c)" "throws_type_errors (svg_append i k)"
  by (simp_all add: throws_type_errors_def d3_select_append_def svg_append_def)

lemma throws_svg_text: "type_errors v \<Longrightarrow> throws_type_errors (svg_text i v)"
  by (cases v) (auto simp add: throws_type_errors_def svg_text_def)

lemma throws_append_word_item: "throws_type_errors (append_word_item c k item)"
  using type_errors_wordDiv [of c item]
  by (cases "wordDiv c item")
    (auto simp add: throws_type_errors_def append_word_item_def appendChild_def
      split: option.splits)

lemma throws_run_Nil: "throws_type_errors (run [])"
  by (simp add: throws_type_errors_def)

lemma throws_run_Cons:
  assumes "throws_type_errors f" "throws_type_errors (run fs)"
  shows "throws_type_errors (run (f # fs))"
  unfolding throws_type_errors_def
proof (intro allI impI)
  fix s e s'
  assume t: "run (f # fs) s = Threw e s'"
  show "e = TypeError"
  proof (cases "f s")
    case (Done s1)
    with t assms(2) show ?thesis by (auto simp add: throws_type_errors_def)
  next
    case (Threw e1 s1)
    with t assms(1) show ?thesis by (auto simp add: throws_type_errors_def)
  qed
qed

lemma throws_forEach:
  assumes "\<And>x. throws_type_errors (body x)"
  shows "throws_type_errors (forEach body xs)"
proof (induction xs)
  case Nil
  then show ?case by (simp add: throws_type_errors_def)
next
  case (Cons x xs)
  show ?case unfolding throws_type_errors_def
  proof (intro allI impI)
    fix s e s'
    assume t: "forEach body (x # xs) s = Threw e s'"
    show "e = TypeError"
    proof (cases "body x s")
      case (Done s1)
      with t Cons show ?thesis by (auto simp add: throws_type_errors_def)
    next
      case (Threw e1 s1)
      with t assms [of x] show ?thesis by (auto simp add: throws_type_errors_def)
    qed
  qed
qed

lemma throws_with_value:
  assumes "type_errors c" "\<And>v. throws_type_errors (rest v)"
  shows "throws_type_errors (with_value c rest)"
  using assms by (cases c) (auto simp add: throws_type_errors_def)

lemma throws_word_loop:
  assumes "type_errors c"
  shows "throws_type_errors
    (\<lambda>p. let container = getElementById i p
         in with_value c (forEach (append_word_item n container)) p)"
proof -
  have "throws_type_errors (with_value c (forEach (append_word_item n k)))" for k
    by (intro throws_with_value assms throws_forEach throws_append_word_item)
  then show ?thesis by (simp add: throws_type_errors_def Let_def)
qed

lemmas throws_intros =
  throws_run_Nil throws_run_Cons throws_with_value throws_word_loop throws_setTextContent
  throws_setStyleWidth throws_clearInnerHTML throws_d3 throws_svg_text type_errors_intros

lemma throws_createVennDiagram: "throws_type_errors (createVennDiagram h c)"
  unfolding createVennDiagram_def Let_def by (intro throws_intros)

lemma throws_populateFolkardView: "throws_type_errors (populateFolkardView h d)"
  unfolding populateFolkardView_def by (intro throws_intros)

lemma throws_populateShakespeareView: "throws_type_errors (populateShakespeareView h d)"
  unfolding populateShakespeareView_def by (intro throws_intros)

lemma throws_populateComparisonView: "throws_type_errors (populateComparisonView h d)"
  unfolding populateComparisonView_def by (intro throws_intros throws_createVennDiagram)

lemma populate_views_throws:
  "populate_views h d p = Threw e q \<Longrightarrow> e = TypeError"
proof -
  have "throws_type_errors (populate_views h d)"
    unfolding populate_views_def
    by (intro throws_run_Cons throws_run_Nil throws_populateFolkardView
        throws_populateShakespeareView throws_populateComparisonView)
  then show "populate_views h d p = Threw e q \<Longrightarrow> e = TypeError"
    by (auto simp add: throws_type_errors_def)
qed

section \<open>Loading the document\<close>

lemma populateFolkardView_unreadable:
  assumes "unreadable (chain (member ''texts'' (Some d)) (subscript 0))"
  shows "populateFolkardView h d p = Threw TypeError p"
proof (cases "chain (member ''texts'' (Some d)) (subscript 0)")
  case (Inl e)
  have "type_errors (chain (member ''texts'' (Some d)) (subscript 0))"
    by (intro type_errors_intros)
  with Inl show ?thesis by (simp add: populateFolkardView_def)
next
  case (Inr v)
  with assms have "v = None \<or> v = Some JNull" by (cases v) simp_all
  with Inr show ?thesis by (auto simp add: populateFolkardView_def setTextContent_def)
qed

lemma populateShakespeareView_unreadable:
  assumes "unreadable (chain (member ''texts'' (Some d)) (subscript 1))"
  shows "populateShakespeareView h d p = Threw TypeError p"
proof (cases "chain (member ''texts'' (Some d)) (subscript 1)")
  case (Inl e)
  have "type_errors (chain (member ''texts'' (Some d)) (subscript 1))"
    by (intro type_errors_intros)
  with Inl show ?thesis by (simp add: populateShakespeareView_def)
next
  case (Inr v)
  with assms have "v = None \<or> v = Some JNull" by (cases v) simp_all
  with Inr show ?thesis by (auto simp add: populateShakespeareView_def setTextContent_def)
qed

lemma populateComparisonView_unreadable:
  assumes "unreadable (member ''comparison'' (Some d))"
  shows "populateComparisonView h d p = Threw TypeError p"
proof (cases "member ''comparison'' (Some d)")
  case (Inl e)
  have "type_errors (member ''comparison'' (Some d))"
    by (intro type_errors_intros)
  with Inl show ?thesis by (simp add: populateComparisonView_def)
next
  case (Inr v)
  with assms have "v = None \<or> v = Some JNull" by (cases v) simp_all
  with Inr show ?thesis by (auto simp add: populateComparisonView_def setTextContent_def)
qed

lemma initialize_interface_keeps:
  "analysisData (initialize_interface h s) = analysisData s"
  "requests (initialize_interface h s) = requests s"
  by (simp_all add: initialize_interface_def catch_block_def split: result.splits)

lemma initialize_interface_console:
  "\<exists>rest. console (initialize_interface h s) = console s @ rest"
  by (simp add: initialize_interface_def catch_block_def split: result.splits)

lemma DOMContentLoaded_Json:
  "DOMContentLoaded h (network(length (requests s) := Response st (Json d))) s =
     (case populate_views h d (document s) of
        Threw e q \<Rightarrow>
          s\<lparr> requests := requests s @ [''analysis.json''],
             analysisData := d,
             document := q,
             console := console s @
               [Console_log ''Analysis data loaded:'' d,
                Console_error ''Error loading analysis data:'' TypeError],
             alerts := alerts s @
               [''Failed to load analysis data. Please ensure analysis.json exists.''] \<rparr>
      | Done q \<Rightarrow>
          s\<lparr> requests := requests s @ [''analysis.json''],
             analysisData := d,
             document := q,
             console := console s @ [Console_log ''Analysis data loaded:'' d],
             listeners := Some (setupNavigation q) \<rparr>)"
proof (cases "populate_views h d (document s)")
  case (Done q)
  then show ?thesis
    by (simp add: DOMContentLoaded_def Let_def initialize_interface_def)
next
  case (Threw e q)
  from populate_views_throws [OF this] Threw show ?thesis
    by (simp add: DOMContentLoaded_def Let_def initialize_interface_def catch_block_def)
qed

lemma short_texts:
  assumes "texts doc = [a]"
  shows "chain (member ''texts'' (Some (json_of_document doc))) (subscript 0) =
           Inr (Some (json_of_text a))"
    and "unreadable (chain (member ''texts'' (Some (json_of_document doc))) (subscript 1))"
  using assms by (simp_all add: document_members nth_opt_def)

lemma texts_only:
  "chain (member ''texts'' (Some (JObject [(''texts'', JArray (map json_of_text (a # b # rest)))])))
     (subscript 0) = Inr (Some (json_of_text a))"
  "chain (member ''texts'' (Some (JObject [(''texts'', JArray (map json_of_text (a # b # rest)))])))
     (subscript 1) = Inr (Some (json_of_text b))"
  "unreadable (member ''comparison''
     (Some (JObject [(''texts'', JArray (map json_of_text (a # b # rest)))])))"
  by (simp_all add: own_property_def nth_opt_def)

lemma populate_views_second:
  assumes "populateFolkardView h d p = Done p1" "populateShakespeareView h d p1 = Threw e p2"
  shows "populate_views h d p = Threw e p2"
  using assms by (simp add: populate_views_def)

lemma populate_views_third:
  assumes "populateFolkardView h d p = Done p1" "populateShakespeareView h d p1 = Done p2"
    and "populateComparisonView h d p2 = Threw e p3"
  shows "populate_views h d p = Threw e p3"
  using assms by (simp add: populate_views_def)

lemma populateShakespeareView_frame:
  assumes slots: "has_elements shakespeare_slots p"
    and first: "chain (member ''texts'' (Some D)) (subscript 1) = Inr (Some (json_of_text d))"
    and other: "j \<notin> set shakespeare_slots"
  shows "element_by_id j (state_of (populateShakespeareView h D p)) = element_by_id j p"
  using shakespeare_slots_present [OF slots] first other
  by (simp add: populateShakespeareView_def typed_simps run_simps element_update_by_id
      shakespeare_slots_def)

lemma no_comparison:
  assumes both: "has_elements (folkard_slots @ shakespeare_slots) p"
  shows "populate_views h (JObject [(''texts'', JArray (map json_of_text (a # b # rest)))]) p =
        Threw TypeError
          (state_of (populateShakespeareView h (JObject [(''texts'', JArray (map json_of_text (a # b # rest)))])
             (state_of (populateFolkardView h (JObject [(''texts'', JArray (map json_of_text (a # b # rest)))]) p))))"
    and "text_of ''folkard-total-words''
          (state_of (populateShakespeareView h (JObject [(''texts'', JArray (map json_of_text (a # b # rest)))])
             (state_of (populateFolkardView h (JObject [(''texts'', JArray (map json_of_text (a # b # rest)))]) p)))) =
        toLocaleString h (total_words a)"
    and "text_of ''shakespeare-total-words''
          (state_of (populateShakespeareView h (JObject [(''texts'', JArray (map json_of_text (a # b # rest)))])
             (state_of (populateFolkardView h (JObject [(''texts'', JArray (map json_of_text (a # b # rest)))]) p)))) =
        toLocaleString h (total_words b)"
proof -
  from both have fs: "has_elements folkard_slots p"
    and ss: "has_elements shakespeare_slots p"
    by (simp_all add: has_elements_def)
  define d where "d = JObject [(''texts'', JArray (map json_of_text (a # b # rest)))]"
  define p1 where "p1 = state_of (populateFolkardView h d p)"
  define p2 where "p2 = state_of (populateShakespeareView h d p1)"
  note F = populateFolkardView_effect [OF fs texts_only(1) [of a b rest], where h = h, folded d_def p1_def]
  have ss1: "has_elements shakespeare_slots p1"
    using ss F(2) by (simp add: has_elements_def)
  note S = populateShakespeareView_effect [OF ss1 texts_only(2) [of a b rest], where h = h,
      folded d_def p2_def]
  have "''folkard-total-words'' \<notin> set shakespeare_slots"
    by (simp add: shakespeare_slots_def)
  from populateShakespeareView_frame [OF ss1 texts_only(2) [of a b rest] this, where h = h,
      folded d_def p2_def]
  have kept: "text_of ''folkard-total-words'' p2 = text_of ''folkard-total-words'' p1"
    by (simp add: text_of_def)
  have thrown: "populate_views h d p = Threw TypeError p2"
    by (rule populate_views_third [OF F(1) S(1)
          populateComparisonView_unreadable [OF texts_only(3) [of a b rest], folded d_def]])
  have first: "text_of ''folkard-total-words'' p2 = toLocaleString h (total_words a)"
    using kept F(10) by simp
  note second = S(10)
  show "populate_views h (JObject [(''texts'', JArray (map json_of_text (a # b # rest)))]) p =
        Threw TypeError
          (state_of (populateShakespeareView h (JObject [(''texts'', JArray (map json_of_text (a # b # rest)))])
             (state_of (populateFolkardView h (JObject [(''texts'', JArray (map json_of_text (a # b # rest)))]) p))))"
    using thrown unfolding p2_def p1_def d_def .
  show "text_of ''folkard-total-words''
          (state_of (populateShakespeareView h (JObject [(''texts'', JArray (map json_of_text (a # b # rest)))])
             (state_of (populateFolkardView h (JObject [(''texts'', JArray (map json_of_text (a # b # rest)))]) p)))) =
        toLocaleString h (total_words a)"
    using first unfolding p2_def p1_def d_def .
  show "text_of ''shakespeare-total-words''
          (state_of (populateShakespeareView h (JObject [(''texts'', JArray (map json_of_text (a # b # rest)))])
             (state_of (populateFolkardView h (JObject [(''texts'', JArray (map json_of_text (a # b # rest)))]) p)))) =
        toLocaleString h (total_words b)"
    using second unfolding p2_def p1_def d_def .
qed

text \<open>
  C1, as stated, fails: the response below is JSON but not of the expected structure
  (one entry in \<open>texts\<close>); the error is surfaced, yet the first view has been populated
  by then: its total shows \<^verbatim>\<open>150,000\<close> and its word container holds two items.
\<close>

theorem partial_population_counterexample:
  "length (texts short_document) \<noteq> 2 \<and>
   alerts (DOMContentLoaded en_US_host short_network initial_app) =
     [''Failed to load analysis data. Please ensure analysis.json exists.''] \<and>
   text_of ''folkard-total-words'' (document initial_app) = [] \<and>
   text_of ''folkard-total-words''
     (document (DOMContentLoaded en_US_host short_network initial_app)) = ''150,000'' \<and>
   length (children_of ''folkard-top-words''
     (document (DOMContentLoaded en_US_host short_network initial_app))) = 2"
proof -
  define p1 where
    "p1 = state_of (populateFolkardView en_US_host (json_of_document short_document) sample_page)"
  have slots: "has_elements folkard_slots sample_page"
    by (rule all_slots(1) [OF sample_page_has_slots])
  have one: "texts short_document = [sample_text]" by (simp add: short_document_def)
  note F = populateFolkardView_effect [OF slots short_texts(1) [OF one], where h = en_US_host,
      folded p1_def]
  have "populate_views en_US_host (json_of_document short_document) sample_page =
        Threw TypeError p1"
    by (rule populate_views_second
        [OF F(1) populateShakespeareView_unreadable [OF short_texts(2) [OF one]]])
  then have run: "DOMContentLoaded en_US_host short_network initial_app =
      catch_block TypeError
        (initial_app\<lparr> requests := [''analysis.json''],
           analysisData := json_of_document short_document,
           console := [Console_log ''Analysis data loaded:'' (json_of_document short_document)],
           document := p1 \<rparr>)"
    by (simp add: DOMContentLoaded_def Let_def short_network_def initialize_interface_def
        initial_app_def)
  have shown: "toLocaleString en_US_host (total_words sample_text) = ''150,000''"
    by (simp add: sample_text_def number_eval split del: if_split)
  have len: "min (length (top_words sample_text)) 30 = 2"
    by (simp add: sample_text_def)
  have start: "alerts initial_app = []" "document initial_app = sample_page"
    by (simp_all add: initial_app_def)
  show ?thesis
    using one
    by (simp add: run catch_block_def start F(3) F(10) sample_page_empty shown len)
qed

text \<open>
  C1, amended. Whatever the network answers to later requests, the handler sends one
  request. When the fetch is rejected or the body is not JSON, it logs the error, alerts
  the user and changes nothing else: no populator has run, no slot has received data, no
  listener is attached. When the body is JSON, for any value, the value is stored and
  logged and the populators run in order until one throws; if one does, it is a
  \<^verbatim>\<open>TypeError\<close>, which is logged, the user is alerted, and the page keeps what was written
  before the throw: nothing when \<^verbatim>\<open>texts[0]\<close> cannot be read (as for \<^verbatim>\<open>null\<close> and \<^verbatim>\<open>{}\<close>), the whole
  first view when \<open>texts\<close> has one entry, the first two views when there is no
  \<open>comparison\<close>. If none throws, no error is surfaced.
\<close>

theorem load_failure_surfaced:
  "DOMContentLoaded h (network(length (requests s) := Rejected)) s =
     s\<lparr> requests := requests s @ [''analysis.json''],
        console := console s @ [Console_error ''Error loading analysis data:'' NetworkError],
        alerts := alerts s @
          [''Failed to load analysis data. Please ensure analysis.json exists.''] \<rparr> \<and>
   DOMContentLoaded h (network(length (requests s) := Response st Not_json)) s =
     s\<lparr> requests := requests s @ [''analysis.json''],
        console := console s @ [Console_error ''Error loading analysis data:'' SyntaxError],
        alerts := alerts s @
          [''Failed to load analysis data. Please ensure analysis.json exists.''] \<rparr> \<and>
   DOMContentLoaded h (network(length (requests s) := Response st (Json d))) s =
     (case populate_views h d (document s) of
        Threw e q \<Rightarrow>
          s\<lparr> requests := requests s @ [''analysis.json''],
             analysisData := d,
             document := q,
             console := console s @
               [Console_log ''Analysis data loaded:'' (d),
                Console_error ''Error loading analysis data:'' TypeError],
             alerts := alerts s @
               [''Failed to load analysis data. Please ensure analysis.json exists.''] \<rparr>
      | Done q \<Rightarrow>
          s\<lparr> requests := requests s @ [''analysis.json''],
             analysisData := d,
             document := q,
             console := console s @ [Console_log ''Analysis data loaded:'' d],
             listeners := Some (setupNavigation q) \<rparr>) \<and>
   (unreadable (chain (member ''texts'' (Some n)) (subscript 0)) \<longrightarrow>
      populate_views h n (document s) = Threw TypeError (document s)) \<and>
   (has_elements folkard_slots (document s) \<and> texts doc = [t] \<longrightarrow>
      populate_views h (json_of_document doc) (document s) =
        Threw TypeError (state_of (populateFolkardView h (json_of_document doc) (document s))) \<and>
      text_of ''folkard-total-words''
        (state_of (populateFolkardView h (json_of_document doc) (document s))) =
        toLocaleString h (total_words t) \<and>
      children_of ''folkard-top-words''
        (state_of (populateFolkardView h (json_of_document doc) (document s))) =
        children_of ''folkard-top-words'' (document s) @ map word_item (take 30 (top_words t))) \<and>
   (has_elements (folkard_slots @ shakespeare_slots) (document s) \<longrightarrow>
      populate_views h (JObject [(''texts'', JArray (map json_of_text (a # b # rest)))]) (document s) =
        Threw TypeError
          (state_of (populateShakespeareView h
           (JObject [(''texts'', JArray (map json_of_text (a # b # rest)))])
           (state_of (populateFolkardView h
             (JObject [(''texts'', JArray (map json_of_text (a # b # rest)))]) (document s))))) \<and>
      text_of ''folkard-total-words''
          (state_of (populateShakespeareView h
           (JObject [(''texts'', JArray (map json_of_text (a # b # rest)))])
           (state_of (populateFolkardView h
             (JObject [(''texts'', JArray (map json_of_text (a # b # rest)))]) (document s))))) =
        toLocaleString h (total_words a) \<and>
      text_of ''shakespeare-total-words''
          (state_of (populateShakespeareView h
           (JObject [(''texts'', JArray (map json_of_text (a # b # rest)))])
           (state_of (populateFolkardView h
             (JObject [(''texts'', JArray (map json_of_text (a # b # rest)))]) (document s))))) =
        toLocaleString h (total_words b))"
proof (intro conjI impI)
  show "DOMContentLoaded h (network(length (requests s) := Rejected)) s =
     s\<lparr> requests := requests s @ [''analysis.json''],
        console := console s @ [Console_error ''Error loading analysis data:'' NetworkError],
        alerts := alerts s @
          [''Failed to load analysis data. Please ensure analysis.json exists.''] \<rparr>"
    by (simp add: DOMContentLoaded_def catch_block_def)
  show "DOMContentLoaded h (network(length (requests s) := Response st Not_json)) s =
     s\<lparr> requests := requests s @ [''analysis.json''],
        console := console s @ [Console_error ''Error loading analysis data:'' SyntaxError],
        alerts := alerts s @
          [''Failed to load analysis data. Please ensure analysis.json exists.''] \<rparr>"
    by (simp add: DOMContentLoaded_def catch_block_def)
  show "DOMContentLoaded h (network(length (requests s) := Response st (Json d))) s =
     (case populate_views h d (document s) of
        Threw e q \<Rightarrow>
          s\<lparr> requests := requests s @ [''analysis.json''],
             analysisData := d,
             document := q,
             console := console s @
               [Console_log ''Analysis data loaded:'' (d),
                Console_error ''Error loading analysis data:'' TypeError],
             alerts := alerts s @
               [''Failed to load analysis data. Please ensure analysis.json exists.''] \<rparr>
      | Done q \<Rightarrow>
          s\<lparr> requests := requests s @ [''analysis.json''],
             analysisData := d,
             document := q,
             console := console s @ [Console_log ''Analysis data loaded:'' d],
             listeners := Some (setupNavigation q) \<rparr>)"
    by (rule DOMContentLoaded_Json)
next
  assume "unreadable (chain (member ''texts'' (Some n)) (subscript 0))"
  then show "populate_views h n (document s) = Threw TypeError (document s)"
    by (simp add: populate_views_def populateFolkardView_unreadable)
next
  assume "has_elements folkard_slots (document s) \<and> texts doc = [t]"
  then have slots: "has_elements folkard_slots (document s)" and one: "texts doc = [t]"
    by simp_all
  note F = populateFolkardView_effect [OF slots short_texts(1) [OF one], where h = h]
  show "populate_views h (json_of_document doc) (document s) =
        Threw TypeError (state_of (populateFolkardView h (json_of_document doc) (document s)))"
    by (rule populate_views_second
        [OF F(1) populateShakespeareView_unreadable [OF short_texts(2) [OF one]]])
  show "text_of ''folkard-total-words''
        (state_of (populateFolkardView h (json_of_document doc) (document s))) =
        toLocaleString h (total_words t)"
    by (rule F(10))
  show "children_of ''folkard-top-words''
        (state_of (populateFolkardView h (json_of_document doc) (document s))) =
        children_of ''folkard-top-words'' (document s) @ map word_item (take 30 (top_words t))"
    by (rule F(3))
next
  assume both: "has_elements (folkard_slots @ shakespeare_slots) (document s)"
  note N = no_comparison [OF both, of h a b rest]
  show "populate_views h (JObject [(''texts'', JArray (map json_of_text (a # b # rest)))]) (document s) =
        Threw TypeError
          (state_of (populateShakespeareView h
           (JObject [(''texts'', JArray (map json_of_text (a # b # rest)))])
           (state_of (populateFolkardView h
             (JObject [(''texts'', JArray (map json_of_text (a # b # rest)))]) (document s)))))"
    by (rule N(1))
  show "text_of ''folkard-total-words''
          (state_of (populateShakespeareView h
           (JObject [(''texts'', JArray (map json_of_text (a # b # rest)))])
           (state_of (populateFolkardView h
             (JObject [(''texts'', JArray (map json_of_text (a # b # rest)))]) (document s))))) =
        toLocaleString h (total_words a)"
    by (rule N(2))
  show "text_of ''shakespeare-total-words''
          (state_of (populateShakespeareView h
           (JObject [(''texts'', JArray (map json_of_text (a # b # rest)))])
           (state_of (populateFolkardView h
             (JObject [(''texts'', JArray (map json_of_text (a # b # rest)))]) (document s))))) =
        toLocaleString h (total_words b)"
    by (rule N(3))
qed

theorem load_failure_surfaced_witness:
  "unreadable (chain (member ''texts'' (Some (JObject []))) (subscript 0)) \<and>
   has_elements folkard_slots (document initial_app) \<and>
   texts short_document = [sample_text] \<and>
   has_elements (folkard_slots @ shakespeare_slots) (document initial_app) \<and>
   DOMContentLoaded en_US_host (short_network(length (requests initial_app) :=
       Response 200 (Json (JObject [])))) initial_app =
     initial_app\<lparr> requests := [''analysis.json''],
       analysisData := JObject [],
       console := [Console_log ''Analysis data loaded:'' (JObject []),
                   Console_error ''Error loading analysis data:'' TypeError],
       alerts := [''Failed to load analysis data. Please ensure analysis.json exists.''] \<rparr> \<and>
   populate_views en_US_host (json_of_document short_document) (document initial_app) =
     Threw TypeError
       (state_of (populateFolkardView en_US_host (json_of_document short_document)
          (document initial_app))) \<and>
   text_of ''folkard-total-words''
     (state_of (populateFolkardView en_US_host (json_of_document short_document)
        (document initial_app))) = ''150,000'' \<and>
   text_of ''shakespeare-total-words''
     (state_of (populateShakespeareView en_US_host
        (JObject [(''texts'', JArray (map json_of_text (sample_text # sample_text # [])))])
        (state_of (populateFolkardView en_US_host
           (JObject [(''texts'', JArray (map json_of_text (sample_text # sample_text # [])))])
           (document initial_app))))) = ''150,000''"
proof -
  have unread: "unreadable (chain (member ''texts'' (Some (JObject []))) (subscript 0))"
    by (simp add: own_property_def)
  have start: "document initial_app = sample_page" "requests initial_app = []"
    "console initial_app = []" "alerts initial_app = []"
    by (simp_all add: initial_app_def)
  have fs: "has_elements folkard_slots (document initial_app)"
    and both: "has_elements (folkard_slots @ shakespeare_slots) (document initial_app)"
    using sample_page_has_slots by (auto simp add: has_elements_def start)
  have one: "texts short_document = [sample_text]" by (simp add: short_document_def)
  have shown: "toLocaleString en_US_host (total_words sample_text) = ''150,000''"
    by (simp add: sample_text_def number_eval split del: if_split)
  note T = load_failure_surfaced [of en_US_host short_network initial_app 200 "JObject []"
      "JObject []" short_document sample_text sample_text sample_text "[]"]
  from T unread have "populate_views en_US_host (JObject []) (document initial_app) =
      Threw TypeError (document initial_app)"
    by blast
  with T have empty: "DOMContentLoaded en_US_host (short_network(length (requests initial_app) :=
       Response 200 (Json (JObject [])))) initial_app =
     initial_app\<lparr> requests := [''analysis.json''],
       analysisData := JObject [],
       console := [Console_log ''Analysis data loaded:'' (JObject []),
                   Console_error ''Error loading analysis data:'' TypeError],
       alerts := [''Failed to load analysis data. Please ensure analysis.json exists.''] \<rparr>"
    by (simp add: start)
  from T fs one have short:
    "populate_views en_US_host (json_of_document short_document) (document initial_app) =
     Threw TypeError
       (state_of (populateFolkardView en_US_host (json_of_document short_document)
          (document initial_app)))"
    "text_of ''folkard-total-words''
     (state_of (populateFolkardView en_US_host (json_of_document short_document)
        (document initial_app))) = toLocaleString en_US_host (total_words sample_text)"
    by blast+
  from T both have nocmp: "text_of ''shakespeare-total-words''
     (state_of (populateShakespeareView en_US_host
        (JObject [(''texts'', JArray (map json_of_text (sample_text # sample_text # [])))])
        (state_of (populateFolkardView en_US_host
           (JObject [(''texts'', JArray (map json_of_text (sample_text # sample_text # [])))])
           (document initial_app))))) = toLocaleString en_US_host (total_words sample_text)"
    by blast
  from unread fs one both empty short nocmp show ?thesis
    unfolding shown by (intro conjI)
qed

text \<open>
  C10, as stated, fails in its last part: the server below answers with status 200 and
  the body \<^verbatim>\<open>{}\<close>, which is JSON; the fetch does not throw and the body is parsed and
  stored, and yet the load is treated as failed: the error is logged and the user is
  alerted.
\<close>

theorem json_failure_counterexample:
  "empty_object_network (length (requests initial_app)) = Response 200 (Json (JObject [])) \<and>
   analysisData (DOMContentLoaded en_US_host empty_object_network initial_app) = JObject [] \<and>
   console (DOMContentLoaded en_US_host empty_object_network initial_app) =
     [Console_log ''Analysis data loaded:'' (JObject []),
      Console_error ''Error loading analysis data:'' TypeError] \<and>
   alerts (DOMContentLoaded en_US_host empty_object_network initial_app) =
     [''Failed to load analysis data. Please ensure analysis.json exists.'']"
proof -
  have "unreadable (chain (member ''texts'' (Some (JObject []))) (subscript 0))"
    by (simp add: own_property_def)
  then have "populate_views en_US_host (JObject []) sample_page = Threw TypeError sample_page"
    by (simp add: populate_views_def populateFolkardView_unreadable)
  then show ?thesis
    by (simp add: DOMContentLoaded_def Let_def empty_object_network_def initialize_interface_def
        initial_app_def catch_block_def)
qed

text \<open>
  C10, amended. The status of the response is never read: whatever the status, a response
  whose body is JSON is stored in \<^verbatim>\<open>analysisData\<close> and logged as loaded (the next console
  entry), and the interface is initialized from it, with the same result for status 404
  as for status 200. The \<^verbatim>\<open>catch\<close> block, which logs the error and alerts the user, is
  reached in three cases: a rejected fetch and a body that is not JSON, with nothing
  stored, and a populator that throws on the stored document; with a JSON body the user
  is alerted exactly when a populator throws. (\<open>network(k := r)\<close> is any network that
  answers \<open>r\<close> to the request at hand.)
\<close>

theorem loader_ignores_status:
  "DOMContentLoaded h (network(length (requests s) := Response st (Json d))) s =
     initialize_interface h
       (s\<lparr> requests := requests s @ [''analysis.json''],
           analysisData := d,
           console := console s @ [Console_log ''Analysis data loaded:'' d] \<rparr>) \<and>
   analysisData (DOMContentLoaded h (network(length (requests s) := Response st (Json d))) s) = d \<and>
   take (Suc (length (console s)))
     (console (DOMContentLoaded h (network(length (requests s) := Response st (Json d))) s)) =
     console s @ [Console_log ''Analysis data loaded:'' d] \<and>
   DOMContentLoaded h (network(length (requests s) := Response 404 (Json d))) s =
     DOMContentLoaded h (network(length (requests s) := Response 200 (Json d))) s \<and>
   DOMContentLoaded h (network(length (requests s) := Rejected)) s =
     catch_block NetworkError (s\<lparr>requests := requests s @ [''analysis.json'']\<rparr>) \<and>
   DOMContentLoaded h (network(length (requests s) := Response st Not_json)) s =
     catch_block SyntaxError (s\<lparr>requests := requests s @ [''analysis.json'']\<rparr>) \<and>
   alerts (DOMContentLoaded h (network(length (requests s) := Response st (Json d))) s) =
     (case populate_views h d (document s) of
        Threw e q \<Rightarrow> alerts s @
          [''Failed to load analysis data. Please ensure analysis.json exists.'']
      | Done q \<Rightarrow> alerts s) \<and>
   console (DOMContentLoaded h (network(length (requests s) := Response st (Json d))) s) =
     (case populate_views h d (document s) of
        Threw e q \<Rightarrow> console s @
          [Console_log ''Analysis data loaded:'' d,
           Console_error ''Error loading analysis data:'' TypeError]
      | Done q \<Rightarrow> console s @ [Console_log ''Analysis data loaded:'' d])"
proof -
  define s1 where "s1 = s\<lparr> requests := requests s @ [''analysis.json''],
      analysisData := d,
      console := console s @ [Console_log ''Analysis data loaded:'' d] \<rparr>"
  obtain rest where "console (initialize_interface h s1) = console s1 @ rest"
    using initialize_interface_console by blast
  then have "take (Suc (length (console s))) (console (initialize_interface h s1)) =
      console s @ [Console_log ''Analysis data loaded:'' d]"
    by (simp add: s1_def)
  then have status: "DOMContentLoaded h (network(length (requests s) := Response st (Json d))) s =
     initialize_interface h
       (s\<lparr> requests := requests s @ [''analysis.json''],
           analysisData := d,
           console := console s @ [Console_log ''Analysis data loaded:'' d] \<rparr>) \<and>
   analysisData (DOMContentLoaded h (network(length (requests s) := Response st (Json d))) s) = d \<and>
   take (Suc (length (console s)))
     (console (DOMContentLoaded h (network(length (requests s) := Response st (Json d))) s)) =
     console s @ [Console_log ''Analysis data loaded:'' d] \<and>
   DOMContentLoaded h (network(length (requests s) := Response 404 (Json d))) s =
     DOMContentLoaded h (network(length (requests s) := Response 200 (Json d))) s \<and>
   DOMContentLoaded h (network(length (requests s) := Rejected)) s =
     catch_block NetworkError (s\<lparr>requests := requests s @ [''analysis.json'']\<rparr>) \<and>
   DOMContentLoaded h (network(length (requests s) := Response st Not_json)) s =
     catch_block SyntaxError (s\<lparr>requests := requests s @ [''analysis.json'']\<rparr>)"
    by (simp add: DOMContentLoaded_def Let_def initialize_interface_keeps s1_def)
  have failed: "alerts (DOMContentLoaded h (network(length (requests s) := Response st (Json d))) s) =
     (case populate_views h d (document s) of
        Threw e q \<Rightarrow> alerts s @
          [''Failed to load analysis data. Please ensure analysis.json exists.'']
      | Done q \<Rightarrow> alerts s)"
    "console (DOMContentLoaded h (network(length (requests s) := Response st (Json d))) s) =
     (case populate_views h d (document s) of
        Threw e q \<Rightarrow> console s @
          [Console_log ''Analysis data loaded:'' d,
           Console_error ''Error loading analysis data:'' TypeError]
      | Done q \<Rightarrow> console s @ [Console_log ''Analysis data loaded:'' d])"
    by (simp_all add: DOMContentLoaded_Json split: result.splits)
  show ?thesis
    by (intro conjI)
      (rule status [THEN conjunct1] status [THEN conjunct2, THEN conjunct1]
         status [THEN conjunct2, THEN conjunct2, THEN conjunct1]
         status [THEN conjunct2, THEN conjunct2, THEN conjunct2, THEN conjunct1]
         status [THEN conjunct2, THEN conjunct2, THEN conjunct2, THEN conjunct2, THEN conjunct1]
         status [THEN conjunct2, THEN conjunct2, THEN conjunct2, THEN conjunct2, THEN conjunct2]
         failed)+
qed

end
